theory Spec2Isabelle
  imports Complex_Main "HOL-Library.Sublist"
begin

section \<open>Python text\<close>

text \<open>
  A Python \<open>str\<close> is modelled as a \<^typ>\<open>string\<close>: the list of its characters, each a
  code point below 256.  The functions of this section are the library functions the
  repository calls on text (\<open>str.strip\<close>, \<open>str.join\<close>, \<open>str.replace\<close>, \<open>str(int)\<close>,
  \<open>re.search\<close> with a literal pattern around a lazy group, \<open>textwrap.dedent\<close>).
\<close>

definition is_space :: "char \<Rightarrow> bool" where
  \<comment> \<open>\<open>str.isspace\<close> on one character: the code points 9-13, 28-32, 0x85 and 0xA0.\<close>
  "is_space c =
     (let n = (of_char c :: nat)
      in (9 \<le> n \<and> n \<le> 13) \<or> (28 \<le> n \<and> n \<le> 32) \<or> n = 133 \<or> n = 160)"

definition strip :: "string \<Rightarrow> string" where
  "strip s = rev (dropWhile is_space (rev (dropWhile is_space s)))"

fun join :: "string \<Rightarrow> string list \<Rightarrow> string" where
  "join sep [] = []"
| "join sep [x] = x"
| "join sep (x # y # ys) = x @ sep @ join sep (y # ys)"

fun split_first :: "string \<Rightarrow> string \<Rightarrow> (string \<times> string) option" where
  \<comment> \<open>the text before and after the leftmost occurrence of a non-empty needle\<close>
  "split_first needle [] = None"
| "split_first needle (c # cs) =
     (if prefix needle (c # cs) then Some ([], drop (length needle) (c # cs))
      else (case split_first needle cs of
              None \<Rightarrow> None
            | Some (before, after) \<Rightarrow> Some (c # before, after)))"

definition re_search_tag :: "string \<Rightarrow> string \<Rightarrow> string option" where
  \<comment> \<open>\<open>re.search(rf"<{tag}>(.*?)</{tag}>", text, re.DOTALL)\<close>: group 1 of the leftmost
      match, \<open>None\<close> when there is no match.  The leftmost opening tag that is followed by
      a closing tag is the first opening tag, and the lazy group stops at the first
      closing tag after it.\<close>
  "re_search_tag tag text =
     (case split_first (''<'' @ tag @ ''>'') text of
        None \<Rightarrow> None
      | Some (before, rest) \<Rightarrow>
          (case split_first (''</'' @ tag @ ''>'') rest of
             None \<Rightarrow> None
           | Some (inner, after) \<Rightarrow> Some inner))"

definition extract_tag :: "string \<Rightarrow> string \<Rightarrow> string" where
  \<comment> \<open>\<open>_extract_tag\<close> of \<open>src/tools.py\<close>\<close>
  "extract_tag text tag =
     (case re_search_tag tag text of
        None \<Rightarrow> []
      | Some inner \<Rightarrow> strip inner)"

function replace :: "string \<Rightarrow> string \<Rightarrow> string \<Rightarrow> string" where
  \<comment> \<open>\<open>text.replace(old, new)\<close> for a non-empty \<open>old\<close>\<close>
  "replace old new [] = []"
| "replace old new (c # cs) =
     (if prefix old (c # cs) then new @ replace old new (drop (length old - 1) cs)
      else c # replace old new cs)"
  by pat_completeness auto
termination
  by (relation "measure (\<lambda>(old, new, text). length text)") auto

definition digit_char :: "nat \<Rightarrow> char" where
  "digit_char d = char_of (48 + d)"

function str_nat :: "nat \<Rightarrow> string" where
  "str_nat n = (if n < 10 then [digit_char n] else str_nat (n div 10) @ [digit_char (n mod 10)])"
  by pat_completeness auto
termination
  by (relation "measure id") auto

definition str_int :: "int \<Rightarrow> string" where
  \<comment> \<open>\<open>str(i)\<close> of a Python int\<close>
  "str_int i = (if i < 0 then CHR ''-'' # str_nat (nat (- i)) else str_nat (nat i))"

subsection \<open>\<open>textwrap.dedent\<close>\<close>

text \<open>
  The library function as CPython up to 3.13 implements it: every line made of spaces and
  tabs only is emptied, the margin is the longest run of leading spaces and tabs common to
  the remaining non-empty lines, and the margin is removed from the start of every line
  that has it.  Lines are separated by the newline character only.
\<close>

fun split_lines :: "string \<Rightarrow> string list" where
  \<comment> \<open>\<open>text.split('\n')\<close>: never the empty list\<close>
  "split_lines [] = [[]]"
| "split_lines (c # cs) =
     (if c = CHR 0x0A then [] # split_lines cs
      else (case split_lines cs of
              [] \<Rightarrow> [[c]]
            | l # ls \<Rightarrow> (c # l) # ls))"

definition join_lines :: "string list \<Rightarrow> string" where
  "join_lines ls = join [CHR 0x0A] ls"

definition blank_char :: "char \<Rightarrow> bool" where
  "blank_char c = (c = CHR '' '' \<or> c = CHR 0x09)"

definition whitespace_only :: "string \<Rightarrow> bool" where
  \<comment> \<open>a line matched by \<open>^[ \t]+$\<close>\<close>
  "whitespace_only l = (l \<noteq> [] \<and> list_all blank_char l)"

definition empty_blank_line :: "string \<Rightarrow> string" where
  "empty_blank_line l = (if whitespace_only l then [] else l)"

definition normalize_blank_lines :: "string \<Rightarrow> string" where
  \<comment> \<open>\<open>_whitespace_only_re.sub('', text)\<close>\<close>
  "normalize_blank_lines text = join_lines (map empty_blank_line (split_lines text))"

definition leading_indents :: "string \<Rightarrow> string list" where
  \<comment> \<open>\<open>_leading_whitespace_re.findall(text)\<close>: the indent of every line that has a
      character other than space, tab and newline\<close>
  "leading_indents text =
     map (takeWhile blank_char) (filter (\<lambda>l. \<not> list_all blank_char l) (split_lines text))"

definition margin_step :: "string option \<Rightarrow> string \<Rightarrow> string option" where
  \<comment> \<open>one round of the loop over the indents\<close>
  "margin_step margin indent =
     (case margin of
        None \<Rightarrow> Some indent
      | Some m \<Rightarrow>
          if prefix m indent then Some m
          else if prefix indent m then Some indent
          else Some (longest_common_prefix m indent))"

definition remove_margin :: "string \<Rightarrow> string \<Rightarrow> string" where
  "remove_margin m l = (if prefix m l then drop (length m) l else l)"

definition dedent :: "string \<Rightarrow> string" where
  "dedent text =
     (let text1 = normalize_blank_lines text;
          margin = foldl margin_step None (leading_indents text1)
      in case margin of
           None \<Rightarrow> text1
         | Some m \<Rightarrow>
             if m = [] then text1
             else join_lines (map (remove_margin m) (split_lines text1)))"

section \<open>Exceptions, values and the outside world\<close>

text \<open>
  A raised exception is a value; a computation that may raise returns \<open>exn + 'a\<close> with
  \<open>Inl\<close> the exception.  Of the class of an exception the code only asks whether
  \<open>except Exception\<close> and \<open>except json.JSONDecodeError\<close> catch it.
\<close>

datatype exc_class = BaseException_only | Exception_other | JSONDecodeError

record exn =
  exc_class :: exc_class
  type_name :: string
  message :: string
  traceback :: string

text \<open>
  \<^const>\<open>type_name\<close> is \<open>type(exc).__name__\<close>, \<^const>\<open>message\<close> is \<open>str(exc)\<close> and
  \<^const>\<open>traceback\<close> is what \<open>traceback.format_exc()\<close> returns while the exception is
  handled.
\<close>

definition is_Exception :: "exn \<Rightarrow> bool" where
  \<comment> \<open>caught by \<open>except Exception\<close>; \<open>SystemExit\<close> and \<open>KeyboardInterrupt\<close> are not\<close>
  "is_Exception e = (exc_class e \<noteq> BaseException_only)"

type_synonym schema = "(string \<times> string) list"

record dataframe =
  df_schema :: schema
  df_sample :: string
  df_preview :: string

text \<open>
  A \<open>polars.DataFrame\<close> as far as the code looks at it: \<open>df.collect_schema().items()\<close>
  with each dtype rendered, \<open>df.head(3).to_dicts()\<close> rendered, and
  \<open>df.head(10).to_pandas().to_string(index=False)\<close> (the libraries these calls need are
  taken to be installed).
\<close>

record lazyframe =
  lf_schema :: "exn + schema"
  lf_collect :: "exn + dataframe"

text \<open>A \<open>polars.LazyFrame\<close>: \<open>lf.collect_schema()\<close> and \<open>lf.collect()\<close>, which may raise.\<close>

datatype pyobj = PyNone | DataFrame dataframe | LazyFrame lazyframe | Module string | Object string

fun py_type_name :: "pyobj \<Rightarrow> string" where
  \<comment> \<open>\<open>type(v).__name__\<close>; \<open>Object n\<close> is a value of any other type, named \<open>n\<close>\<close>
  "py_type_name PyNone = ''NoneType''"
| "py_type_name (DataFrame df) = ''DataFrame''"
| "py_type_name (LazyFrame lf) = ''LazyFrame''"
| "py_type_name (Module n) = ''module''"
| "py_type_name (Object n) = n"

type_synonym namespace = "(string \<times> pyobj) list"

fun is_DataFrame :: "pyobj \<Rightarrow> bool" where
  \<comment> \<open>\<open>isinstance(v, pl.DataFrame)\<close>\<close>
  "is_DataFrame (DataFrame df) = True"
| "is_DataFrame v = False"

definition namespace_get :: "namespace \<Rightarrow> string \<Rightarrow> pyobj" where
  \<comment> \<open>\<open>namespace.get(name)\<close>\<close>
  "namespace_get ns name = (case map_of ns name of None \<Rightarrow> PyNone | Some v \<Rightarrow> v)"

datatype pyfloat = Finite rat | PosInf | NegInf | NaN

datatype json =
    JNull
  | JBool bool
  | JInt int
  | JFloat pyfloat
  | JStr string
  | JList "json list"
  | JDict "(string \<times> json) list"

text \<open>The values \<open>json.loads\<close> returns; a \<open>dict\<close> is the list of its items, keys distinct.\<close>

fun truthy :: "json \<Rightarrow> bool" where
  "truthy JNull = False"
| "truthy (JBool b) = b"
| "truthy (JInt i) = (i \<noteq> 0)"
| "truthy (JFloat f) = (f \<noteq> Finite 0)"
| "truthy (JStr s) = (s \<noteq> [])"
| "truthy (JList xs) = (xs \<noteq> [])"
| "truthy (JDict kvs) = (kvs \<noteq> [])"

fun json_type_name :: "json \<Rightarrow> string" where
  "json_type_name JNull = ''NoneType''"
| "json_type_name (JBool b) = ''bool''"
| "json_type_name (JInt i) = ''int''"
| "json_type_name (JFloat f) = ''float''"
| "json_type_name (JStr s) = ''str''"
| "json_type_name (JList xs) = ''list''"
| "json_type_name (JDict kvs) = ''dict''"

subsection \<open>Configuration and the model client (\<open>src/config.py\<close>, \<open>src/utils/llm_factory.py\<close>)\<close>

record model_pair =
  primary :: string
  fallback :: string

record llm_config =
  provider :: string
  temperature :: rat
  max_tokens :: int
  max_retries :: int
  models :: "(string \<times> model_pair) list"

datatype chat_class = ChatGoogleGenerativeAI | ChatGroq

record client =
  client_class :: chat_class
  client_model :: string
  client_temperature :: rat
  client_max_tokens :: int

datatype system_prompt =
    POLARS_SYSTEM_PROMPT
  | SQL_SYSTEM_PROMPT
  | VIZ_SYSTEM_PROMPT
  | PLANNER_PROMPT
  | RESPONDER_PROMPT

text \<open>
  The five system prompts are module constants; a call to the model carries one of them
  and the user message.
\<close>

record world =
  get_settings :: "exn + llm_config"
  py_repr :: "string \<Rightarrow> string"
  own_traceback :: "string \<Rightarrow> string \<Rightarrow> string"
  llm_invoke :: "nat \<Rightarrow> client \<Rightarrow> system_prompt \<Rightarrow> string \<Rightarrow> exn + string"
  exec_code :: "nat \<Rightarrow> string \<Rightarrow> namespace \<Rightarrow> exn + namespace"
  duckdb_connect :: "nat \<Rightarrow> exn option"
  duckdb_execute :: "nat \<Rightarrow> dataframe \<Rightarrow> string \<Rightarrow> exn + dataframe"
  json_loads :: "string \<Rightarrow> exn + json"
  json_dumps :: "json \<Rightarrow> string"
  str_json :: "json \<Rightarrow> string"

text \<open>
  Everything outside the repository, as the functions the code calls:
  \<^item> \<^const>\<open>get_settings\<close>: \<open>get_settings().llm\<close>, cached for the process;
  \<^item> \<^const>\<open>py_repr\<close>: \<open>repr\<close> of a \<open>str\<close>;
  \<^item> \<^const>\<open>own_traceback\<close>: the text \<open>traceback.format_exc()\<close> gives for an exception that
    a \<open>raise\<close> statement of the repository raised, from its type name and message;
  \<^item> \<^const>\<open>llm_invoke\<close>: \<open>str(llm.invoke([SystemMessage, HumanMessage]).content)\<close>.  The
    first argument is the number of model calls made before this one, so that the
    model may answer the same request differently each time;
  \<^item> \<^const>\<open>exec_code\<close>: \<open>exec(code, namespace)\<close>, giving the namespace afterwards;
  \<^item> \<^const>\<open>duckdb_connect\<close> and \<^const>\<open>duckdb_execute\<close>: \<open>duckdb.connect()\<close> and
    \<open>conn.execute(sql_query).pl()\<close> followed by \<open>conn.close()\<close>, the materialised table
    in scope as \<open>sc_data\<close>;
  \<^item> \<^const>\<open>json_loads\<close>, \<^const>\<open>json_dumps\<close>: the \<open>json\<close> module; \<^const>\<open>str_json\<close>: \<open>str\<close> of
    a value that is not a \<open>str\<close>.
  The functions that run model-written code or a model-written query also take the
  number of model calls made so far.
\<close>

definition own_exception :: "world \<Rightarrow> string \<Rightarrow> string \<Rightarrow> exn" where
  \<comment> \<open>\<open>raise ValueError(msg)\<close> and the like, raised by the repository's own code\<close>
  "own_exception w name msg =
     \<lparr>exc_class = Exception_other, type_name = name, message = msg,
      traceback = own_traceback w name msg\<rparr>"

definition build_llm :: "world \<Rightarrow> bool \<Rightarrow> exn + client" where
  "build_llm w use_fallback =
     (case get_settings w of
        Inl e \<Rightarrow> Inl e
      | Inr settings \<Rightarrow>
          (case map_of (models settings) (provider settings) of
             None \<Rightarrow> Inl (own_exception w ''KeyError'' (py_repr w (provider settings)))
           | Some pair \<Rightarrow>
               (let model_name = replace ''groq/'' [] (if use_fallback then fallback pair else primary pair)
                in if provider settings = ''google'' then
                     Inr \<lparr>client_class = ChatGoogleGenerativeAI, client_model = model_name,
                          client_temperature = temperature settings,
                          client_max_tokens = max_tokens settings\<rparr>
                   else if provider settings = ''groq'' then
                     Inr \<lparr>client_class = ChatGroq, client_model = model_name,
                          client_temperature = temperature settings,
                          client_max_tokens = max_tokens settings\<rparr>
                   else
                     Inl (own_exception w ''ValueError''
                            (''Unsupported provider: '' @ [CHR 0x27] @ provider settings @ [CHR 0x27]
                             @ ''. Valid options: google | groq'')))))"

subsection \<open>The effects a run leaves behind\<close>

record llm_call =
  call_client :: client
  call_system :: system_prompt
  call_user :: string

record ext =
  llm_calls :: "llm_call list"
  code_runs :: "string list"
  sql_runs :: "string list"

text \<open>
  The calls made so far, in order: every \<open>llm.invoke\<close>, every \<open>exec\<close> of generated code and
  every \<open>conn.execute\<close>.
\<close>

definition invoke :: "world \<Rightarrow> client \<Rightarrow> system_prompt \<Rightarrow> string \<Rightarrow> ext \<Rightarrow> (exn + string) \<times> ext" where
  "invoke w llm sys user s =
     (llm_invoke w (length (llm_calls s)) llm sys user,
      s\<lparr>llm_calls := llm_calls s @ [\<lparr>call_client = llm, call_system = sys, call_user = user\<rparr>]\<rparr>)"

definition exec :: "world \<Rightarrow> string \<Rightarrow> namespace \<Rightarrow> ext \<Rightarrow> (exn + namespace) \<times> ext" where
  "exec w code ns s =
     (exec_code w (length (llm_calls s)) code ns, s\<lparr>code_runs := code_runs s @ [code]\<rparr>)"

section \<open>The tools (\<open>src/tools.py\<close>)\<close>

definition get_schema_info :: "lazyframe \<Rightarrow> exn + string" where
  \<comment> \<open>\<open>_get_schema_info\<close>\<close>
  "get_schema_info lf =
     (case lf_schema lf of
        Inl e \<Rightarrow> Inl e
      | Inr schema \<Rightarrow>
          Inr (''Dataset columns:\<newline>''
               @ join ''\<newline>'' (map (\<lambda>(col, dtype). ''  - '' @ col @ '': '' @ dtype) schema)))"

subsection \<open>PolarsAnalyst\<close>

record polars_analyst =
  pa_max_retries :: int

definition PolarsAnalyst :: polars_analyst where
  \<comment> \<open>\<open>PolarsAnalyst.__init__\<close>\<close>
  "PolarsAnalyst = \<lparr>pa_max_retries = 3\<rparr>"

record analysis =
  success :: bool
  result_df :: "dataframe option"
  generated_code :: string
  error :: "string option"
  attempts :: int

text \<open>The dict \<open>analyze\<close> returns.\<close>

datatype exit_point = In_loop | After_loop

text \<open>
  Which \<open>return\<close> statement of a retry loop produced the result: one inside the loop body,
  or the one after the \<open>for\<close> statement.
\<close>

datatype attempt_outcome = No_client exn | Uncaught exn | Caught exn | Succeeded

record iteration =
  it_attempt :: int
  it_use_fallback :: bool
  it_history :: "string list"
  it_call :: "llm_call option"
  it_outcome :: attempt_outcome

text \<open>
  The record of one round of a retry loop, kept beside the result: the value of
  \<open>attempt\<close> and of \<open>use_fallback\<close>, \<open>error_history\<close> as the round found it, the
  client, system prompt and user message of the model call it made (none when
  \<open>build_llm\<close> raised first), and how the round ended:
  \<open>build_llm\<close> raised, the \<open>try\<close> block raised something \<open>except Exception\<close> does not
  catch, the handler caught the exception, or the \<open>try\<close> block returned.
\<close>

definition build_prompt :: "string \<Rightarrow> string \<Rightarrow> string list \<Rightarrow> string" where
  \<comment> \<open>\<open>PolarsAnalyst._build_prompt\<close>\<close>
  "build_prompt question schema_info error_history =
     (let base = strip (dedent (
            ''\<newline>            '' @ schema_info @ ''\<newline>\<newline>            Question: '' @ question
            @ ''\<newline>\<newline>            Write Polars code to answer this question.\<newline>            Remember:\<newline>            - Input is `lf` (LazyFrame). Do not redefine it.\<newline>            - End with: result = lf.[...].collect()\<newline>            - result must be a polars.DataFrame\<newline>        ''))
      in if error_history = [] then base
         else
           (let errors = join ''\<newline>\<newline>---\<newline>'' error_history
            in strip (dedent (
                 ''\<newline>            '' @ base
                 @ ''\<newline>\<newline>            YOUR PREVIOUS CODE FAILED. Study these errors and fix them:\<newline>\<newline>            ''
                 @ errors
                 @ ''\<newline>\<newline>            Write corrected code now. Pay attention to:\<newline>            - group_by() not groupby()\<newline>            - .alias() for renaming columns\<newline>            - .collect() at the end\<newline>            - Correct column names from the schema above\<newline>        ''))))"

definition run_code :: "world \<Rightarrow> string \<Rightarrow> lazyframe \<Rightarrow> ext \<Rightarrow> (exn + dataframe) \<times> ext" where
  \<comment> \<open>\<open>PolarsAnalyst._run_code\<close>\<close>
  "run_code w code lf s =
     (case exec w code [(''pl'', Module ''polars''), (''lf'', LazyFrame lf)] s of
        (Inl e, s1) \<Rightarrow> (Inl e, s1)
      | (Inr namespace, s1) \<Rightarrow>
          (case namespace_get namespace ''result'' of
             PyNone \<Rightarrow>
               (Inl (own_exception w ''ValueError''
                  ''Code did not define a `result` variable. Make sure your code ends with: result = lf.[...].collect()''), s1)
           | DataFrame df \<Rightarrow> (Inr df, s1)
           | result \<Rightarrow>
               (Inl (own_exception w ''ValueError''
                  (''`result` must be a polars.DataFrame, got '' @ py_type_name result
                   @ ''. Did you forget .collect() at the end?'')), s1)))"

definition analyze_try ::
  "world \<Rightarrow> lazyframe \<Rightarrow> client \<Rightarrow> string \<Rightarrow> string \<Rightarrow> ext
     \<Rightarrow> (exn + dataframe \<times> string) \<times> string \<times> ext" where
  \<comment> \<open>the \<open>try\<close> block of \<open>analyze\<close>: what it raises or the table and the code it returns
      with, then \<open>last_code\<close> as the block leaves it\<close>
  "analyze_try w lf llm user_message last_code s =
     (case invoke w llm POLARS_SYSTEM_PROMPT user_message s of
        (Inl e, s1) \<Rightarrow> (Inl e, last_code, s1)
      | (Inr response_text, s1) \<Rightarrow>
          (let code = extract_tag response_text ''code''
           in if code = [] then
                (Inl (own_exception w ''ValueError''
                   (''LLM did not return a <code> block. Raw response: '' @ take 300 response_text)),
                 code, s1)
              else
                (case run_code w code lf s1 of
                   (Inl e, s2) \<Rightarrow> (Inl e, code, s2)
                 | (Inr df, s2) \<Rightarrow> (Inr (df, code), code, s2))))"

definition analyze_error_msg :: "int \<Rightarrow> exn \<Rightarrow> string" where
  "analyze_error_msg attempt exc =
     ''Attempt '' @ str_int attempt @ '' failed.\<newline>''
     @ ''Error type: '' @ type_name exc @ ''\<newline>''
     @ ''Error message: '' @ message exc @ ''\<newline>''
     @ ''Traceback:\<newline>'' @ traceback exc"

fun analyze_loop ::
  "world \<Rightarrow> int \<Rightarrow> string \<Rightarrow> string \<Rightarrow> lazyframe \<Rightarrow> int list \<Rightarrow> string list \<Rightarrow> string \<Rightarrow> ext
     \<Rightarrow> (exn + exit_point \<times> analysis) \<times> iteration list \<times> ext" where
  \<comment> \<open>the \<open>for\<close> statement of \<open>analyze\<close> over the attempts still to make, and the
      \<open>return\<close> after it\<close>
  "analyze_loop w R question schema_info lf [] error_history last_code s =
     (Inr (After_loop,
           \<lparr>success = False, result_df = None, generated_code = last_code,
            error = Some ''Unexpected exit from retry loop.'', attempts = R + 1\<rparr>),
      [], s)"
| "analyze_loop w R question schema_info lf (attempt # rest) error_history last_code s =
     (let use_fallback = (attempt > R)
      in case build_llm w use_fallback of
           Inl e \<Rightarrow>
             (Inl e,
              [\<lparr>it_attempt = attempt, it_use_fallback = use_fallback, it_history = error_history,
                it_call = None, it_outcome = No_client e\<rparr>],
              s)
         | Inr llm \<Rightarrow>
             (let user_message = build_prompt question schema_info error_history;
                  it = \<lparr>it_attempt = attempt, it_use_fallback = use_fallback,
                        it_history = error_history,
                        it_call = Some \<lparr>call_client = llm, call_system = POLARS_SYSTEM_PROMPT,
                                         call_user = user_message\<rparr>,
                        it_outcome = Succeeded\<rparr>
              in case analyze_try w lf llm user_message last_code s of
                   (Inr (df, code), last_code1, s1) \<Rightarrow>
                     (Inr (In_loop,
                           \<lparr>success = True, result_df = Some df, generated_code = code,
                            error = None, attempts = attempt\<rparr>),
                      [it], s1)
                 | (Inl exc, last_code1, s1) \<Rightarrow>
                     if \<not> is_Exception exc then
                       (Inl exc, [it\<lparr>it_outcome := Uncaught exc\<rparr>], s1)
                     else if attempt > R then
                       (Inr (In_loop,
                             \<lparr>success = False, result_df = None, generated_code = last_code1,
                              error = Some (message exc), attempts = attempt\<rparr>),
                        [it\<lparr>it_outcome := Caught exc\<rparr>], s1)
                     else
                       (case analyze_loop w R question schema_info lf rest
                               (error_history @ [analyze_error_msg attempt exc]) last_code1 s1 of
                          (r, its, s2) \<Rightarrow> (r, it\<lparr>it_outcome := Caught exc\<rparr> # its, s2))))"

definition analyze_run ::
  "world \<Rightarrow> polars_analyst \<Rightarrow> string \<Rightarrow> lazyframe \<Rightarrow> ext
     \<Rightarrow> (exn + exit_point \<times> analysis) \<times> iteration list \<times> ext" where
  \<comment> \<open>\<open>PolarsAnalyst.analyze\<close>, with the exit point and the rounds of the loop\<close>
  "analyze_run w self question lf s =
     (case get_schema_info lf of
        Inl e \<Rightarrow> (Inl e, [], s)
      | Inr schema_info \<Rightarrow>
          analyze_loop w (pa_max_retries self) question schema_info lf
            [1 .. pa_max_retries self + 1] [] [] s)"

definition analyze :: "world \<Rightarrow> polars_analyst \<Rightarrow> string \<Rightarrow> lazyframe \<Rightarrow> ext \<Rightarrow> (exn + analysis) \<times> ext" where
  \<comment> \<open>\<open>PolarsAnalyst.analyze\<close>\<close>
  "analyze w self question lf s =
     (case analyze_run w self question lf s of
        (r, its, s1) \<Rightarrow> (map_sum id snd r, s1))"

subsection \<open>SQLGenerator\<close>

record sql_generation =
  sql_success :: bool
  sql_query :: string
  sql_result_df :: "dataframe option"
  sql_error :: "string option"

text \<open>The dict \<open>SQLGenerator.generate\<close> returns: keys \<open>success\<close>, \<open>sql_query\<close>, \<open>result_df\<close>, \<open>error\<close>.\<close>

definition sql_user_message :: "string \<Rightarrow> string \<Rightarrow> string" where
  "sql_user_message schema_info question =
     strip (dedent (
       ''\<newline>            '' @ schema_info
       @ ''\<newline>\<newline>            Table name in DuckDB: sc_data\<newline>\<newline>            Question: '' @ question
       @ ''\<newline>\<newline>            Write a DuckDB SQL query to answer this.\<newline>        ''))"

definition execute_sql :: "world \<Rightarrow> dataframe \<Rightarrow> string \<Rightarrow> ext \<Rightarrow> (exn + dataframe) \<times> ext" where
  \<comment> \<open>\<open>duckdb.connect()\<close>, then \<open>conn.execute(sql_query).pl()\<close> and \<open>conn.close()\<close>\<close>
  "execute_sql w sc_data query s =
     (case duckdb_connect w (length (llm_calls s)) of
        Some e \<Rightarrow> (Inl e, s)
      | None \<Rightarrow>
          (duckdb_execute w (length (llm_calls s)) sc_data query,
           s\<lparr>sql_runs := sql_runs s @ [query]\<rparr>))"

definition sql_try ::
  "world \<Rightarrow> lazyframe \<Rightarrow> client \<Rightarrow> string \<Rightarrow> ext \<Rightarrow> (exn + dataframe) \<times> string \<times> ext" where
  \<comment> \<open>the \<open>try\<close> block of \<open>SQLGenerator.generate\<close>: what it raises or the table it returns
      with, then \<open>sql_query\<close> as the block leaves it\<close>
  "sql_try w lf llm user_message s =
     (case invoke w llm SQL_SYSTEM_PROMPT user_message s of
        (Inl e, s1) \<Rightarrow> (Inl e, [], s1)
      | (Inr response_text, s1) \<Rightarrow>
          (let query = extract_tag response_text ''sql''
           in if query = [] then
                (Inl (own_exception w ''ValueError'' ''LLM did not return a <sql> block.''), query, s1)
              else
                (case lf_collect lf of
                   Inl e \<Rightarrow> (Inl e, query, s1)
                 | Inr sc_data \<Rightarrow>
                     (case execute_sql w sc_data query s1 of
                        (Inl e, s2) \<Rightarrow> (Inl e, query, s2)
                      | (Inr df, s2) \<Rightarrow> (Inr df, query, s2)))))"

definition sql_generate :: "world \<Rightarrow> string \<Rightarrow> lazyframe \<Rightarrow> ext \<Rightarrow> (exn + sql_generation) \<times> ext" where
  \<comment> \<open>\<open>SQLGenerator.generate\<close>\<close>
  "sql_generate w question lf s =
     (case build_llm w False of
        Inl e \<Rightarrow> (Inl e, s)
      | Inr llm \<Rightarrow>
          (case get_schema_info lf of
             Inl e \<Rightarrow> (Inl e, s)
           | Inr schema_info \<Rightarrow>
               (case sql_try w lf llm (sql_user_message schema_info question) s of
                  (Inr df, query, s1) \<Rightarrow>
                    (Inr \<lparr>sql_success = True, sql_query = query, sql_result_df = Some df,
                          sql_error = None\<rparr>, s1)
                | (Inl exc, query, s1) \<Rightarrow>
                    if is_Exception exc then
                      (Inr \<lparr>sql_success = False, sql_query = query, sql_result_df = None,
                            sql_error = Some (message exc)\<rparr>, s1)
                    else (Inl exc, s1))))"

subsection \<open>VizGenerator\<close>

record viz_generator =
  vg_max_retries :: int

definition VizGenerator :: viz_generator where
  \<comment> \<open>\<open>VizGenerator.__init__\<close>\<close>
  "VizGenerator = \<lparr>vg_max_retries = 3\<rparr>"

record chart =
  chart_success :: bool
  figure :: pyobj
  chart_code :: string
  chart_error :: "string option"
  chart_attempts :: int

text \<open>
  The dict \<open>VizGenerator.generate\<close> returns: keys \<open>success\<close>, \<open>figure\<close>, \<open>generated_code\<close>,
  \<open>error\<close>, \<open>attempts\<close>.
\<close>

definition viz_base_prompt :: "string \<Rightarrow> dataframe \<Rightarrow> string" where
  "viz_base_prompt question df =
     (let col_info = join '', '' (map (\<lambda>(c, t). c @ ''('' @ t @ '')'') (df_schema df));
          sample = df_sample df
      in strip (dedent (
           ''\<newline>            Columns: '' @ col_info
           @ ''\<newline>            Sample rows: '' @ sample
           @ ''\<newline>            Chart request: '' @ question
           @ ''\<newline>            Write Plotly code. DataFrame is `df`. \<newline>            Assign result to `fig`.\<newline>        '')))"

definition viz_prompt :: "string \<Rightarrow> string list \<Rightarrow> string" where
  "viz_prompt base_prompt error_history =
     (if error_history \<noteq> [] then
        base_prompt @ ''\<newline>\<newline>Fix these errors:\<newline>'' @ join ''\<newline>\<newline>---\<newline>'' error_history
      else base_prompt)"

definition viz_try ::
  "world \<Rightarrow> dataframe \<Rightarrow> client \<Rightarrow> string \<Rightarrow> string \<Rightarrow> ext
     \<Rightarrow> (exn + pyobj \<times> string) \<times> string \<times> ext" where
  \<comment> \<open>the \<open>try\<close> block of \<open>VizGenerator.generate\<close>: what it raises or the figure and the
      code it returns with, then \<open>last_code\<close> as the block leaves it\<close>
  "viz_try w df llm prompt last_code s =
     (case invoke w llm VIZ_SYSTEM_PROMPT prompt s of
        (Inl e, s1) \<Rightarrow> (Inl e, last_code, s1)
      | (Inr response_text, s1) \<Rightarrow>
          (let code = extract_tag response_text ''code''
           in if code = [] then
                (Inl (own_exception w ''ValueError'' ''LLM returned no <code> block.''), code, s1)
              else
                (case exec w code
                        [(''df'', DataFrame df), (''go'', Module ''plotly.graph_objects''),
                         (''px'', Module ''plotly.express''), (''pl'', Module ''polars'')] s1 of
                   (Inl e, s2) \<Rightarrow> (Inl e, code, s2)
                 | (Inr namespace, s2) \<Rightarrow>
                     (case namespace_get namespace ''fig'' of
                        PyNone \<Rightarrow>
                          (Inl (own_exception w ''ValueError'' ''Code did not define a `fig` variable.''),
                           code, s2)
                      | fig \<Rightarrow> (Inr (fig, code), code, s2)))))"

definition viz_error_msg :: "int \<Rightarrow> exn \<Rightarrow> string" where
  "viz_error_msg attempt exc =
     ''Attempt '' @ str_int attempt @ '': '' @ type_name exc @ '': '' @ message exc @ ''\<newline>''
     @ traceback exc"

fun viz_loop ::
  "world \<Rightarrow> int \<Rightarrow> string \<Rightarrow> dataframe \<Rightarrow> int list \<Rightarrow> string list \<Rightarrow> string \<Rightarrow> ext
     \<Rightarrow> (exn + exit_point \<times> chart) \<times> iteration list \<times> ext" where
  \<comment> \<open>the \<open>for\<close> statement of \<open>generate\<close> over the attempts still to make, and the
      \<open>return\<close> after it\<close>
  "viz_loop w R base_prompt df [] error_history last_code s =
     (Inr (After_loop,
           \<lparr>chart_success = False, figure = PyNone, chart_code = last_code,
            chart_error = Some ''Unexpected exit.'', chart_attempts = R + 1\<rparr>),
      [], s)"
| "viz_loop w R base_prompt df (attempt # rest) error_history last_code s =
     (let use_fallback = (attempt > R)
      in case build_llm w use_fallback of
           Inl e \<Rightarrow>
             (Inl e,
              [\<lparr>it_attempt = attempt, it_use_fallback = use_fallback, it_history = error_history,
                it_call = None, it_outcome = No_client e\<rparr>],
              s)
         | Inr llm \<Rightarrow>
             (let prompt = viz_prompt base_prompt error_history;
                  it = \<lparr>it_attempt = attempt, it_use_fallback = use_fallback,
                        it_history = error_history,
                        it_call = Some \<lparr>call_client = llm, call_system = VIZ_SYSTEM_PROMPT,
                                         call_user = prompt\<rparr>,
                        it_outcome = Succeeded\<rparr>
              in case viz_try w df llm prompt last_code s of
                   (Inr (fig, code), last_code1, s1) \<Rightarrow>
                     (Inr (In_loop,
                           \<lparr>chart_success = True, figure = fig, chart_code = code,
                            chart_error = None, chart_attempts = attempt\<rparr>),
                      [it], s1)
                 | (Inl exc, last_code1, s1) \<Rightarrow>
                     if \<not> is_Exception exc then
                       (Inl exc, [it\<lparr>it_outcome := Uncaught exc\<rparr>], s1)
                     else if attempt > R then
                       (Inr (In_loop,
                             \<lparr>chart_success = False, figure = PyNone, chart_code = last_code1,
                              chart_error = Some (message exc), chart_attempts = attempt\<rparr>),
                        [it\<lparr>it_outcome := Caught exc\<rparr>], s1)
                     else
                       (case viz_loop w R base_prompt df rest
                               (error_history @ [viz_error_msg attempt exc]) last_code1 s1 of
                          (r, its, s2) \<Rightarrow> (r, it\<lparr>it_outcome := Caught exc\<rparr> # its, s2))))"

definition viz_run ::
  "world \<Rightarrow> viz_generator \<Rightarrow> string \<Rightarrow> dataframe \<Rightarrow> ext
     \<Rightarrow> (exn + exit_point \<times> chart) \<times> iteration list \<times> ext" where
  \<comment> \<open>\<open>VizGenerator.generate\<close>, with the exit point and the rounds of the loop\<close>
  "viz_run w self question df s =
     viz_loop w (vg_max_retries self) (viz_base_prompt question df) df
       [1 .. vg_max_retries self + 1] [] [] s"

definition viz_generate :: "world \<Rightarrow> viz_generator \<Rightarrow> string \<Rightarrow> dataframe \<Rightarrow> ext \<Rightarrow> (exn + chart) \<times> ext" where
  \<comment> \<open>\<open>VizGenerator.generate\<close>\<close>
  "viz_generate w self question df s =
     (case viz_run w self question df s of
        (r, its, s1) \<Rightarrow> (map_sum id snd r, s1))"

section \<open>The agents (\<open>src/agents\<close>)\<close>

subsection \<open>The shared state (\<open>state.py\<close>)\<close>

record agent_state =
  st_messages :: "string list"
  st_user_question :: string
  st_raw_dataframe :: "lazyframe option"
  st_plan :: "(string \<times> json) list"
  st_next_node :: json
  st_analysis_result :: "dataframe option"
  st_generated_code :: string
  st_sql_query :: string
  st_sql_result :: "dataframe option"
  st_figure :: pyobj
  st_error :: "string option"
  st_retry_count :: int
  st_final_answer :: string

text \<open>
  \<open>AgentState\<close>, one field per key; a message is its content.  \<open>next_node\<close> is declared a
  \<open>str\<close>, but the planner stores there whatever value the plan has under \<open>routing\<close>, so the
  field holds a JSON value.  \<open>figure\<close> is any object, \<open>None\<close> included.
\<close>

record state_update =
  up_plan :: "(string \<times> json) list option"
  up_next_node :: "json option"
  up_messages :: "string list"
  up_analysis_result :: "dataframe option option"
  up_generated_code :: "string option"
  up_sql_query :: "string option"
  up_sql_result :: "dataframe option option"
  up_figure :: "pyobj option"
  up_error :: "string option option"
  up_final_answer :: "string option"

text \<open>
  The dict a node returns: \<open>None\<close> for a key it leaves out, \<open>Some v\<close> for a key it sets to
  \<open>v\<close> (so \<open>Some None\<close> sets the key to Python's \<open>None\<close>); \<open>messages\<close> are the messages it adds.
\<close>

definition no_update :: state_update where
  "no_update =
     \<lparr>up_plan = None, up_next_node = None, up_messages = [], up_analysis_result = None,
      up_generated_code = None, up_sql_query = None, up_sql_result = None, up_figure = None,
      up_error = None, up_final_answer = None\<rparr>"

definition merge :: "agent_state \<Rightarrow> state_update \<Rightarrow> agent_state" where
  \<comment> \<open>what the graph does with a node's update: the keys returned replace the state's,
      \<open>messages\<close> are appended (\<open>add_messages\<close>)\<close>
  "merge state u =
     state
       \<lparr>st_messages := st_messages state @ up_messages u,
        st_plan := (case up_plan u of None \<Rightarrow> st_plan state | Some v \<Rightarrow> v),
        st_next_node := (case up_next_node u of None \<Rightarrow> st_next_node state | Some v \<Rightarrow> v),
        st_analysis_result :=
          (case up_analysis_result u of None \<Rightarrow> st_analysis_result state | Some v \<Rightarrow> v),
        st_generated_code :=
          (case up_generated_code u of None \<Rightarrow> st_generated_code state | Some v \<Rightarrow> v),
        st_sql_query := (case up_sql_query u of None \<Rightarrow> st_sql_query state | Some v \<Rightarrow> v),
        st_sql_result := (case up_sql_result u of None \<Rightarrow> st_sql_result state | Some v \<Rightarrow> v),
        st_figure := (case up_figure u of None \<Rightarrow> st_figure state | Some v \<Rightarrow> v),
        st_error := (case up_error u of None \<Rightarrow> st_error state | Some v \<Rightarrow> v),
        st_final_answer :=
          (case up_final_answer u of None \<Rightarrow> st_final_answer state | Some v \<Rightarrow> v)\<rparr>"

definition dict_get :: "(string \<times> json) list \<Rightarrow> string \<Rightarrow> json \<Rightarrow> json" where
  \<comment> \<open>\<open>d.get(key, default)\<close>\<close>
  "dict_get d key dflt = (case map_of d key of None \<Rightarrow> dflt | Some v \<Rightarrow> v)"

subsection \<open>The planner (\<open>planner.py\<close>)\<close>

definition default_plan :: "string \<Rightarrow> (string \<times> json) list" where
  \<comment> \<open>the plan of the \<open>except json.JSONDecodeError\<close> branch\<close>
  "default_plan question =
     [(''intent'', JStr ''analysis''),
      (''primary_task'', JStr question),
      (''requires_sql'', JBool False),
      (''requires_viz'', JBool False),
      (''chart_type'', JNull),
      (''complexity'', JStr ''low''),
      (''routing'', JStr ''executor'')]"

definition planner_schema_info :: "lazyframe option \<Rightarrow> exn + string" where
  "planner_schema_info lf =
     (case lf of
        None \<Rightarrow> Inr []
      | Some lf \<Rightarrow>
          (case lf_schema lf of
             Inl e \<Rightarrow> Inl e
           | Inr schema \<Rightarrow>
               Inr (''\<newline>Dataset columns:\<newline>''
                    @ join ''\<newline>'' (map (\<lambda>(col, dtype). ''  - '' @ col @ '': '' @ dtype) schema))))"

definition planner_raw_json :: "string \<Rightarrow> string" where
  \<comment> \<open>\<open>match.group(1).strip() if match else response_text.strip()\<close>\<close>
  "planner_raw_json response_text =
     (case re_search_tag ''plan'' response_text of
        Some inner \<Rightarrow> strip inner
      | None \<Rightarrow> strip response_text)"

definition planner_parse :: "world \<Rightarrow> string \<Rightarrow> string \<Rightarrow> exn + json" where
  \<comment> \<open>the \<open>try\<close> statement around \<open>json.loads\<close>\<close>
  "planner_parse w question raw_json =
     (case json_loads w raw_json of
        Inr plan \<Rightarrow> Inr plan
      | Inl e \<Rightarrow> if exc_class e = JSONDecodeError then Inr (JDict (default_plan question)) else Inl e)"

definition planner_node :: "world \<Rightarrow> agent_state \<Rightarrow> ext \<Rightarrow> (exn + state_update) \<times> ext" where
  "planner_node w state s =
     (case build_llm w False of
        Inl e \<Rightarrow> (Inl e, s)
      | Inr llm \<Rightarrow>
          (let question = st_user_question state
           in case planner_schema_info (st_raw_dataframe state) of
                Inl e \<Rightarrow> (Inl e, s)
              | Inr schema_info \<Rightarrow>
                  (let user_prompt = ''User Question: '' @ question @ schema_info
                   in case invoke w llm PLANNER_PROMPT user_prompt s of
                        (Inl e, s1) \<Rightarrow> (Inl e, s1)
                      | (Inr response_text, s1) \<Rightarrow>
                          (case planner_parse w question (planner_raw_json response_text) of
                             Inl e \<Rightarrow> (Inl e, s1)
                           | Inr (JDict plan) \<Rightarrow>
                               (let routing = dict_get plan ''routing'' (JStr ''executor'');
                                    next_node = (if routing = JStr ''multi'' then JStr ''executor'' else routing)
                                in (Inr (no_update
                                      \<lparr>up_plan := Some plan,
                                       up_next_node := Some next_node,
                                       up_messages := [''Plan created: '' @ json_dumps w (JDict plan)]\<rparr>),
                                    s1))
                           | Inr plan \<Rightarrow>
                               (Inl (own_exception w ''AttributeError''
                                      ([CHR 0x27] @ json_type_name plan @ [CHR 0x27]
                                       @ '' object has no attribute '' @ [CHR 0x27] @ ''get'' @ [CHR 0x27])),
                                s1)))))"

subsection \<open>The executors and the responder (\<open>executor.py\<close>)\<close>

definition analysis_executor_node :: "world \<Rightarrow> agent_state \<Rightarrow> ext \<Rightarrow> (exn + state_update) \<times> ext" where
  "analysis_executor_node w state s =
     (case st_raw_dataframe state of
        None \<Rightarrow>
          (Inr (no_update
             \<lparr>up_error := Some (Some ''No dataset loaded. Please upload a CSV file first.''),
              up_next_node := Some (JStr ''responder'')\<rparr>), s)
      | Some lf \<Rightarrow>
          (case analyze w PolarsAnalyst (st_user_question state) lf s of
             (Inl e, s1) \<Rightarrow> (Inl e, s1)
           | (Inr result, s1) \<Rightarrow>
               if success result then
                 (let plan = st_plan state;
                      next_node = (if truthy (dict_get plan ''requires_viz'' JNull)
                                   then ''viz_node'' else ''responder'')
                  in (Inr (no_update
                        \<lparr>up_analysis_result := Some (result_df result),
                         up_generated_code := Some (generated_code result),
                         up_error := Some None,
                         up_next_node := Some (JStr next_node),
                         up_messages :=
                           [''Analysis complete after '' @ str_int (attempts result)
                            @ '' attempt(s).\<newline>Code used:\<newline>'' @ generated_code result]\<rparr>),
                      s1))
               else
                 (Inr (no_update
                    \<lparr>up_error := Some (error result),
                     up_generated_code := Some (generated_code result),
                     up_next_node := Some (JStr ''responder'')\<rparr>), s1)))"

definition sql_executor_node :: "world \<Rightarrow> agent_state \<Rightarrow> ext \<Rightarrow> (exn + state_update) \<times> ext" where
  "sql_executor_node w state s =
     (case st_raw_dataframe state of
        None \<Rightarrow>
          (Inr (no_update
             \<lparr>up_error := Some (Some ''No dataset loaded.''),
              up_next_node := Some (JStr ''responder'')\<rparr>), s)
      | Some lf \<Rightarrow>
          (case sql_generate w (st_user_question state) lf s of
             (Inl e, s1) \<Rightarrow> (Inl e, s1)
           | (Inr result, s1) \<Rightarrow>
               if sql_success result then
                 (Inr (no_update
                    \<lparr>up_sql_query := Some (sql_query result),
                     up_sql_result := Some (sql_result_df result),
                     up_error := Some None,
                     up_next_node := Some (JStr ''responder''),
                     up_messages :=
                       [''SQL generated:\<newline>```sql\<newline>'' @ sql_query result @ ''\<newline>```'']\<rparr>),
                  s1)
               else
                 (Inr (no_update
                    \<lparr>up_sql_query := Some (sql_query result),
                     up_error := Some (sql_error result),
                     up_next_node := Some (JStr ''responder'')\<rparr>), s1)))"

definition str_of_json :: "world \<Rightarrow> json \<Rightarrow> string" where
  \<comment> \<open>how an f-string renders a plan value\<close>
  "str_of_json w v = (case v of JStr t \<Rightarrow> t | _ \<Rightarrow> str_json w v)"

definition viz_executor_node :: "world \<Rightarrow> agent_state \<Rightarrow> ext \<Rightarrow> (exn + state_update) \<times> ext" where
  "viz_executor_node w state s =
     (let question = st_user_question state;
          no_data = (Inr (no_update
                       \<lparr>up_error := Some (Some ''No data available for visualization.''),
                        up_next_node := Some (JStr ''responder'')\<rparr>), s);
          generate = (\<lambda>df.
            (let plan = st_plan state;
                 chart_type = dict_get plan ''chart_type'' (JStr []);
                 viz_question = (if truthy chart_type
                                 then str_of_json w chart_type @ '' chart: '' @ question
                                 else question)
             in case viz_generate w VizGenerator viz_question df s of
                  (Inl e, s1) \<Rightarrow> (Inl e, s1)
                | (Inr result, s1) \<Rightarrow>
                    if chart_success result then
                      (Inr (no_update
                         \<lparr>up_figure := Some (figure result),
                          up_error := Some None,
                          up_next_node := Some (JStr ''responder''),
                          up_messages :=
                            [''Chart created after '' @ str_int (chart_attempts result) @ '' attempt(s).'']\<rparr>),
                       s1)
                    else
                      (Inr (no_update
                         \<lparr>up_error := Some (chart_error result),
                          up_next_node := Some (JStr ''responder'')\<rparr>), s1)))
      in case st_analysis_result state of
           Some df \<Rightarrow> generate df
         | None \<Rightarrow>
             (case st_raw_dataframe state of
                None \<Rightarrow> no_data
              | Some lf \<Rightarrow>
                  (case lf_collect lf of
                     Inl e \<Rightarrow> (Inl e, s)
                   | Inr df \<Rightarrow> generate df)))"

definition responder_context :: "agent_state \<Rightarrow> string" where
  "responder_context state =
     join ''\<newline>\<newline>''
       ([''User Question: '' @ st_user_question state]
        @ (case st_error state of
             None \<Rightarrow> []
           | Some err \<Rightarrow> if err = [] then [] else [''Error: '' @ err])
        @ (case st_analysis_result state of
             None \<Rightarrow> []
           | Some df \<Rightarrow> [''Analysis Result:\<newline>'' @ df_preview df])
        @ (if st_sql_query state = [] then [] else [''SQL Query:\<newline>'' @ st_sql_query state])
        @ (case st_sql_result state of
             None \<Rightarrow> []
           | Some sql_df \<Rightarrow> [''SQL Result:\<newline>'' @ df_preview sql_df])
        @ (if st_figure state = PyNone then [] else [''A chart has been generated and displayed.'']))"

definition responder_node :: "world \<Rightarrow> agent_state \<Rightarrow> ext \<Rightarrow> (exn + state_update) \<times> ext" where
  "responder_node w state s =
     (case build_llm w False of
        Inl e \<Rightarrow> (Inl e, s)
      | Inr llm \<Rightarrow>
          (case invoke w llm RESPONDER_PROMPT (responder_context state) s of
             (Inl e, s1) \<Rightarrow> (Inl e, s1)
           | (Inr final_answer, s1) \<Rightarrow>
               (Inr (no_update
                  \<lparr>up_final_answer := Some final_answer,
                   up_next_node := Some (JStr ''end''),
                   up_messages := [final_answer]\<rparr>), s1)))"

subsection \<open>The graph (\<open>graph.py\<close>)\<close>

datatype node = Planner | Executor | Sql_node | Viz_node | Responder

definition route_after_planner :: "world \<Rightarrow> agent_state \<Rightarrow> exn + string" where
  \<comment> \<open>\<open>_route_after_planner\<close>; \<open>route not in valid\<close> hashes \<open>route\<close>, which raises for a list
      and for a dict\<close>
  "route_after_planner w state =
     (case st_next_node state of
        JStr route \<Rightarrow>
          if route \<in> set [''executor'', ''sql_node'', ''viz_node'', ''responder''] then Inr route
          else Inr ''executor''
      | JList xs \<Rightarrow>
          Inl (own_exception w ''TypeError'' (''unhashable type: '' @ [CHR 0x27] @ ''list'' @ [CHR 0x27]))
      | JDict kvs \<Rightarrow>
          Inl (own_exception w ''TypeError'' (''unhashable type: '' @ [CHR 0x27] @ ''dict'' @ [CHR 0x27]))
      | _ \<Rightarrow> Inr ''executor'')"

definition route_after_executor :: "agent_state \<Rightarrow> string" where
  \<comment> \<open>\<open>_route_after_executor\<close>\<close>
  "route_after_executor state =
     (if st_next_node state = JStr ''viz_node'' then ''viz_node'' else ''responder'')"

definition node_of_name :: "string \<Rightarrow> node" where
  \<comment> \<open>the path maps of the two conditional edges, on the names the routers return\<close>
  "node_of_name name =
     (if name = ''executor'' then Executor
      else if name = ''sql_node'' then Sql_node
      else if name = ''viz_node'' then Viz_node
      else Responder)"

definition run_node ::
  "(world \<Rightarrow> agent_state \<Rightarrow> ext \<Rightarrow> (exn + state_update) \<times> ext)
     \<Rightarrow> world \<Rightarrow> agent_state \<Rightarrow> ext \<Rightarrow> (exn + agent_state) \<times> ext" where
  \<comment> \<open>run one node and merge what it returns into the state\<close>
  "run_node f w state s =
     (case f w state s of
        (Inl e, s1) \<Rightarrow> (Inl e, s1)
      | (Inr u, s1) \<Rightarrow> (Inr (merge state u), s1))"

definition from_responder :: "world \<Rightarrow> agent_state \<Rightarrow> ext \<Rightarrow> (exn + agent_state) \<times> node list \<times> ext" where
  \<comment> \<open>the graph from \<open>responder\<close> on: the node, then \<open>END\<close>\<close>
  "from_responder w state s =
     (case run_node responder_node w state s of (r, s1) \<Rightarrow> (r, [Responder], s1))"

definition from_viz_node :: "world \<Rightarrow> agent_state \<Rightarrow> ext \<Rightarrow> (exn + agent_state) \<times> node list \<times> ext" where
  "from_viz_node w state s =
     (case run_node viz_executor_node w state s of
        (Inl e, s1) \<Rightarrow> (Inl e, [Viz_node], s1)
      | (Inr state1, s1) \<Rightarrow>
          (case from_responder w state1 s1 of (r, path, s2) \<Rightarrow> (r, Viz_node # path, s2)))"

definition from_sql_node :: "world \<Rightarrow> agent_state \<Rightarrow> ext \<Rightarrow> (exn + agent_state) \<times> node list \<times> ext" where
  "from_sql_node w state s =
     (case run_node sql_executor_node w state s of
        (Inl e, s1) \<Rightarrow> (Inl e, [Sql_node], s1)
      | (Inr state1, s1) \<Rightarrow>
          (case from_responder w state1 s1 of (r, path, s2) \<Rightarrow> (r, Sql_node # path, s2)))"

definition from_executor :: "world \<Rightarrow> agent_state \<Rightarrow> ext \<Rightarrow> (exn + agent_state) \<times> node list \<times> ext" where
  "from_executor w state s =
     (case run_node analysis_executor_node w state s of
        (Inl e, s1) \<Rightarrow> (Inl e, [Executor], s1)
      | (Inr state1, s1) \<Rightarrow>
          (case (if node_of_name (route_after_executor state1) = Viz_node
                 then from_viz_node w state1 s1 else from_responder w state1 s1) of
             (r, path, s2) \<Rightarrow> (r, Executor # path, s2)))"

definition abi_graph_invoke :: "world \<Rightarrow> agent_state \<Rightarrow> ext \<Rightarrow> (exn + agent_state) \<times> node list \<times> ext" where
  \<comment> \<open>\<open>abi_graph.invoke(initial_state)\<close>: the final state or the exception, and the nodes
      that ran, in order\<close>
  "abi_graph_invoke w state s =
     (case run_node planner_node w state s of
        (Inl e, s1) \<Rightarrow> (Inl e, [Planner], s1)
      | (Inr state1, s1) \<Rightarrow>
          (case route_after_planner w state1 of
             Inl e \<Rightarrow> (Inl e, [Planner], s1)
           | Inr name \<Rightarrow>
               (case (case node_of_name name of
                        Executor \<Rightarrow> from_executor w state1 s1
                      | Sql_node \<Rightarrow> from_sql_node w state1 s1
                      | Viz_node \<Rightarrow> from_viz_node w state1 s1
                      | _ \<Rightarrow> from_responder w state1 s1) of
                  (r, path, s2) \<Rightarrow> (r, Planner # path, s2))))"

definition initial_state :: "string \<Rightarrow> lazyframe option \<Rightarrow> agent_state" where
  \<comment> \<open>the state \<open>app.py\<close> starts the graph with\<close>
  "initial_state question lf =
     \<lparr>st_messages = [], st_user_question = question, st_raw_dataframe = lf, st_plan = [],
      st_next_node = JStr [], st_analysis_result = None, st_generated_code = [], st_sql_query = [],
      st_sql_result = None, st_figure = PyNone, st_error = None, st_retry_count = 0,
      st_final_answer = []\<rparr>"

section \<open>Reading a run of a retry loop\<close>

definition caught :: "iteration \<Rightarrow> bool" where
  \<comment> \<open>the round failed: its \<open>try\<close> block raised and the \<open>except Exception\<close> handler ran\<close>
  "caught it = (case it_outcome it of Caught exc \<Rightarrow> True | _ \<Rightarrow> False)"

definition new_calls :: "ext \<Rightarrow> ext \<Rightarrow> llm_call list" where
  \<comment> \<open>the model calls made between two states of the outside world\<close>
  "new_calls s s' = drop (length (llm_calls s)) (llm_calls s')"

definition built_with :: "world \<Rightarrow> bool \<Rightarrow> llm_call \<Rightarrow> bool" where
  \<comment> \<open>the call went to the client \<open>build_llm(use_fallback=b)\<close> returns\<close>
  "built_with w b c = (build_llm w b = Inr (call_client c))"

definition loop_round :: "int \<Rightarrow> int \<Rightarrow> string list \<Rightarrow> llm_call option \<Rightarrow> attempt_outcome \<Rightarrow> iteration" where
  "loop_round R a h c out =
     \<lparr>it_attempt = a, it_use_fallback = (a > R), it_history = h, it_call = c, it_outcome = out\<rparr>"

definition viz_namespace :: "dataframe \<Rightarrow> namespace" where
  \<comment> \<open>the namespace \<open>VizGenerator.generate\<close> runs generated code in\<close>
  "viz_namespace df =
     [(''df'', DataFrame df), (''go'', Module ''plotly.graph_objects''),
      (''px'', Module ''plotly.express''), (''pl'', Module ''polars'')]"

definition analysis_namespace :: "lazyframe \<Rightarrow> namespace" where
  \<comment> \<open>the namespace \<open>PolarsAnalyst._run_code\<close> runs generated code in\<close>
  "analysis_namespace lf = [(''pl'', Module ''polars''), (''lf'', LazyFrame lf)]"

definition viz_question :: "world \<Rightarrow> agent_state \<Rightarrow> string" where
  \<comment> \<open>the request \<open>viz_executor_node\<close> hands to \<open>VizGenerator.generate\<close>\<close>
  "viz_question w st =
     (if truthy (dict_get (st_plan st) ''chart_type'' (JStr []))
      then str_of_json w (dict_get (st_plan st) ''chart_type'' (JStr [])) @ '' chart: ''
           @ st_user_question st
      else st_user_question st)"

definition node_fun :: "node \<Rightarrow> world \<Rightarrow> agent_state \<Rightarrow> ext \<Rightarrow> (exn + state_update) \<times> ext" where
  \<comment> \<open>the function \<open>build_graph\<close> registers under each node name\<close>
  "node_fun n =
     (case n of
        Planner \<Rightarrow> planner_node
      | Executor \<Rightarrow> analysis_executor_node
      | Sql_node \<Rightarrow> sql_executor_node
      | Viz_node \<Rightarrow> viz_executor_node
      | Responder \<Rightarrow> responder_node)"

section \<open>Sample worlds\<close>

text \<open>
  Concrete settings, datasets and outside worlds, on which the statements below are
  exercised.
\<close>

definition sample_settings :: llm_config where
  "sample_settings =
     \<lparr>provider = ''groq'', temperature = 0, max_tokens = 4096, max_retries = 3,
      models = [(''google'', \<lparr>primary = ''gemini-2.0-flash'', fallback = ''gemini-1.5-flash''\<rparr>),
                (''groq'', \<lparr>primary = ''groq/llama-3.3-70b'', fallback = ''groq/llama-3.1-8b''\<rparr>)]\<rparr>"

definition sample_df :: dataframe where
  "sample_df =
     \<lparr>df_schema = [(''supplier_name'', ''String''), (''total_revenue'', ''Float64'')],
      df_sample = ''[]'',
      df_preview = ''supplier_name total_revenue''\<rparr>"

definition sample_lf :: lazyframe where
  "sample_lf =
     \<lparr>lf_schema = Inr [(''supplier_name'', ''String''), (''total_revenue'', ''Float64'')],
      lf_collect = Inr sample_df\<rparr>"

definition sample_error :: exn where
  "sample_error =
     \<lparr>exc_class = Exception_other, type_name = ''ColumnNotFoundError'',
      message = ''revenue'', traceback = ''Traceback (most recent call last):\<newline>''\<rparr>"

definition sample_reply :: string where
  "sample_reply = ''<thinking>sum</thinking><code>result = lf.collect()</code>''"

definition sample_world :: "nat \<Rightarrow> world" where
  \<comment> \<open>model calls number \<open>0\<close> to \<open>failing - 1\<close> raise, the later ones answer with a code
      block; running the code binds \<open>result\<close> to a table and \<open>fig\<close> to a figure\<close>
  "sample_world failing =
     \<lparr>get_settings = Inr sample_settings,
      py_repr = (\<lambda>s. [CHR 0x27] @ s @ [CHR 0x27]),
      own_traceback = (\<lambda>name msg. ''Traceback (most recent call last):\<newline>'' @ name @ '': '' @ msg),
      llm_invoke = (\<lambda>n llm sys user. if n < failing then Inl sample_error else Inr sample_reply),
      exec_code = (\<lambda>n code ns. Inr ((''result'', DataFrame sample_df) # (''fig'', Object ''Figure'') # ns)),
      duckdb_connect = (\<lambda>n. None),
      duckdb_execute = (\<lambda>n df query. Inr df),
      json_loads = (\<lambda>text. Inl \<lparr>exc_class = JSONDecodeError, type_name = ''JSONDecodeError'',
                                   message = ''Expecting value'', traceback = []\<rparr>),
      json_dumps = (\<lambda>v. ''{}''),
      str_json = (\<lambda>v. ''None'')\<rparr>"

definition ext0 :: ext where
  \<comment> \<open>nothing has happened yet\<close>
  "ext0 = \<lparr>llm_calls = [], code_runs = [], sql_runs = []\<rparr>"

definition wrong_type_world :: world where
  \<comment> \<open>the model answers at once, with \<open>result = lf\<close> (the \<open>.collect()\<close> is missing) when asked
      for an analysis and with \<open>fig = df\<close> when asked for a chart; running either
      assignment binds the name to the value of the other name\<close>
  "wrong_type_world =
     (sample_world 0)
       \<lparr>llm_invoke := (\<lambda>n llm sys user.
          Inr (if sys = VIZ_SYSTEM_PROMPT then ''<code>fig = df</code>'' else ''<code>result = lf</code>'')),
        exec_code := (\<lambda>n code ns.
          Inr (if code = ''fig = df'' then (''fig'', namespace_get ns ''df'') # ns
               else (''result'', namespace_get ns ''lf'') # ns))\<rparr>"

definition sample_client :: client where
  \<comment> \<open>what \<open>build_llm()\<close> returns under \<^const>\<open>sample_settings\<close>\<close>
  "sample_client =
     \<lparr>client_class = ChatGroq, client_model = ''llama-3.3-70b'', client_temperature = 0,
      client_max_tokens = 4096\<rparr>"

definition unsupported_provider_world :: world where
  \<comment> \<open>\<open>config.yaml\<close> names a provider \<open>build_llm\<close> does not know\<close>
  "unsupported_provider_world =
     (sample_world 0)
       \<lparr>get_settings := Inr (sample_settings
          \<lparr>provider := ''openai'',
           models := [(''openai'', \<lparr>primary = ''gpt-4o'', fallback = ''gpt-4o-mini''\<rparr>)]\<rparr>)\<rparr>"

definition sql_reply_world :: "string \<Rightarrow> world" where
  \<comment> \<open>the model answers with the given text; every query fails in the engine\<close>
  "sql_reply_world reply =
     (sample_world 0)
       \<lparr>llm_invoke := (\<lambda>n llm sys user. Inr reply),
        duckdb_execute := (\<lambda>n df query. Inl sample_error)\<rparr>"

definition chart_plan_state :: agent_state where
  \<comment> \<open>the state the executor finds after a planner that asked for analysis and a chart\<close>
  "chart_plan_state =
     (initial_state ''Bar chart of revenue by category'' (Some sample_lf))
       \<lparr>st_plan := [(''intent'', JStr ''multi''), (''requires_viz'', JBool True),
                    (''chart_type'', JStr ''bar''), (''routing'', JStr ''multi'')],
        st_next_node := JStr ''executor''\<rparr>"

definition decode_error :: exn where
  "decode_error =
     \<lparr>exc_class = JSONDecodeError, type_name = ''JSONDecodeError'',
      message = ''Expecting value: line 1 column 1 (char 0)'', traceback = []\<rparr>"

definition pipeline_world :: "string \<Rightarrow> world" where
  \<comment> \<open>the planner's model call is answered with the given text and the responder's with a
      sentence; of the other model calls, those before the third call of the run raise and
      the later ones answer with a code block.  \<open>json.loads\<close> is given on two texts and
      rejects the rest.\<close>
  \<open>pipeline_world planner_reply =
     (sample_world 0)
       \<lparr>llm_invoke := (\<lambda>n llm sys user.
          if sys = PLANNER_PROMPT then Inr planner_reply
          else if sys = RESPONDER_PROMPT then Inr ''Revenue is led by Acme.''
          else if n < 2 then Inl sample_error
          else Inr sample_reply),
        json_loads := (\<lambda>text.
          if text = ''42'' then Inr (JInt 42)
          else if text = ''{"routing": "multi", "requires_viz": true}''
          then Inr (JDict [(''routing'', JStr ''multi''), (''requires_viz'', JBool True)])
          else Inl decode_error)\<rparr>\<close>


definition keyboard_interrupt :: exn where
  "keyboard_interrupt =
     \<lparr>exc_class = BaseException_only, type_name = ''KeyboardInterrupt'', message = [],
      traceback = ''Traceback (most recent call last):\<newline>''\<rparr>"

definition interrupted_world :: world where
  \<comment> \<open>the process is interrupted while it waits for the model\<close>
  "interrupted_world =
     (sample_world 0) \<lparr>llm_invoke := (\<lambda>n llm sys user. Inl keyboard_interrupt)\<rparr>"

definition system_exit :: exn where
  "system_exit =
     \<lparr>exc_class = BaseException_only, type_name = ''SystemExit'', message = [],
      traceback = ''Traceback (most recent call last):\<newline>''\<rparr>"

definition exit_world :: world where
  \<comment> \<open>the model answers with code that leaves the interpreter\<close>
  "exit_world =
     (sample_world 0)
       \<lparr>llm_invoke := (\<lambda>n llm sys user. Inr ''<code>raise SystemExit</code>''),
        exec_code := (\<lambda>n code ns. Inl system_exit)\<rparr>"

definition unreadable_lf :: lazyframe where
  \<comment> \<open>a scan whose schema can be read and whose materialisation fails\<close>
  "unreadable_lf = sample_lf \<lparr>lf_collect := Inl sample_error\<rparr>"

definition recursion_error :: exn where
  "recursion_error =
     \<lparr>exc_class = Exception_other, type_name = ''RecursionError'',
      message = ''maximum recursion depth exceeded while decoding a JSON array from a unicode string'',
      traceback = []\<rparr>"

definition deep_reply :: string where
  \<comment> \<open>\<open>'[' * 995\<close>\<close>
  "deep_reply = replicate 995 (CHR ''['')"

definition deep_world :: world where
  \<comment> \<open>the planner's model call is answered with \<^const>\<open>deep_reply\<close>, on which \<open>json.loads\<close>
      runs out of stack; it rejects every other text\<close>
  "deep_world =
     (pipeline_world deep_reply)
       \<lparr>json_loads := (\<lambda>text. if text = deep_reply then Inl recursion_error else Inl decode_error)\<rparr>"

definition failing_tools_world :: "string \<Rightarrow> world" where
  \<comment> \<open>the planner's model call is answered with the given text and the responder's with a
      sentence; every other model call raises\<close>
  "failing_tools_world planner_reply =
     (pipeline_world planner_reply)
       \<lparr>llm_invoke := (\<lambda>n llm sys user.
          if sys = PLANNER_PROMPT then Inr planner_reply
          else if sys = RESPONDER_PROMPT then Inr ''The analysis could not be completed.''
          else Inl sample_error)\<rparr>"

section \<open>The retry loop of PolarsAnalyst\<close>

lemma llm_calls_invoke:
  "invoke w llm sys u s = (r, s1) \<Longrightarrow>
   llm_calls s1 = llm_calls s @ [\<lparr>call_client = llm, call_system = sys, call_user = u\<rparr>]"
  by (auto simp: invoke_def)

lemma llm_calls_exec: "exec w code ns s = (r, s1) \<Longrightarrow> llm_calls s1 = llm_calls s"
  by (auto simp: exec_def)

lemma llm_calls_run_code: "run_code w code lf s = (r, s1) \<Longrightarrow> llm_calls s1 = llm_calls s"
  by (auto simp: run_code_def split: prod.splits sum.splits pyobj.splits dest: llm_calls_exec)

lemma llm_calls_analyze_try:
  assumes "analyze_try w lf llm u lc s = (r, lc1, s1)"
  shows "llm_calls s1 = llm_calls s @ [\<lparr>call_client = llm, call_system = POLARS_SYSTEM_PROMPT, call_user = u\<rparr>]"
proof -
  obtain x s0 where i: "invoke w llm POLARS_SYSTEM_PROMPT u s = (x, s0)"
    by (cases "invoke w llm POLARS_SYSTEM_PROMPT u s") auto
  note c = llm_calls_invoke[OF i]
  show ?thesis
  proof (cases x)
    case (Inl e)
    with assms i c show ?thesis by (simp add: analyze_try_def)
  next
    case (Inr response_text)
    obtain y s2 where rc: "run_code w (extract_tag response_text ''code'') lf s0 = (y, s2)"
      by (cases "run_code w (extract_tag response_text ''code'') lf s0") auto
    from llm_calls_run_code[OF rc] assms i c Inr rc show ?thesis
      by (auto simp: analyze_try_def Let_def split: if_splits sum.splits)
  qed
qed

lemma analyze_loop_induct [consumes 1, case_names Nil No_client Succeeded Uncaught Caught_last Caught_next]:
  assumes run: "analyze_loop w R q si lf as h lc s = (r, its, s')"
  assumes Nil: "\<And>h lc s. P [] h lc s
      (Inr (After_loop, \<lparr>success = False, result_df = None, generated_code = lc,
            error = Some ''Unexpected exit from retry loop.'', attempts = R + 1\<rparr>)) [] s"
  assumes No_client: "\<And>a as h lc s e. build_llm w (a > R) = Inl e \<Longrightarrow>
      P (a # as) h lc s (Inl e) [loop_round R a h None (No_client e)] s"
  assumes Succeeded: "\<And>a as h lc s llm df code lc1 s1.
      build_llm w (a > R) = Inr llm \<Longrightarrow>
      analyze_try w lf llm (build_prompt q si h) lc s = (Inr (df, code), lc1, s1) \<Longrightarrow>
      P (a # as) h lc s
        (Inr (In_loop, \<lparr>success = True, result_df = Some df, generated_code = code,
              error = None, attempts = a\<rparr>))
        [loop_round R a h (Some \<lparr>call_client = llm, call_system = POLARS_SYSTEM_PROMPT,
            call_user = build_prompt q si h\<rparr>) Succeeded] s1"
  assumes Uncaught: "\<And>a as h lc s llm exc lc1 s1.
      build_llm w (a > R) = Inr llm \<Longrightarrow>
      analyze_try w lf llm (build_prompt q si h) lc s = (Inl exc, lc1, s1) \<Longrightarrow>
      \<not> is_Exception exc \<Longrightarrow>
      P (a # as) h lc s (Inl exc)
        [loop_round R a h (Some \<lparr>call_client = llm, call_system = POLARS_SYSTEM_PROMPT,
            call_user = build_prompt q si h\<rparr>) (Uncaught exc)] s1"
  assumes Caught_last: "\<And>a as h lc s llm exc lc1 s1.
      build_llm w (a > R) = Inr llm \<Longrightarrow>
      analyze_try w lf llm (build_prompt q si h) lc s = (Inl exc, lc1, s1) \<Longrightarrow>
      is_Exception exc \<Longrightarrow> a > R \<Longrightarrow>
      P (a # as) h lc s
        (Inr (In_loop, \<lparr>success = False, result_df = None, generated_code = lc1,
              error = Some (message exc), attempts = a\<rparr>))
        [loop_round R a h (Some \<lparr>call_client = llm, call_system = POLARS_SYSTEM_PROMPT,
            call_user = build_prompt q si h\<rparr>) (Caught exc)] s1"
  assumes Caught_next: "\<And>a as h lc s llm exc lc1 s1 r its s2.
      build_llm w (a > R) = Inr llm \<Longrightarrow>
      analyze_try w lf llm (build_prompt q si h) lc s = (Inl exc, lc1, s1) \<Longrightarrow>
      is_Exception exc \<Longrightarrow> \<not> a > R \<Longrightarrow>
      analyze_loop w R q si lf as (h @ [analyze_error_msg a exc]) lc1 s1 = (r, its, s2) \<Longrightarrow>
      P as (h @ [analyze_error_msg a exc]) lc1 s1 r its s2 \<Longrightarrow>
      P (a # as) h lc s r
        (loop_round R a h (Some \<lparr>call_client = llm, call_system = POLARS_SYSTEM_PROMPT,
            call_user = build_prompt q si h\<rparr>) (Caught exc) # its) s2"
  shows "P as h lc s r its s'"
  using run
proof (induction as arbitrary: h lc s r its s')
  case Nil
  then show ?case using assms(2) by auto
next
  case (Cons a as)
  show ?case
  proof (cases "build_llm w (a > R)")
    case (Inl e)
    with Cons.prems No_client[OF Inl] show ?thesis by (auto simp: loop_round_def)
  next
    case (Inr llm)
    obtain t lc1 s1 where t: "analyze_try w lf llm (build_prompt q si h) lc s = (t, lc1, s1)"
      by (cases "analyze_try w lf llm (build_prompt q si h) lc s") auto
    show ?thesis
    proof (cases t)
      case ok: (Inr ok)
      obtain df code where dc: "ok = (df, code)" by (cases ok) auto
      from t ok dc have t': "analyze_try w lf llm (build_prompt q si h) lc s = (Inr (df, code), lc1, s1)"
        by simp
      from Cons.prems Inr t' Succeeded[OF Inr t', of as] show ?thesis
        by (auto simp: loop_round_def)
    next
      case exc: (Inl exc)
      from t exc have t': "analyze_try w lf llm (build_prompt q si h) lc s = (Inl exc, lc1, s1)"
        by simp
      consider "\<not> is_Exception exc" | "is_Exception exc" "a > R" | "is_Exception exc" "\<not> a > R"
        by blast
      then show ?thesis
      proof cases
        case 1
        with Cons.prems Inr t' Uncaught[OF Inr t' 1, of as] show ?thesis
          by (auto simp: loop_round_def)
      next
        case 2
        with Cons.prems Inr t' Caught_last[OF Inr t' 2, of as] show ?thesis
          by (auto simp: loop_round_def)
      next
        case 3
        obtain r2 its2 s2 where rec:
          "analyze_loop w R q si lf as (h @ [analyze_error_msg a exc]) lc1 s1 = (r2, its2, s2)"
          by (cases "analyze_loop w R q si lf as (h @ [analyze_error_msg a exc]) lc1 s1") auto
        from Cons.IH[OF rec] have "P as (h @ [analyze_error_msg a exc]) lc1 s1 r2 its2 s2" .
        from Caught_next[OF Inr t' 3 rec this] Cons.prems Inr t' 3 rec show ?thesis
          by (auto simp: loop_round_def)
      qed
    qed
  qed
qed

lemma analyze_loop_calls:
  "analyze_loop w R q si lf as h lc s = (r, its, s') \<Longrightarrow>
   llm_calls s' = llm_calls s @ List.map_filter it_call its"
  by (induction rule: analyze_loop_induct)
     (auto simp: List.map_filter_simps loop_round_def dest: llm_calls_analyze_try)

lemma analyze_loop_shape:
  "analyze_loop w R q si lf as h lc s = (r, its, s') \<Longrightarrow>
   length its \<le> length as \<and> map it_attempt its = take (length its) as
   \<and> list_all (\<lambda>it. it_use_fallback it = (it_attempt it > R)) its
   \<and> list_all caught (butlast its)"
  by (induction rule: analyze_loop_induct) (auto simp: loop_round_def caught_def)

lemma analyze_loop_exit:
  "analyze_loop w R q si lf as h lc s = (r, its, s') \<Longrightarrow> as \<noteq> [] \<Longrightarrow> last as > R \<Longrightarrow>
   r \<noteq> Inr (After_loop, res)"
  by (induction rule: analyze_loop_induct) (auto split: if_splits)

lemma upto_Cons_iff: "(a # as) = [i..j] \<longleftrightarrow> i \<le> j \<and> a = i \<and> as = [i+1..j]"
  by (subst upto.simps) auto

lemma analyze_loop_all_caught:
  "analyze_loop w R q si lf as h lc s = (r, its, s') \<Longrightarrow> as = [a0..R+1] \<Longrightarrow> a0 \<le> R + 1 \<Longrightarrow>
   list_all caught its \<Longrightarrow>
   map it_attempt its = as \<and> list_all (\<lambda>it. it_call it \<noteq> None) its
   \<and> (\<exists>res. r = Inr (In_loop, res) \<and> \<not> success res \<and> attempts res = R + 1 \<and> result_df res = None)"
proof (induction arbitrary: a0 rule: analyze_loop_induct)
  case (Caught_next a as h lc s llm exc lc1 s1 r its s2)
  from Caught_next.prems have a: "a = a0" "as = [a0+1..R+1]" by (auto simp: upto_Cons_iff)
  with Caught_next.hyps have "a0 + 1 \<le> R + 1" by auto
  from Caught_next.IH[OF a(2) this] Caught_next.prems a show ?case
    by (auto simp: loop_round_def caught_def)
qed (auto simp: loop_round_def caught_def upto_Cons_iff)

lemma analyze_loop_round_calls:
  "analyze_loop w R q si lf as h lc s = (r, its, s') \<Longrightarrow>
   list_all (\<lambda>it. case it_call it of
                      None \<Rightarrow> \<not> caught it \<and> it_outcome it \<noteq> Succeeded
                    | Some c \<Rightarrow> built_with w (it_use_fallback it) c
                               \<and> call_system c = POLARS_SYSTEM_PROMPT
                               \<and> call_user c = build_prompt q si (it_history it)) its"
  by (induction rule: analyze_loop_induct) (auto simp: loop_round_def caught_def built_with_def)

lemma new_calls_append: "llm_calls s' = llm_calls s @ cs \<Longrightarrow> new_calls s s' = cs"
  by (simp add: new_calls_def)

lemma map_filter_all_Some:
  "list_all (\<lambda>x. f x \<noteq> None) xs \<Longrightarrow> List.map_filter f xs = map (\<lambda>x. the (f x)) xs"
  by (induction xs) (auto simp: List.map_filter_simps)

lemma take_upto: "n \<le> nat (j - i + 1) \<Longrightarrow> take n [i..j] = [i..i + int n - 1]"
  by (rule nth_equalityI) auto




lemma length_map_filter_le: "length (List.map_filter f xs) \<le> length xs"
  by (induction xs) (auto simp: List.map_filter_simps split: option.splits)

lemma analyze_run_cases:
  assumes "analyze_run w self q lf s = (r, its, s')"
  obtains (no_schema) e where "get_schema_info lf = Inl e" "r = Inl e" "its = []" "s' = s"
  | (loop) si where "get_schema_info lf = Inr si"
      "analyze_loop w (pa_max_retries self) q si lf [1 .. pa_max_retries self + 1] [] [] s = (r, its, s')"
  using assms by (cases "get_schema_info lf") (auto simp: analyze_run_def)

lemma analyze_run_bound:
  assumes R: "0 \<le> pa_max_retries self" and run: "analyze_run w self q lf s = (r, its, s')"
  shows "int (length its) \<le> pa_max_retries self + 1"
    and "map it_attempt its = [1 .. int (length its)]"
    and "list_all (\<lambda>it. it_use_fallback it = (pa_max_retries self < it_attempt it)) its"
    and "length (new_calls s s') \<le> length its"
    and "r \<noteq> Inr (After_loop, res)"
proof -
  let ?R = "pa_max_retries self"
  from run have "int (length its) \<le> ?R + 1 \<and> map it_attempt its = [1 .. int (length its)]
     \<and> list_all (\<lambda>it. it_use_fallback it = (?R < it_attempt it)) its
     \<and> length (new_calls s s') \<le> length its \<and> r \<noteq> Inr (After_loop, res)"
  proof (cases rule: analyze_run_cases)
    case (no_schema e)
    then show ?thesis using R by (simp add: new_calls_def)
  next
    case (loop si)
    note sh = analyze_loop_shape[OF loop(2)]
    from sh R have len: "length its \<le> nat (?R + 1)" by simp
    with sh have att: "map it_attempt its = [1 .. int (length its)]"
      by (simp add: take_upto)
    from R have last: "[1 .. ?R + 1] \<noteq> []" "last [1 .. ?R + 1] > ?R"
      by (simp_all add: upto_rec2)
    from analyze_loop_calls[OF loop(2)] have "new_calls s s' = List.map_filter it_call its"
      by (rule new_calls_append)
    with len att sh analyze_loop_exit[OF loop(2) last] R show ?thesis
      by (simp add: length_map_filter_le)
  qed
  then show "int (length its) \<le> pa_max_retries self + 1"
    and "map it_attempt its = [1 .. int (length its)]"
    and "list_all (\<lambda>it. it_use_fallback it = (pa_max_retries self < it_attempt it)) its"
    and "length (new_calls s s') \<le> length its"
    and "r \<noteq> Inr (After_loop, res)" by simp_all
qed

lemma list_all2_of_rounds:
  assumes "list_all (\<lambda>it. P (f it) (g it)) its"
  shows "list_all2 P (map f its) (map g its)"
  using assms by (induction its) auto

lemma analyze_run_all_caught:
  assumes R: "0 \<le> pa_max_retries self" and run: "analyze_run w self q lf s = (r, its, s')"
    and schema: "lf_schema lf = Inr schema" and fail: "list_all caught its"
  shows "map it_attempt its = [1 .. pa_max_retries self + 1]
     \<and> list_all2 (\<lambda>a c. built_with w (pa_max_retries self < a) c) [1 .. pa_max_retries self + 1] (new_calls s s')
     \<and> (\<exists>res. r = Inr (In_loop, res) \<and> \<not> success res \<and> attempts res = pa_max_retries self + 1
              \<and> result_df res = None)"
  using run
proof (cases rule: analyze_run_cases)
  case (no_schema e)
  with schema show ?thesis by (simp add: get_schema_info_def)
next
  case (loop si)
  let ?R = "pa_max_retries self"
  from R have "1 \<le> ?R + 1" by simp
  note ac = analyze_loop_all_caught[OF loop(2) refl this fail]
  note sh = analyze_loop_shape[OF loop(2)]
  have calls: "new_calls s s' = map (\<lambda>it. the (it_call it)) its"
    using analyze_loop_calls[OF loop(2)] ac by (simp add: new_calls_append map_filter_all_Some)
  have "list_all (\<lambda>it. built_with w (?R < it_attempt it) (the (it_call it))) its"
    using analyze_loop_round_calls[OF loop(2)] ac sh
    by (auto simp: list_all_iff split: option.splits)
  then have "list_all2 (\<lambda>a c. built_with w (?R < a) c) (map it_attempt its) (map (\<lambda>it. the (it_call it)) its)"
    by (rule list_all2_of_rounds)
  with ac calls show ?thesis by simp
qed

section \<open>The retry loop of VizGenerator\<close>

lemma llm_calls_viz_try:
  assumes "viz_try w df llm u lc s = (r, lc1, s1)"
  shows "llm_calls s1 = llm_calls s @ [\<lparr>call_client = llm, call_system = VIZ_SYSTEM_PROMPT, call_user = u\<rparr>]"
proof -
  obtain x s0 where i: "invoke w llm VIZ_SYSTEM_PROMPT u s = (x, s0)"
    by (cases "invoke w llm VIZ_SYSTEM_PROMPT u s") auto
  note c = llm_calls_invoke[OF i]
  show ?thesis
  proof (cases x)
    case (Inl e)
    with assms i c show ?thesis by (simp add: viz_try_def)
  next
    case (Inr response_text)
    let ?ns = "[(''df'', DataFrame df), (''go'', Module ''plotly.graph_objects''),
                (''px'', Module ''plotly.express''), (''pl'', Module ''polars'')]"
    obtain y s2 where ex: "exec w (extract_tag response_text ''code'') ?ns s0 = (y, s2)"
      by (cases "exec w (extract_tag response_text ''code'') ?ns s0") auto
    from llm_calls_exec[OF ex] assms i c Inr ex show ?thesis
      by (auto simp: viz_try_def Let_def split: if_splits sum.splits pyobj.splits)
  qed
qed

lemma viz_loop_induct [consumes 1, case_names Nil No_client Succeeded Uncaught Caught_last Caught_next]:
  assumes run: "viz_loop w R base df as h lc s = (r, its, s')"
  assumes Nil: "\<And>h lc s. P [] h lc s
      (Inr (After_loop, \<lparr>chart_success = False, figure = PyNone, chart_code = lc,
            chart_error = Some ''Unexpected exit.'', chart_attempts = R + 1\<rparr>)) [] s"
  assumes No_client: "\<And>a as h lc s e. build_llm w (a > R) = Inl e \<Longrightarrow>
      P (a # as) h lc s (Inl e) [loop_round R a h None (No_client e)] s"
  assumes Succeeded: "\<And>a as h lc s llm fig code lc1 s1.
      build_llm w (a > R) = Inr llm \<Longrightarrow>
      viz_try w df llm (viz_prompt base h) lc s = (Inr (fig, code), lc1, s1) \<Longrightarrow>
      P (a # as) h lc s
        (Inr (In_loop, \<lparr>chart_success = True, figure = fig, chart_code = code,
              chart_error = None, chart_attempts = a\<rparr>))
        [loop_round R a h (Some \<lparr>call_client = llm, call_system = VIZ_SYSTEM_PROMPT,
            call_user = viz_prompt base h\<rparr>) Succeeded] s1"
  assumes Uncaught: "\<And>a as h lc s llm exc lc1 s1.
      build_llm w (a > R) = Inr llm \<Longrightarrow>
      viz_try w df llm (viz_prompt base h) lc s = (Inl exc, lc1, s1) \<Longrightarrow>
      \<not> is_Exception exc \<Longrightarrow>
      P (a # as) h lc s (Inl exc)
        [loop_round R a h (Some \<lparr>call_client = llm, call_system = VIZ_SYSTEM_PROMPT,
            call_user = viz_prompt base h\<rparr>) (Uncaught exc)] s1"
  assumes Caught_last: "\<And>a as h lc s llm exc lc1 s1.
      build_llm w (a > R) = Inr llm \<Longrightarrow>
      viz_try w df llm (viz_prompt base h) lc s = (Inl exc, lc1, s1) \<Longrightarrow>
      is_Exception exc \<Longrightarrow> a > R \<Longrightarrow>
      P (a # as) h lc s
        (Inr (In_loop, \<lparr>chart_success = False, figure = PyNone, chart_code = lc1,
              chart_error = Some (message exc), chart_attempts = a\<rparr>))
        [loop_round R a h (Some \<lparr>call_client = llm, call_system = VIZ_SYSTEM_PROMPT,
            call_user = viz_prompt base h\<rparr>) (Caught exc)] s1"
  assumes Caught_next: "\<And>a as h lc s llm exc lc1 s1 r its s2.
      build_llm w (a > R) = Inr llm \<Longrightarrow>
      viz_try w df llm (viz_prompt base h) lc s = (Inl exc, lc1, s1) \<Longrightarrow>
      is_Exception exc \<Longrightarrow> \<not> a > R \<Longrightarrow>
      viz_loop w R base df as (h @ [viz_error_msg a exc]) lc1 s1 = (r, its, s2) \<Longrightarrow>
      P as (h @ [viz_error_msg a exc]) lc1 s1 r its s2 \<Longrightarrow>
      P (a # as) h lc s r
        (loop_round R a h (Some \<lparr>call_client = llm, call_system = VIZ_SYSTEM_PROMPT,
            call_user = viz_prompt base h\<rparr>) (Caught exc) # its) s2"
  shows "P as h lc s r its s'"
  using run
proof (induction as arbitrary: h lc s r its s')
  case Nil
  then show ?case using assms(2) by auto
next
  case (Cons a as)
  show ?case
  proof (cases "build_llm w (a > R)")
    case (Inl e)
    with Cons.prems No_client[OF Inl] show ?thesis by (auto simp: loop_round_def)
  next
    case (Inr llm)
    obtain t lc1 s1 where t: "viz_try w df llm (viz_prompt base h) lc s = (t, lc1, s1)"
      by (cases "viz_try w df llm (viz_prompt base h) lc s") auto
    show ?thesis
    proof (cases t)
      case ok: (Inr ok)
      obtain fig code where dc: "ok = (fig, code)" by (cases ok) auto
      from t ok dc have t': "viz_try w df llm (viz_prompt base h) lc s = (Inr (fig, code), lc1, s1)"
        by simp
      from Cons.prems Inr t' Succeeded[OF Inr t', of as] show ?thesis
        by (auto simp: loop_round_def)
    next
      case exc: (Inl exc)
      from t exc have t': "viz_try w df llm (viz_prompt base h) lc s = (Inl exc, lc1, s1)"
        by simp
      consider "\<not> is_Exception exc" | "is_Exception exc" "a > R" | "is_Exception exc" "\<not> a > R"
        by blast
      then show ?thesis
      proof cases
        case 1
        with Cons.prems Inr t' Uncaught[OF Inr t' 1, of as] show ?thesis
          by (auto simp: loop_round_def)
      next
        case 2
        with Cons.prems Inr t' Caught_last[OF Inr t' 2, of as] show ?thesis
          by (auto simp: loop_round_def)
      next
        case 3
        obtain r2 its2 s2 where rec:
          "viz_loop w R base df as (h @ [viz_error_msg a exc]) lc1 s1 = (r2, its2, s2)"
          by (cases "viz_loop w R base df as (h @ [viz_error_msg a exc]) lc1 s1") auto
        from Cons.IH[OF rec] have "P as (h @ [viz_error_msg a exc]) lc1 s1 r2 its2 s2" .
        from Caught_next[OF Inr t' 3 rec this] Cons.prems Inr t' 3 rec show ?thesis
          by (auto simp: loop_round_def)
      qed
    qed
  qed
qed

lemma viz_loop_calls:
  "viz_loop w R base df as h lc s = (r, its, s') \<Longrightarrow>
   llm_calls s' = llm_calls s @ List.map_filter it_call its"
  by (induction rule: viz_loop_induct)
     (auto simp: List.map_filter_simps loop_round_def dest: llm_calls_viz_try)

lemma viz_loop_shape:
  "viz_loop w R base df as h lc s = (r, its, s') \<Longrightarrow>
   length its \<le> length as \<and> map it_attempt its = take (length its) as
   \<and> list_all (\<lambda>it. it_use_fallback it = (it_attempt it > R)) its
   \<and> list_all caught (butlast its)"
  by (induction rule: viz_loop_induct) (auto simp: loop_round_def caught_def)

lemma viz_loop_exit:
  "viz_loop w R base df as h lc s = (r, its, s') \<Longrightarrow> as \<noteq> [] \<Longrightarrow> last as > R \<Longrightarrow>
   r \<noteq> Inr (After_loop, res)"
  by (induction rule: viz_loop_induct) (auto split: if_splits)

lemma viz_loop_all_caught:
  "viz_loop w R base df as h lc s = (r, its, s') \<Longrightarrow> as = [a0..R+1] \<Longrightarrow> a0 \<le> R + 1 \<Longrightarrow>
   list_all caught its \<Longrightarrow>
   map it_attempt its = as \<and> list_all (\<lambda>it. it_call it \<noteq> None) its
   \<and> (\<exists>res. r = Inr (In_loop, res) \<and> \<not> chart_success res \<and> chart_attempts res = R + 1 \<and> figure res = PyNone)"
proof (induction arbitrary: a0 rule: viz_loop_induct)
  case (Caught_next a as h lc s llm exc lc1 s1 r its s2)
  from Caught_next.prems have a: "a = a0" "as = [a0+1..R+1]" by (auto simp: upto_Cons_iff)
  with Caught_next.hyps have "a0 + 1 \<le> R + 1" by auto
  from Caught_next.IH[OF a(2) this] Caught_next.prems a show ?case
    by (auto simp: loop_round_def caught_def)
qed (auto simp: loop_round_def caught_def upto_Cons_iff)

lemma viz_loop_round_calls:
  "viz_loop w R base df as h lc s = (r, its, s') \<Longrightarrow>
   list_all (\<lambda>it. case it_call it of
                      None \<Rightarrow> \<not> caught it \<and> it_outcome it \<noteq> Succeeded
                    | Some c \<Rightarrow> built_with w (it_use_fallback it) c
                               \<and> call_system c = VIZ_SYSTEM_PROMPT
                               \<and> call_user c = viz_prompt base (it_history it)) its"
  by (induction rule: viz_loop_induct) (auto simp: loop_round_def caught_def built_with_def)

lemma viz_run_bound:
  assumes R: "0 \<le> vg_max_retries self" and run: "viz_run w self q df s = (r, its, s')"
  shows "int (length its) \<le> vg_max_retries self + 1"
    and "map it_attempt its = [1 .. int (length its)]"
    and "list_all (\<lambda>it. it_use_fallback it = (vg_max_retries self < it_attempt it)) its"
    and "length (new_calls s s') \<le> length its"
    and "r \<noteq> Inr (After_loop, res)"
proof -
  let ?R = "vg_max_retries self"
  from run have loop: "viz_loop w ?R (viz_base_prompt q df) df [1 .. ?R + 1] [] [] s = (r, its, s')"
    by (simp add: viz_run_def)
  note sh = viz_loop_shape[OF loop]
  from sh R have len: "length its \<le> nat (?R + 1)" by simp
  with sh have att: "map it_attempt its = [1 .. int (length its)]"
    by (simp add: take_upto)
  from R have last: "[1 .. ?R + 1] \<noteq> []" "last [1 .. ?R + 1] > ?R"
    by (simp_all add: upto_rec2)
  from viz_loop_calls[OF loop] have "new_calls s s' = List.map_filter it_call its"
    by (rule new_calls_append)
  with len att sh viz_loop_exit[OF loop last] R
  show "int (length its) \<le> vg_max_retries self + 1"
    and "map it_attempt its = [1 .. int (length its)]"
    and "list_all (\<lambda>it. it_use_fallback it = (vg_max_retries self < it_attempt it)) its"
    and "length (new_calls s s') \<le> length its"
    and "r \<noteq> Inr (After_loop, res)"
    by (simp_all add: length_map_filter_le)
qed

lemma viz_run_all_caught:
  assumes R: "0 \<le> vg_max_retries self" and run: "viz_run w self q df s = (r, its, s')"
    and fail: "list_all caught its"
  shows "map it_attempt its = [1 .. vg_max_retries self + 1]
     \<and> list_all2 (\<lambda>a c. built_with w (vg_max_retries self < a) c) [1 .. vg_max_retries self + 1] (new_calls s s')
     \<and> (\<exists>res. r = Inr (In_loop, res) \<and> \<not> chart_success res \<and> chart_attempts res = vg_max_retries self + 1
              \<and> figure res = PyNone)"
proof -
  let ?R = "vg_max_retries self"
  from run have loop: "viz_loop w ?R (viz_base_prompt q df) df [1 .. ?R + 1] [] [] s = (r, its, s')"
    by (simp add: viz_run_def)
  from R have "1 \<le> ?R + 1" by simp
  note ac = viz_loop_all_caught[OF loop refl this fail]
  note sh = viz_loop_shape[OF loop]
  have calls: "new_calls s s' = map (\<lambda>it. the (it_call it)) its"
    using viz_loop_calls[OF loop] ac by (simp add: new_calls_append map_filter_all_Some)
  have "list_all (\<lambda>it. built_with w (?R < it_attempt it) (the (it_call it))) its"
    using viz_loop_round_calls[OF loop] ac sh
    by (auto simp: list_all_iff split: option.splits)
  then have "list_all2 (\<lambda>a c. built_with w (?R < a) c) (map it_attempt its) (map (\<lambda>it. the (it_call it)) its)"
    by (rule list_all2_of_rounds)
  with ac calls show ?thesis by simp
qed

section \<open>How the rounds of a run end\<close>

lemma analyze_loop_outcomes:
  "analyze_loop w R q si lf as h lc s = (r, its, s') \<Longrightarrow>
   list_all (\<lambda>it. case it_outcome it of
        No_client e \<Rightarrow> build_llm w (it_use_fallback it) = Inl e \<and> it_call it = None \<and> r = Inl e
      | Uncaught e \<Rightarrow> \<not> is_Exception e \<and> r = Inl e
          \<and> (\<exists>c lc0 s0. it_call it = Some c
                \<and> fst (analyze_try w lf (call_client c) (call_user c) lc0 s0) = Inl e)
      | Caught e \<Rightarrow> is_Exception e
          \<and> (\<exists>c lc0 s0. it_call it = Some c
                \<and> fst (analyze_try w lf (call_client c) (call_user c) lc0 s0) = Inl e)
      | Succeeded \<Rightarrow>
          (\<exists>c lc0 s0 p. it_call it = Some c
                \<and> fst (analyze_try w lf (call_client c) (call_user c) lc0 s0) = Inr p)) its"
proof (induction rule: analyze_loop_induct)
  case (Nil h lc s)
  show ?case by simp
next
  case (No_client a as h lc s e)
  then show ?case by (simp add: loop_round_def)
next
  case (Succeeded a as h lc s llm df code lc1 s1)
  from Succeeded(2) have "fst (analyze_try w lf llm (build_prompt q si h) lc s) = Inr (df, code)" by simp
  then show ?case by (auto simp: loop_round_def)
next
  case (Uncaught a as h lc s llm exc lc1 s1)
  from Uncaught(2) have "fst (analyze_try w lf llm (build_prompt q si h) lc s) = Inl exc" by simp
  with Uncaught(3) show ?case by (auto simp: loop_round_def)
next
  case (Caught_last a as h lc s llm exc lc1 s1)
  from Caught_last(2) have "fst (analyze_try w lf llm (build_prompt q si h) lc s) = Inl exc" by simp
  with Caught_last(3) show ?case by (auto simp: loop_round_def)
next
  case (Caught_next a as h lc s llm exc lc1 s1 r its s2)
  from Caught_next(2) have "fst (analyze_try w lf llm (build_prompt q si h) lc s) = Inl exc" by simp
  with Caught_next(3) have "is_Exception exc \<and>
      (\<exists>c lc0 s0. Some \<lparr>call_client = llm, call_system = POLARS_SYSTEM_PROMPT,
            call_user = build_prompt q si h\<rparr> = Some c
         \<and> fst (analyze_try w lf (call_client c) (call_user c) lc0 s0) = Inl exc)"
    by auto
  with Caught_next(6) show ?case by (simp add: loop_round_def)
qed

lemma viz_loop_outcomes:
  "viz_loop w R base df as h lc s = (r, its, s') \<Longrightarrow>
   list_all (\<lambda>it. case it_outcome it of
        No_client e \<Rightarrow> build_llm w (it_use_fallback it) = Inl e \<and> it_call it = None \<and> r = Inl e
      | Uncaught e \<Rightarrow> \<not> is_Exception e \<and> r = Inl e
          \<and> (\<exists>c lc0 s0. it_call it = Some c
                \<and> fst (viz_try w df (call_client c) (call_user c) lc0 s0) = Inl e)
      | Caught e \<Rightarrow> is_Exception e
          \<and> (\<exists>c lc0 s0. it_call it = Some c
                \<and> fst (viz_try w df (call_client c) (call_user c) lc0 s0) = Inl e)
      | Succeeded \<Rightarrow>
          (\<exists>c lc0 s0 p. it_call it = Some c
                \<and> fst (viz_try w df (call_client c) (call_user c) lc0 s0) = Inr p)) its"
proof (induction rule: viz_loop_induct)
  case (Nil h lc s)
  show ?case by simp
next
  case (No_client a as h lc s e)
  then show ?case by (simp add: loop_round_def)
next
  case (Succeeded a as h lc s llm fig code lc1 s1)
  from Succeeded(2) have "fst (viz_try w df llm (viz_prompt base h) lc s) = Inr (fig, code)" by simp
  then show ?case by (auto simp: loop_round_def)
next
  case (Uncaught a as h lc s llm exc lc1 s1)
  from Uncaught(2) have "fst (viz_try w df llm (viz_prompt base h) lc s) = Inl exc" by simp
  with Uncaught(3) show ?case by (auto simp: loop_round_def)
next
  case (Caught_last a as h lc s llm exc lc1 s1)
  from Caught_last(2) have "fst (viz_try w df llm (viz_prompt base h) lc s) = Inl exc" by simp
  with Caught_last(3) show ?case by (auto simp: loop_round_def)
next
  case (Caught_next a as h lc s llm exc lc1 s1 r its s2)
  from Caught_next(2) have "fst (viz_try w df llm (viz_prompt base h) lc s) = Inl exc" by simp
  with Caught_next(3) have "is_Exception exc \<and>
      (\<exists>c lc0 s0. Some \<lparr>call_client = llm, call_system = VIZ_SYSTEM_PROMPT,
            call_user = viz_prompt base h\<rparr> = Some c
         \<and> fst (viz_try w df (call_client c) (call_user c) lc0 s0) = Inl exc)"
    by auto
  with Caught_next(6) show ?case by (simp add: loop_round_def)
qed

lemma analyze_run_rounds:
  assumes run: "analyze_run w self q lf s = (r, its, s')"
  shows "new_calls s s' = List.map_filter it_call its"
    and "list_all caught (butlast its)"
    and "list_all (\<lambda>it. case it_outcome it of
            No_client e \<Rightarrow> build_llm w (it_use_fallback it) = Inl e \<and> it_call it = None \<and> r = Inl e
          | Uncaught e \<Rightarrow> \<not> is_Exception e \<and> r = Inl e
              \<and> (\<exists>c lc0 s0. it_call it = Some c
                    \<and> fst (analyze_try w lf (call_client c) (call_user c) lc0 s0) = Inl e)
          | Caught e \<Rightarrow> is_Exception e
              \<and> (\<exists>c lc0 s0. it_call it = Some c
                    \<and> fst (analyze_try w lf (call_client c) (call_user c) lc0 s0) = Inl e)
          | Succeeded \<Rightarrow>
              (\<exists>c lc0 s0 p. it_call it = Some c
                    \<and> fst (analyze_try w lf (call_client c) (call_user c) lc0 s0) = Inr p)) its"
proof -
  show "new_calls s s' = List.map_filter it_call its"
    using run
    by (cases rule: analyze_run_cases)
       (auto simp: new_calls_def List.map_filter_simps dest: analyze_loop_calls)
  show "list_all caught (butlast its)"
    using run by (cases rule: analyze_run_cases) (auto dest: analyze_loop_shape)
  show "list_all (\<lambda>it. case it_outcome it of
            No_client e \<Rightarrow> build_llm w (it_use_fallback it) = Inl e \<and> it_call it = None \<and> r = Inl e
          | Uncaught e \<Rightarrow> \<not> is_Exception e \<and> r = Inl e
              \<and> (\<exists>c lc0 s0. it_call it = Some c
                    \<and> fst (analyze_try w lf (call_client c) (call_user c) lc0 s0) = Inl e)
          | Caught e \<Rightarrow> is_Exception e
              \<and> (\<exists>c lc0 s0. it_call it = Some c
                    \<and> fst (analyze_try w lf (call_client c) (call_user c) lc0 s0) = Inl e)
          | Succeeded \<Rightarrow>
              (\<exists>c lc0 s0 p. it_call it = Some c
                    \<and> fst (analyze_try w lf (call_client c) (call_user c) lc0 s0) = Inr p)) its"
    using run by (cases rule: analyze_run_cases) (auto dest: analyze_loop_outcomes)
qed

lemma viz_run_rounds:
  assumes run: "viz_run w self q df s = (r', its', s')"
  shows "new_calls s s' = List.map_filter it_call its'"
    and "list_all caught (butlast its')"
    and "list_all (\<lambda>it. case it_outcome it of
            No_client e \<Rightarrow> build_llm w (it_use_fallback it) = Inl e \<and> it_call it = None \<and> r' = Inl e
          | Uncaught e \<Rightarrow> \<not> is_Exception e \<and> r' = Inl e
              \<and> (\<exists>c lc0 s0. it_call it = Some c
                    \<and> fst (viz_try w df (call_client c) (call_user c) lc0 s0) = Inl e)
          | Caught e \<Rightarrow> is_Exception e
              \<and> (\<exists>c lc0 s0. it_call it = Some c
                    \<and> fst (viz_try w df (call_client c) (call_user c) lc0 s0) = Inl e)
          | Succeeded \<Rightarrow>
              (\<exists>c lc0 s0 p. it_call it = Some c
                    \<and> fst (viz_try w df (call_client c) (call_user c) lc0 s0) = Inr p)) its'"
proof -
  from run have loop:
    "viz_loop w (vg_max_retries self) (viz_base_prompt q df) df [1 .. vg_max_retries self + 1] [] [] s
       = (r', its', s')"
    by (simp add: viz_run_def)
  show "new_calls s s' = List.map_filter it_call its'"
    using viz_loop_calls[OF loop] by (simp add: new_calls_def)
  show "list_all caught (butlast its')"
    using viz_loop_shape[OF loop] by simp
  show "list_all (\<lambda>it. case it_outcome it of
            No_client e \<Rightarrow> build_llm w (it_use_fallback it) = Inl e \<and> it_call it = None \<and> r' = Inl e
          | Uncaught e \<Rightarrow> \<not> is_Exception e \<and> r' = Inl e
              \<and> (\<exists>c lc0 s0. it_call it = Some c
                    \<and> fst (viz_try w df (call_client c) (call_user c) lc0 s0) = Inl e)
          | Caught e \<Rightarrow> is_Exception e
              \<and> (\<exists>c lc0 s0. it_call it = Some c
                    \<and> fst (viz_try w df (call_client c) (call_user c) lc0 s0) = Inl e)
          | Succeeded \<Rightarrow>
              (\<exists>c lc0 s0 p. it_call it = Some c
                    \<and> fst (viz_try w df (call_client c) (call_user c) lc0 s0) = Inr p)) its'"
    by (rule viz_loop_outcomes[OF loop])
qed

section \<open>Runs that end in success\<close>






section \<open>Evaluating the sample worlds\<close>

lemma build_llm_sample:
  "build_llm (sample_world n) b =
     Inr \<lparr>client_class = ChatGroq, client_model = (if b then ''llama-3.1-8b'' else ''llama-3.3-70b''),
          client_temperature = 0, client_max_tokens = 4096\<rparr>"
  by (simp add: build_llm_def sample_world_def sample_settings_def)

lemma extract_sample_reply: "extract_tag sample_reply ''code'' = ''result = lf.collect()''"
  by (simp add: extract_tag_def re_search_tag_def sample_reply_def strip_def is_space_def)

lemma llm_invoke_sample:
  "llm_invoke (sample_world k) n llm sys user = (if n < k then Inl sample_error else Inr sample_reply)"
  by (simp add: sample_world_def)

lemma exec_code_sample:
  "exec_code (sample_world k) n code ns =
     Inr ((''result'', DataFrame sample_df) # (''fig'', Object ''Figure'') # ns)"
  by (simp add: sample_world_def)

lemma is_Exception_sample: "is_Exception sample_error"
  by (simp add: is_Exception_def sample_error_def)

lemmas run_sample =
  analyze_run_def viz_run_def get_schema_info_def sample_lf_def PolarsAnalyst_def VizGenerator_def
  build_llm_sample analyze_try_def viz_try_def run_code_def invoke_def exec_def llm_invoke_sample
  exec_code_sample extract_sample_reply is_Exception_sample ext0_def namespace_get_def Let_def
  caught_def new_calls_def upto_rec1

lemma build_llm_exit:
  "build_llm exit_world b =
     Inr \<lparr>client_class = ChatGroq, client_model = (if b then ''llama-3.1-8b'' else ''llama-3.3-70b''),
          client_temperature = 0, client_max_tokens = 4096\<rparr>"
  by (simp add: build_llm_def exit_world_def sample_world_def sample_settings_def)

lemma llm_invoke_exit: "llm_invoke exit_world n llm sys u = Inr ''<code>raise SystemExit</code>''"
  by (simp add: exit_world_def)

lemma exec_code_exit: "exec_code exit_world n code ns = Inl system_exit"
  by (simp add: exit_world_def)

lemma extract_exit: "extract_tag ''<code>raise SystemExit</code>'' ''code'' = ''raise SystemExit''"
  by (simp add: extract_tag_def re_search_tag_def strip_def is_space_def)

lemma not_Exception_exit: "\<not> is_Exception system_exit"
  by (simp add: is_Exception_def system_exit_def)

lemma build_llm_unsupported:
  "build_llm unsupported_provider_world b =
     Inl (own_exception unsupported_provider_world ''ValueError''
            (''Unsupported provider: '' @ [CHR 0x27] @ ''openai'' @ [CHR 0x27]
             @ ''. Valid options: google | groq''))"
  by (simp add: build_llm_def unsupported_provider_world_def sample_world_def sample_settings_def)

lemmas exit_sample =
  analyze_run_def viz_run_def get_schema_info_def sample_lf_def PolarsAnalyst_def VizGenerator_def
  build_llm_exit analyze_try_def viz_try_def run_code_def invoke_def exec_def llm_invoke_exit
  exec_code_exit extract_exit not_Exception_exit build_llm_unsupported ext0_def Let_def upto_rec1

section \<open>Validation of the output variable\<close>

lemma analyze_try_wrong_type:
  assumes "llm_invoke w (length (llm_calls s)) llm POLARS_SYSTEM_PROMPT u = Inr response"
    and "extract_tag response ''code'' \<noteq> []"
    and "exec_code w (Suc (length (llm_calls s))) (extract_tag response ''code'') (analysis_namespace lf) = Inr ns"
    and "namespace_get ns ''result'' \<noteq> PyNone" "\<not> is_DataFrame (namespace_get ns ''result'')"
  shows "fst (analyze_try w lf llm u lc s) =
           Inl (own_exception w ''ValueError''
                  (''`result` must be a polars.DataFrame, got '' @ py_type_name (namespace_get ns ''result'')
                   @ ''. Did you forget .collect() at the end?''))"
  using assms
  by (cases "namespace_get ns ''result''")
     (simp_all add: analyze_try_def invoke_def run_code_def exec_def analysis_namespace_def Let_def)

lemma analyze_try_no_result:
  assumes "llm_invoke w (length (llm_calls s)) llm POLARS_SYSTEM_PROMPT u = Inr response"
    and "extract_tag response ''code'' \<noteq> []"
    and "exec_code w (Suc (length (llm_calls s))) (extract_tag response ''code'') (analysis_namespace lf) = Inr ns"
    and "namespace_get ns ''result'' = PyNone"
  shows "fst (analyze_try w lf llm u lc s) =
           Inl (own_exception w ''ValueError''
                  ''Code did not define a `result` variable. Make sure your code ends with: result = lf.[...].collect()'')"
  using assms
  by (simp add: analyze_try_def invoke_def run_code_def exec_def analysis_namespace_def Let_def)

lemma viz_try_any_fig:
  assumes "llm_invoke w (length (llm_calls s)) llm VIZ_SYSTEM_PROMPT u = Inr response"
    and "extract_tag response ''code'' \<noteq> []"
    and "exec_code w (Suc (length (llm_calls s))) (extract_tag response ''code'') (viz_namespace df) = Inr ns"
  shows "fst (viz_try w df llm u lc s) =
           (if namespace_get ns ''fig'' = PyNone
            then Inl (own_exception w ''ValueError'' ''Code did not define a `fig` variable.'')
            else Inr (namespace_get ns ''fig'', extract_tag response ''code''))"
  using assms
  by (cases "namespace_get ns ''fig''")
     (simp_all add: viz_try_def invoke_def exec_def viz_namespace_def Let_def)

lemma is_Exception_own: "is_Exception (own_exception w name msg)"
  by (simp add: is_Exception_def own_exception_def)

lemma message_own: "message (own_exception w name msg) = msg"
  by (simp add: own_exception_def)

lemma extract_code_wrong_type:
  "extract_tag ''<code>fig = df</code>'' ''code'' = ''fig = df''"
  "extract_tag ''<code>result = lf</code>'' ''code'' = ''result = lf''"
  by (simp_all add: extract_tag_def re_search_tag_def strip_def is_space_def)

lemma build_llm_wrong_type:
  "build_llm wrong_type_world b =
     Inr \<lparr>client_class = ChatGroq, client_model = (if b then ''llama-3.1-8b'' else ''llama-3.3-70b''),
          client_temperature = 0, client_max_tokens = 4096\<rparr>"
  by (simp add: build_llm_def wrong_type_world_def sample_world_def sample_settings_def)

lemma llm_invoke_wrong_type:
  "llm_invoke wrong_type_world n llm sys user =
     Inr (if sys = VIZ_SYSTEM_PROMPT then ''<code>fig = df</code>'' else ''<code>result = lf</code>'')"
  by (simp add: wrong_type_world_def)

lemma exec_code_wrong_type:
  "exec_code wrong_type_world n code ns =
     Inr (if code = ''fig = df'' then (''fig'', namespace_get ns ''df'') # ns
          else (''result'', namespace_get ns ''lf'') # ns)"
  by (simp add: wrong_type_world_def)

section \<open>The SQL generator\<close>

lemma execute_sql_effects:
  assumes "execute_sql w df query s = (r, s1)"
  shows "llm_calls s1 = llm_calls s"
    and "sql_runs s1 = (if duckdb_connect w (length (llm_calls s)) = None then sql_runs s @ [query] else sql_runs s)"
    and "r = (case duckdb_connect w (length (llm_calls s)) of
                Some e \<Rightarrow> Inl e
              | None \<Rightarrow> duckdb_execute w (length (llm_calls s)) df query)"
  using assms by (auto simp: execute_sql_def split: option.splits)

lemma sql_try_effects:
  assumes "sql_try w lf llm u s = (r, query, s1)"
  shows "llm_calls s1 = llm_calls s @ [\<lparr>call_client = llm, call_system = SQL_SYSTEM_PROMPT, call_user = u\<rparr>]"
    and "sql_runs s1 = sql_runs s \<or> sql_runs s1 = sql_runs s @ [query]"
proof -
  let ?s0 = "s\<lparr>llm_calls := llm_calls s @ [\<lparr>call_client = llm, call_system = SQL_SYSTEM_PROMPT, call_user = u\<rparr>]\<rparr>"
  have i: "invoke w llm SQL_SYSTEM_PROMPT u s = (llm_invoke w (length (llm_calls s)) llm SQL_SYSTEM_PROMPT u, ?s0)"
    by (simp add: invoke_def)
  have "llm_calls s1 = llm_calls s @ [\<lparr>call_client = llm, call_system = SQL_SYSTEM_PROMPT, call_user = u\<rparr>]
      \<and> (sql_runs s1 = sql_runs s \<or> sql_runs s1 = sql_runs s @ [query])"
  proof (cases "llm_invoke w (length (llm_calls s)) llm SQL_SYSTEM_PROMPT u")
    case (Inl e)
    with assms i show ?thesis by (auto simp: sql_try_def)
  next
    case (Inr response)
    show ?thesis
    proof (cases "extract_tag response ''sql'' = []")
      case True
      with assms i Inr show ?thesis by (auto simp: sql_try_def Let_def)
    next
      case False
      show ?thesis
      proof (cases "lf_collect lf")
        case (Inl e)
        with assms i Inr False show ?thesis by (auto simp: sql_try_def Let_def)
      next
        case df: (Inr df)
        obtain y s2 where ex: "execute_sql w df (extract_tag response ''sql'') ?s0 = (y, s2)"
          by (cases "execute_sql w df (extract_tag response ''sql'') ?s0") auto
        from execute_sql_effects(1,2)[OF ex] assms i Inr False df ex show ?thesis
          by (cases y) (auto simp: sql_try_def Let_def split: if_splits)
      qed
    qed
  qed
  then show "llm_calls s1 = llm_calls s @ [\<lparr>call_client = llm, call_system = SQL_SYSTEM_PROMPT, call_user = u\<rparr>]"
    and "sql_runs s1 = sql_runs s \<or> sql_runs s1 = sql_runs s @ [query]" by simp_all
qed

lemma sql_generate_effects:
  assumes "sql_generate w q lf s = (r, s')"
  shows "length (new_calls s s') \<le> 1 \<and> length (sql_runs s') \<le> Suc (length (sql_runs s))"
proof (cases "build_llm w False")
  case (Inl e)
  with assms show ?thesis by (auto simp: sql_generate_def new_calls_def)
next
  case llm: (Inr llm)
  show ?thesis
  proof (cases "get_schema_info lf")
    case (Inl e)
    with assms llm show ?thesis by (auto simp: sql_generate_def new_calls_def)
  next
    case (Inr si)
    obtain t query s1 where t: "sql_try w lf llm (sql_user_message si q) s = (t, query, s1)"
      by (cases "sql_try w lf llm (sql_user_message si q) s") auto
    from assms llm Inr t have "s' = s1"
      by (cases t) (auto simp: sql_generate_def split: if_splits)
    with sql_try_effects[OF t] show ?thesis by (auto simp: new_calls_def)
  qed
qed

lemma sql_generate_calls:
  assumes "build_llm w False = Inr llm" "get_schema_info lf = Inr si" "sql_generate w q lf s = (r, s')"
  shows "new_calls s s' = [\<lparr>call_client = llm, call_system = SQL_SYSTEM_PROMPT,
                           call_user = sql_user_message si q\<rparr>]"
proof -
  obtain t query s1 where t: "sql_try w lf llm (sql_user_message si q) s = (t, query, s1)"
    by (cases "sql_try w lf llm (sql_user_message si q) s") auto
  from assms t have "s' = s1"
    by (cases t) (auto simp: sql_generate_def split: if_splits)
  with sql_try_effects(1)[OF t] show ?thesis by (simp add: new_calls_def)
qed

lemma sql_generate_model_error:
  assumes "build_llm w False = Inr llm" "get_schema_info lf = Inr si"
    and "llm_invoke w (length (llm_calls s)) llm SQL_SYSTEM_PROMPT (sql_user_message si q) = Inl e"
    and "is_Exception e"
  shows "fst (sql_generate w q lf s) =
           Inr \<lparr>sql_success = False, sql_query = [], sql_result_df = None, sql_error = Some (message e)\<rparr>"
    and "sql_runs (snd (sql_generate w q lf s)) = sql_runs s"
  using assms by (simp_all add: sql_generate_def sql_try_def invoke_def)

lemma sql_generate_no_block:
  assumes "build_llm w False = Inr llm" "get_schema_info lf = Inr si"
    and "llm_invoke w (length (llm_calls s)) llm SQL_SYSTEM_PROMPT (sql_user_message si q) = Inr response"
    and "extract_tag response ''sql'' = []"
  shows "fst (sql_generate w q lf s) =
           Inr \<lparr>sql_success = False, sql_query = [], sql_result_df = None,
                sql_error = Some ''LLM did not return a <sql> block.''\<rparr>"
    and "sql_runs (snd (sql_generate w q lf s)) = sql_runs s"
  using assms
  by (simp_all add: sql_generate_def sql_try_def invoke_def Let_def is_Exception_own)
     (simp_all add: own_exception_def)

lemma sql_generate_query_error:
  assumes "build_llm w False = Inr llm" "get_schema_info lf = Inr si"
    and "llm_invoke w (length (llm_calls s)) llm SQL_SYSTEM_PROMPT (sql_user_message si q) = Inr response"
    and "extract_tag response ''sql'' \<noteq> []" "lf_collect lf = Inr df"
    and "duckdb_connect w (Suc (length (llm_calls s))) = None"
    and "duckdb_execute w (Suc (length (llm_calls s))) df (extract_tag response ''sql'') = Inl e"
    and "is_Exception e"
  shows "fst (sql_generate w q lf s) =
           Inr \<lparr>sql_success = False, sql_query = extract_tag response ''sql'', sql_result_df = None,
                sql_error = Some (message e)\<rparr>"
    and "sql_runs (snd (sql_generate w q lf s)) = sql_runs s @ [extract_tag response ''sql'']"
  using assms
  by (simp_all add: sql_generate_def sql_try_def invoke_def execute_sql_def Let_def)

lemma sql_try_query:
  assumes "sql_try w lf llm u s = (t, query, s1)"
  shows "query = (case llm_invoke w (length (llm_calls s)) llm SQL_SYSTEM_PROMPT u of
                    Inl e \<Rightarrow> []
                  | Inr response \<Rightarrow> extract_tag response ''sql'')"
proof (cases "llm_invoke w (length (llm_calls s)) llm SQL_SYSTEM_PROMPT u")
  case (Inl e)
  with assms show ?thesis by (auto simp: sql_try_def invoke_def)
next
  case (Inr response)
  let ?s0 = "s\<lparr>llm_calls := llm_calls s @ [\<lparr>call_client = llm, call_system = SQL_SYSTEM_PROMPT, call_user = u\<rparr>]\<rparr>"
  show ?thesis
  proof (cases "extract_tag response ''sql'' = []")
    case True
    with assms Inr show ?thesis by (auto simp: sql_try_def invoke_def Let_def)
  next
    case False
    show ?thesis
    proof (cases "lf_collect lf")
      case (Inl e)
      with assms Inr False show ?thesis by (auto simp: sql_try_def invoke_def Let_def)
    next
      case df: (Inr df)
      obtain y s2 where ex: "execute_sql w df (extract_tag response ''sql'') ?s0 = (y, s2)"
        by (cases "execute_sql w df (extract_tag response ''sql'') ?s0") auto
      with assms Inr False df show ?thesis
        by (cases y) (auto simp: sql_try_def invoke_def Let_def)
    qed
  qed
qed

lemma sql_generate_result:
  assumes "build_llm w False = Inr llm" "get_schema_info lf = Inr si" "sql_generate w q lf s = (r, s')"
  shows "(\<forall>exc. r = Inl exc \<longrightarrow> \<not> is_Exception exc)
     \<and> (\<forall>res. r = Inr res \<and> \<not> sql_success res \<longrightarrow>
           sql_result_df res = None \<and> sql_error res \<noteq> None
           \<and> sql_query res =
               (case llm_invoke w (length (llm_calls s)) llm SQL_SYSTEM_PROMPT (sql_user_message si q) of
                  Inl e \<Rightarrow> []
                | Inr response \<Rightarrow> extract_tag response ''sql''))"
proof -
  obtain t query s1 where t: "sql_try w lf llm (sql_user_message si q) s = (t, query, s1)"
    by (cases "sql_try w lf llm (sql_user_message si q) s") auto
  note qq = sql_try_query[OF t]
  from assms t qq show ?thesis
    by (cases t) (auto simp: sql_generate_def split: if_splits)
qed

section \<open>The graph\<close>

lemma route_after_executor_merge:
  "route_after_executor (merge state u) =
     (if (case up_next_node u of None \<Rightarrow> st_next_node state | Some v \<Rightarrow> v) = JStr ''viz_node''
      then ''viz_node'' else ''responder'')"
  by (simp add: route_after_executor_def merge_def)

lemma analysis_executor_node_no_data:
  assumes "st_raw_dataframe state = None"
  shows "analysis_executor_node w state s =
           (Inr (no_update
              \<lparr>up_error := Some (Some ''No dataset loaded. Please upload a CSV file first.''),
               up_next_node := Some (JStr ''responder'')\<rparr>), s)"
  using assms by (simp add: analysis_executor_node_def)

lemma analysis_executor_node_route:
  assumes "st_raw_dataframe state = Some lf"
    and "analyze w PolarsAnalyst (st_user_question state) lf s = (Inr res, s1)"
  shows "\<exists>u. analysis_executor_node w state s = (Inr u, s1)
           \<and> route_after_executor (merge state u) =
               (if success res \<and> truthy (dict_get (st_plan state) ''requires_viz'' JNull)
                then ''viz_node'' else ''responder'')"
  using assms
  by (simp add: analysis_executor_node_def route_after_executor_merge no_update_def Let_def)

lemma path_from_responder: "fst (snd (from_responder w state s)) = [Responder]"
  by (simp add: from_responder_def split: prod.splits)

lemma path_from_viz_node: "hd (fst (snd (from_viz_node w state s))) = Viz_node"
  by (simp add: from_viz_node_def split: prod.splits sum.splits)

lemma path_from_viz_node_take: "take 1 (fst (snd (from_viz_node w state s))) = [Viz_node]"
  by (simp add: from_viz_node_def split: prod.splits sum.splits)

lemma from_executor_path:
  assumes "analysis_executor_node w state s = (Inr u, s1)"
  shows "take 2 (fst (snd (from_executor w state s))) =
           [Executor, node_of_name (route_after_executor (merge state u))]"
proof (cases "node_of_name (route_after_executor (merge state u)) = Viz_node")
  case True
  obtain r path s2 where v: "from_viz_node w (merge state u) s1 = (r, path, s2)"
    by (cases "from_viz_node w (merge state u) s1") auto
  with path_from_viz_node_take[of w "merge state u" s1] have "take 1 path = [Viz_node]" by simp
  with assms True v show ?thesis
    by (simp add: from_executor_def run_node_def numeral_2_eq_2)
next
  case False
  then have n: "node_of_name (route_after_executor (merge state u)) = Responder"
    by (simp add: node_of_name_def route_after_executor_def split: if_splits)
  obtain r path s2 where v: "from_responder w (merge state u) s1 = (r, path, s2)"
    by (cases "from_responder w (merge state u) s1") auto
  with path_from_responder[of w "merge state u" s1] have "path = [Responder]" by simp
  with assms False n v show ?thesis
    by (simp add: from_executor_def run_node_def numeral_2_eq_2)
qed

lemmas pipeline_sample =
  run_sample from_executor_def from_viz_node_def from_responder_def from_sql_node_def run_node_def
  analysis_executor_node_def viz_executor_node_def responder_node_def sql_executor_node_def
  analyze_def viz_generate_def merge_def no_update_def route_after_executor_def node_of_name_def
  initial_state_def dict_get_def

section \<open>The planner\<close>

lemma planner_node_response:
  assumes "build_llm w False = Inr llm"
    and "planner_schema_info (st_raw_dataframe state) = Inr si"
    and "llm_invoke w (length (llm_calls s)) llm PLANNER_PROMPT
           (''User Question: '' @ st_user_question state @ si) = Inr response"
  shows "fst (planner_node w state s) =
           (case planner_parse w (st_user_question state) (planner_raw_json response) of
              Inl e \<Rightarrow> Inl e
            | Inr (JDict plan) \<Rightarrow>
                Inr (no_update
                  \<lparr>up_plan := Some plan,
                   up_next_node :=
                     Some (if dict_get plan ''routing'' (JStr ''executor'') = JStr ''multi''
                           then JStr ''executor'' else dict_get plan ''routing'' (JStr ''executor'')),
                   up_messages := [''Plan created: '' @ json_dumps w (JDict plan)]\<rparr>)
            | Inr plan \<Rightarrow>
                Inl (own_exception w ''AttributeError''
                       ([CHR 0x27] @ json_type_name plan @ [CHR 0x27]
                        @ '' object has no attribute '' @ [CHR 0x27] @ ''get'' @ [CHR 0x27])))"
  using assms
  by (simp add: planner_node_def invoke_def Let_def split: sum.splits json.splits)

lemma default_plan_routing [simp]:
  "dict_get (default_plan q) ''routing'' dflt = JStr ''executor''"
  by (simp add: default_plan_def dict_get_def)

lemma build_llm_pipeline: "build_llm (pipeline_world reply) b = build_llm (sample_world 0) b"
  by (simp add: build_llm_def pipeline_world_def sample_world_def sample_settings_def)

lemma sample_client_built: "build_llm (sample_world n) False = Inr sample_client"
  by (simp add: build_llm_sample sample_client_def)

lemma planner_schema_info_sample:
  "planner_schema_info (st_raw_dataframe (initial_state q (Some sample_lf)))
     = Inr ''\<newline>Dataset columns:\<newline>  - supplier_name: String\<newline>  - total_revenue: Float64''"
  by (simp add: planner_schema_info_def initial_state_def sample_lf_def)

lemma llm_invoke_pipeline_planner:
  "llm_invoke (pipeline_world reply) n llm PLANNER_PROMPT user = Inr reply"
  by (simp add: pipeline_world_def)

lemma json_loads_pipeline:
  \<open>json_loads (pipeline_world reply) text =
     (if text = ''42'' then Inr (JInt 42)
      else if text = ''{"routing": "multi", "requires_viz": true}''
      then Inr (JDict [(''routing'', JStr ''multi''), (''requires_viz'', JBool True)])
      else Inl decode_error)\<close>
  by (simp add: pipeline_world_def)

lemma planner_default_on_decode_error:
  "build_llm w False = Inr llm
   \<and> planner_schema_info (st_raw_dataframe state) = Inr si
   \<and> llm_invoke w (length (llm_calls s)) llm PLANNER_PROMPT
        (''User Question: '' @ st_user_question state @ si) = Inr response
   \<and> json_loads w (planner_raw_json response) = Inl e \<and> exc_class e = JSONDecodeError \<longrightarrow>
   fst (planner_node w state s) =
     Inr (no_update
       \<lparr>up_plan := Some (default_plan (st_user_question state)),
        up_next_node := Some (JStr ''executor''),
        up_messages := [''Plan created: '' @ json_dumps w (JDict (default_plan (st_user_question state)))]\<rparr>)
   \<and> map_of (default_plan (st_user_question state)) ''intent'' = Some (JStr ''analysis'')
   \<and> map_of (default_plan (st_user_question state)) ''routing'' = Some (JStr ''executor'')
   \<and> map_of (default_plan (st_user_question state)) ''requires_sql'' = Some (JBool False)
   \<and> map_of (default_plan (st_user_question state)) ''requires_viz'' = Some (JBool False)
   \<and> map_of (default_plan (st_user_question state)) ''chart_type'' = Some JNull"
proof (intro impI; elim conjE)
  assume a: "build_llm w False = Inr llm" "planner_schema_info (st_raw_dataframe state) = Inr si"
    "llm_invoke w (length (llm_calls s)) llm PLANNER_PROMPT
        (''User Question: '' @ st_user_question state @ si) = Inr response"
    and j: "json_loads w (planner_raw_json response) = Inl e" "exc_class e = JSONDecodeError"
  from j have "planner_parse w (st_user_question state) (planner_raw_json response)
      = Inr (JDict (default_plan (st_user_question state)))"
    by (simp add: planner_parse_def)
  with planner_node_response[OF a] have "fst (planner_node w state s) =
     Inr (no_update
       \<lparr>up_plan := Some (default_plan (st_user_question state)),
        up_next_node := Some (JStr ''executor''),
        up_messages := [''Plan created: '' @ json_dumps w (JDict (default_plan (st_user_question state)))]\<rparr>)"
    by simp
  then show "fst (planner_node w state s) =
     Inr (no_update
       \<lparr>up_plan := Some (default_plan (st_user_question state)),
        up_next_node := Some (JStr ''executor''),
        up_messages := [''Plan created: '' @ json_dumps w (JDict (default_plan (st_user_question state)))]\<rparr>)
   \<and> map_of (default_plan (st_user_question state)) ''intent'' = Some (JStr ''analysis'')
   \<and> map_of (default_plan (st_user_question state)) ''routing'' = Some (JStr ''executor'')
   \<and> map_of (default_plan (st_user_question state)) ''requires_sql'' = Some (JBool False)
   \<and> map_of (default_plan (st_user_question state)) ''requires_viz'' = Some (JBool False)
   \<and> map_of (default_plan (st_user_question state)) ''chart_type'' = Some JNull"
    by (simp add: default_plan_def)
qed

lemma split_first_replicate:
  "c \<noteq> hd needle \<Longrightarrow> needle \<noteq> [] \<Longrightarrow> split_first needle (replicate n c) = None"
  by (induction n) (auto simp: prefix_def neq_Nil_conv)

lemma dropWhile_replicate: "\<not> P c \<Longrightarrow> dropWhile P (replicate n c) = replicate n c"
  by (cases n) simp_all

lemma strip_replicate: "\<not> is_space c \<Longrightarrow> strip (replicate n c) = replicate n c"
  by (simp add: strip_def dropWhile_replicate)

lemma planner_raw_json_deep: "planner_raw_json deep_reply = deep_reply"
proof -
  have "re_search_tag ''plan'' deep_reply = None"
    by (simp add: re_search_tag_def deep_reply_def split_first_replicate)
  moreover have "strip deep_reply = deep_reply"
    unfolding deep_reply_def by (rule strip_replicate) (simp add: is_space_def)
  ultimately show ?thesis by (simp add: planner_raw_json_def)
qed

lemma build_llm_deep: "build_llm deep_world False = Inr sample_client"
  by (simp add: build_llm_def deep_world_def pipeline_world_def sample_world_def sample_settings_def
      sample_client_def)

lemma llm_invoke_deep_planner: "llm_invoke deep_world n llm PLANNER_PROMPT user = Inr deep_reply"
  by (simp add: deep_world_def pipeline_world_def)

lemma json_loads_deep:
  "json_loads deep_world text = (if text = deep_reply then Inl recursion_error else Inl decode_error)"
  by (simp add: deep_world_def)

section \<open>Which failures the pipeline survives\<close>

lemma build_llm_either:
  assumes "build_llm w False = Inr llm" "build_llm w True = Inr llm'"
  shows "build_llm w b \<noteq> Inl e"
  using assms by (cases b) auto

lemma analyze_try_raises:
  assumes "analyze_try w lf llm u lc s = (Inl e, lc1, s1)"
    and "\<And>n c sys u e. llm_invoke w n c sys u = Inl e \<Longrightarrow> is_Exception e"
    and "\<And>n code ns e. exec_code w n code ns = Inl e \<Longrightarrow> is_Exception e"
  shows "is_Exception e"
  using assms
  by (auto simp: analyze_try_def invoke_def run_code_def exec_def Let_def is_Exception_own
      split: sum.splits if_splits pyobj.splits prod.splits)

lemma viz_try_raises:
  assumes "viz_try w df llm u lc s = (Inl e, lc1, s1)"
    and "\<And>n c sys u e. llm_invoke w n c sys u = Inl e \<Longrightarrow> is_Exception e"
    and "\<And>n code ns e. exec_code w n code ns = Inl e \<Longrightarrow> is_Exception e"
  shows "is_Exception e"
  using assms
  by (auto simp: viz_try_def invoke_def exec_def Let_def is_Exception_own
      split: sum.splits if_splits pyobj.splits prod.splits)

lemma analyze_loop_returns:
  assumes run: "analyze_loop w R q si lf as h lc s = (r, its, s')"
    and b: "\<And>b e. build_llm w b \<noteq> Inl e"
    and t: "\<And>llm u lc s e lc1 s1. analyze_try w lf llm u lc s = (Inl e, lc1, s1) \<Longrightarrow> is_Exception e"
  shows "\<exists>p. r = Inr p"
  using run
proof (induction rule: analyze_loop_induct)
  case (No_client a as h lc s e)
  with b show ?case by blast
next
  case (Uncaught a as h lc s llm exc lc1 s1)
  with t show ?case by blast
qed simp_all

lemma viz_loop_returns:
  assumes run: "viz_loop w R base df as h lc s = (r, its, s')"
    and b: "\<And>b e. build_llm w b \<noteq> Inl e"
    and t: "\<And>llm u lc s e lc1 s1. viz_try w df llm u lc s = (Inl e, lc1, s1) \<Longrightarrow> is_Exception e"
  shows "\<exists>p. r = Inr p"
  using run
proof (induction rule: viz_loop_induct)
  case (No_client a as h lc s e)
  with b show ?case by blast
next
  case (Uncaught a as h lc s llm exc lc1 s1)
  with t show ?case by blast
qed simp_all

lemma analyze_returns:
  assumes b: "build_llm w False = Inr llm" "build_llm w True = Inr llm'"
    and i: "\<And>n c sys u e. llm_invoke w n c sys u = Inl e \<Longrightarrow> is_Exception e"
    and x: "\<And>n code ns e. exec_code w n code ns = Inl e \<Longrightarrow> is_Exception e"
    and sc: "lf_schema lf = Inr schema"
  shows "\<exists>res s1. analyze w self q lf s = (Inr res, s1)"
proof -
  obtain r its s' where run: "analyze_run w self q lf s = (r, its, s')"
    by (cases "analyze_run w self q lf s") auto
  from sc obtain si where si: "get_schema_info lf = Inr si" by (simp add: get_schema_info_def)
  from run si have loop:
    "analyze_loop w (pa_max_retries self) q si lf [1 .. pa_max_retries self + 1] [] [] s = (r, its, s')"
    by (simp add: analyze_run_def)
  have "\<exists>p. r = Inr p"
    by (rule analyze_loop_returns[OF loop build_llm_either[OF b] analyze_try_raises[OF _ i x]])
  with run show ?thesis by (auto simp: analyze_def)
qed

lemma viz_generate_returns:
  assumes b: "build_llm w False = Inr llm" "build_llm w True = Inr llm'"
    and i: "\<And>n c sys u e. llm_invoke w n c sys u = Inl e \<Longrightarrow> is_Exception e"
    and x: "\<And>n code ns e. exec_code w n code ns = Inl e \<Longrightarrow> is_Exception e"
  shows "\<exists>res s1. viz_generate w self q df s = (Inr res, s1)"
proof -
  obtain r its s' where run: "viz_run w self q df s = (r, its, s')"
    by (cases "viz_run w self q df s") auto
  then have loop:
    "viz_loop w (vg_max_retries self) (viz_base_prompt q df) df [1 .. vg_max_retries self + 1] [] [] s
       = (r, its, s')"
    by (simp add: viz_run_def)
  have "\<exists>p. r = Inr p"
    by (rule viz_loop_returns[OF loop build_llm_either[OF b] viz_try_raises[OF _ i x]])
  with run show ?thesis by (auto simp: viz_generate_def)
qed

lemma sql_generate_returns:
  assumes b: "build_llm w False = Inr llm"
    and i: "\<And>n c sys u e. llm_invoke w n c sys u = Inl e \<Longrightarrow> is_Exception e"
    and c: "\<And>e. lf_collect lf = Inl e \<Longrightarrow> is_Exception e"
    and d: "\<And>n e. duckdb_connect w n = Some e \<Longrightarrow> is_Exception e"
    and x: "\<And>n df q e. duckdb_execute w n df q = Inl e \<Longrightarrow> is_Exception e"
    and sc: "lf_schema lf = Inr schema"
  shows "\<exists>res s1. sql_generate w q lf s = (Inr res, s1)"
proof -
  from sc obtain si where si: "get_schema_info lf = Inr si" by (simp add: get_schema_info_def)
  obtain r qy s1 where t: "sql_try w lf llm (sql_user_message si q) s = (r, qy, s1)"
    by (cases "sql_try w lf llm (sql_user_message si q) s") auto
  show ?thesis
  proof (cases r)
    case (Inl e)
    with t have "is_Exception e"
      by (auto simp: sql_try_def invoke_def execute_sql_def Let_def is_Exception_own
          split: sum.splits if_splits option.splits prod.splits dest: i c d x)
    with Inl t b si show ?thesis by (simp add: sql_generate_def)
  next
    case (Inr df)
    with t b si show ?thesis by (simp add: sql_generate_def)
  qed
qed

lemma analysis_executor_node_returns:
  assumes b: "build_llm w False = Inr llm" "build_llm w True = Inr llm'"
    and i: "\<And>n c sys u e. llm_invoke w n c sys u = Inl e \<Longrightarrow> is_Exception e"
    and x: "\<And>n code ns e. exec_code w n code ns = Inl e \<Longrightarrow> is_Exception e"
    and lf: "st_raw_dataframe st = Some lf" and sc: "lf_schema lf = Inr schema"
  shows "\<exists>res s1 u. analyze w PolarsAnalyst (st_user_question st) lf s = (Inr res, s1)
           \<and> analysis_executor_node w st s = (Inr u, s1)
           \<and> (\<not> success res \<longrightarrow>
                u = no_update \<lparr>up_error := Some (error res),
                               up_generated_code := Some (generated_code res),
                               up_next_node := Some (JStr ''responder'')\<rparr>)
           \<and> (success res \<longrightarrow>
                up_error u = Some None \<and> up_analysis_result u = Some (result_df res)
                \<and> up_next_node u =
                    Some (JStr (if truthy (dict_get (st_plan st) ''requires_viz'' JNull)
                                then ''viz_node'' else ''responder'')))"
proof -
  have "\<exists>res s1. analyze w PolarsAnalyst (st_user_question st) lf s = (Inr res, s1)"
    by (rule analyze_returns[OF b _ _ sc]) (erule i, erule x)
  then obtain res s1 where "analyze w PolarsAnalyst (st_user_question st) lf s = (Inr res, s1)"
    by blast
  with lf show ?thesis by (simp add: analysis_executor_node_def no_update_def Let_def)
qed

lemma sql_executor_node_returns:
  assumes b: "build_llm w False = Inr llm"
    and i: "\<And>n c sys u e. llm_invoke w n c sys u = Inl e \<Longrightarrow> is_Exception e"
    and d: "\<And>n e. duckdb_connect w n = Some e \<Longrightarrow> is_Exception e"
    and x: "\<And>n df q e. duckdb_execute w n df q = Inl e \<Longrightarrow> is_Exception e"
    and lf: "st_raw_dataframe st = Some lf" and sc: "lf_schema lf = Inr schema"
    and c: "\<And>e. lf_collect lf = Inl e \<Longrightarrow> is_Exception e"
  shows "\<exists>res s1 u. sql_generate w (st_user_question st) lf s = (Inr res, s1)
           \<and> sql_executor_node w st s = (Inr u, s1)
           \<and> up_next_node u = Some (JStr ''responder'')
           \<and> (\<not> sql_success res \<longrightarrow>
                u = no_update \<lparr>up_sql_query := Some (sql_query res),
                               up_error := Some (sql_error res),
                               up_next_node := Some (JStr ''responder'')\<rparr>)
           \<and> (sql_success res \<longrightarrow>
                up_error u = Some None \<and> up_sql_query u = Some (sql_query res)
                \<and> up_sql_result u = Some (sql_result_df res))"
proof -
  have "\<exists>res s1. sql_generate w (st_user_question st) lf s = (Inr res, s1)"
    by (rule sql_generate_returns[OF b _ _ _ _ sc]) (erule i, erule c, erule d, erule x)
  then obtain res s1 where "sql_generate w (st_user_question st) lf s = (Inr res, s1)"
    by blast
  with lf show ?thesis by (simp add: sql_executor_node_def no_update_def)
qed

lemma viz_executor_node_generate:
  assumes "st_analysis_result st = Some df
           \<or> st_analysis_result st = None \<and> st_raw_dataframe st = Some lf \<and> lf_collect lf = Inr df"
    and "viz_generate w VizGenerator (viz_question w st) df s = (Inr res, s1)"
  shows "viz_executor_node w st s =
           (Inr (if chart_success res
                 then no_update
                        \<lparr>up_figure := Some (figure res), up_error := Some None,
                         up_next_node := Some (JStr ''responder''),
                         up_messages :=
                           [''Chart created after '' @ str_int (chart_attempts res) @ '' attempt(s).'']\<rparr>
                 else no_update
                        \<lparr>up_error := Some (chart_error res),
                         up_next_node := Some (JStr ''responder'')\<rparr>), s1)"
  using assms by (auto simp: viz_executor_node_def viz_question_def Let_def)

lemma viz_executor_node_returns:
  assumes b: "build_llm w False = Inr llm" "build_llm w True = Inr llm'"
    and i: "\<And>n c sys u e. llm_invoke w n c sys u = Inl e \<Longrightarrow> is_Exception e"
    and x: "\<And>n code ns e. exec_code w n code ns = Inl e \<Longrightarrow> is_Exception e"
    and df: "st_analysis_result st = Some df
             \<or> st_analysis_result st = None \<and> st_raw_dataframe st = Some lf \<and> lf_collect lf = Inr df"
  shows "\<exists>res s1 u. viz_generate w VizGenerator (viz_question w st) df s = (Inr res, s1)
           \<and> viz_executor_node w st s = (Inr u, s1)
           \<and> up_next_node u = Some (JStr ''responder'')
           \<and> (\<not> chart_success res \<longrightarrow>
                u = no_update \<lparr>up_error := Some (chart_error res),
                               up_next_node := Some (JStr ''responder'')\<rparr>)
           \<and> (chart_success res \<longrightarrow> up_error u = Some None \<and> up_figure u = Some (figure res))"
proof -
  have "\<exists>res s1. viz_generate w VizGenerator (viz_question w st) df s = (Inr res, s1)"
    by (rule viz_generate_returns[OF b]) (erule i, erule x)
  then obtain res s1 where g: "viz_generate w VizGenerator (viz_question w st) df s = (Inr res, s1)"
    by blast
  from viz_executor_node_generate[OF df g] g show ?thesis by (simp add: no_update_def)
qed

lemma responder_node_returns:
  assumes b: "build_llm w False = Inr llm"
    and i: "\<And>n ctx e. llm_invoke w n llm RESPONDER_PROMPT ctx \<noteq> Inl e"
  shows "\<exists>a s1. llm_invoke w (length (llm_calls s)) llm RESPONDER_PROMPT (responder_context st) = Inr a
           \<and> responder_node w st s =
               (Inr (no_update \<lparr>up_final_answer := Some a, up_next_node := Some (JStr ''end''),
                                up_messages := [a]\<rparr>), s1)"
proof -
  from i obtain a where
    "llm_invoke w (length (llm_calls s)) llm RESPONDER_PROMPT (responder_context st) = Inr a"
    by (cases "llm_invoke w (length (llm_calls s)) llm RESPONDER_PROMPT (responder_context st)") auto
  with b show ?thesis by (simp add: responder_node_def invoke_def)
qed

lemma from_responder_result:
  assumes "from_responder w st s = (r, path, s')"
  shows "path = [Responder]"
    and "\<And>e. r = Inl e \<Longrightarrow> fst (node_fun Responder w st s) = Inl e"
    and "\<And>final. r = Inr final \<Longrightarrow>
          st_next_node final = JStr ''end'' \<and> st_messages final \<noteq> []
          \<and> last (st_messages final) = st_final_answer final
          \<and> (\<exists>llm n ctx. build_llm w False = Inr llm
                \<and> llm_invoke w n llm RESPONDER_PROMPT ctx = Inr (st_final_answer final))"
proof -
  show "path = [Responder]"
    using assms by (auto simp: from_responder_def split: prod.splits)
  show "fst (node_fun Responder w st s) = Inl e" if "r = Inl e" for e
    using assms that
    by (auto simp: from_responder_def run_node_def node_fun_def split: prod.splits sum.splits)
  show "st_next_node final = JStr ''end'' \<and> st_messages final \<noteq> []
          \<and> last (st_messages final) = st_final_answer final
          \<and> (\<exists>llm n ctx. build_llm w False = Inr llm
                \<and> llm_invoke w n llm RESPONDER_PROMPT ctx = Inr (st_final_answer final))" if "r = Inr final" for final
  proof -
    from assms that obtain u s1 where u: "responder_node w st s = (Inr u, s1)" "final = merge st u"
      by (auto simp: from_responder_def run_node_def split: prod.splits sum.splits)
    from u(1) obtain llm a where b: "build_llm w False = Inr llm"
      and a: "llm_invoke w (length (llm_calls s)) llm RESPONDER_PROMPT (responder_context st) = Inr a"
      and ua: "u = no_update \<lparr>up_final_answer := Some a, up_next_node := Some (JStr ''end''),
                                 up_messages := [a]\<rparr>"
      by (auto simp: responder_node_def invoke_def split: sum.splits)
    from u(2) ua have "st_next_node final = JStr ''end''" "st_messages final \<noteq> []"
      "last (st_messages final) = st_final_answer final" "st_final_answer final = a"
      by (simp_all add: merge_def no_update_def)
    with b a show ?thesis by blast
  qed
qed

lemma from_tool_node_result:
  assumes def: "from_node w st s =
      (case run_node f w st s of
         (Inl e, s1) \<Rightarrow> (Inl e, [n], s1)
       | (Inr state1, s1) \<Rightarrow>
           (case from_responder w state1 s1 of (r, path, s2) \<Rightarrow> (r, n # path, s2)))"
    and run: "from_node w st s = (r, path, s')"
  shows "path = [n] \<or> path = [n, Responder]"
    and "\<And>e. r = Inl e \<Longrightarrow>
          path = [n] \<and> fst (f w st s) = Inl e
          \<or> path = [n, Responder] \<and> (\<exists>st1 s1. fst (node_fun Responder w st1 s1) = Inl e)"
    and "\<And>final. r = Inr final \<Longrightarrow> path = [n, Responder] \<and>
          st_next_node final = JStr ''end'' \<and> st_messages final \<noteq> []
          \<and> last (st_messages final) = st_final_answer final
          \<and> (\<exists>llm n ctx. build_llm w False = Inr llm
                \<and> llm_invoke w n llm RESPONDER_PROMPT ctx = Inr (st_final_answer final))"
proof -
  show "path = [n] \<or> path = [n, Responder]"
    using run unfolding def
    by (auto split: prod.splits sum.splits dest: from_responder_result(1))
  show "path = [n] \<and> fst (f w st s) = Inl e
          \<or> path = [n, Responder] \<and> (\<exists>st1 s1. fst (node_fun Responder w st1 s1) = Inl e)"
    if "r = Inl e" for e
  proof (cases "run_node f w st s")
    case (Pair r1 s1)
    show ?thesis
    proof (cases r1)
      case (Inl e1)
      with Pair run that have "path = [n]" "e1 = e" unfolding def by simp_all
      moreover from Pair Inl have "fst (f w st s) = Inl e1"
        by (auto simp: run_node_def split: prod.splits sum.splits)
      ultimately show ?thesis by simp
    next
      case (Inr state1)
      obtain r2 p2 s2 where fr: "from_responder w state1 s1 = (r2, p2, s2)"
        by (cases "from_responder w state1 s1") auto
      with Pair Inr run that have "r2 = Inl e" "path = n # p2" unfolding def by simp_all
      with from_responder_result(1,2)[OF fr] show ?thesis by blast
    qed
  qed
  show "path = [n, Responder] \<and>
          st_next_node final = JStr ''end'' \<and> st_messages final \<noteq> []
          \<and> last (st_messages final) = st_final_answer final
          \<and> (\<exists>llm n ctx. build_llm w False = Inr llm
                \<and> llm_invoke w n llm RESPONDER_PROMPT ctx = Inr (st_final_answer final))" if "r = Inr final" for final
  proof (cases "run_node f w st s")
    case (Pair r1 s1)
    show ?thesis
    proof (cases r1)
      case (Inl e1)
      with Pair run that show ?thesis unfolding def by simp
    next
      case (Inr state1)
      obtain r2 p2 s2 where fr: "from_responder w state1 s1 = (r2, p2, s2)"
        by (cases "from_responder w state1 s1") auto
      with Pair Inr run that have "r2 = Inr final" "path = n # p2" unfolding def by simp_all
      with from_responder_result(1,3)[OF fr] show ?thesis by simp
    qed
  qed
qed

lemmas from_viz_node_result =
  from_tool_node_result[where from_node = from_viz_node and f = viz_executor_node and n = Viz_node,
    OF from_viz_node_def]

lemmas from_sql_node_result =
  from_tool_node_result[where from_node = from_sql_node and f = sql_executor_node and n = Sql_node,
    OF from_sql_node_def]

lemma from_executor_result:
  assumes run: "from_executor w st s = (r, path, s')"
  shows "path \<in> {[Executor], [Executor, Responder], [Executor, Viz_node],
                  [Executor, Viz_node, Responder]}"
    and "\<And>e. r = Inl e \<Longrightarrow> \<exists>st1 s1. fst (node_fun (last path) w st1 s1) = Inl e"
    and "\<And>final. r = Inr final \<Longrightarrow> last path = Responder \<and>
          st_next_node final = JStr ''end'' \<and> st_messages final \<noteq> []
          \<and> last (st_messages final) = st_final_answer final
          \<and> (\<exists>llm n ctx. build_llm w False = Inr llm
                \<and> llm_invoke w n llm RESPONDER_PROMPT ctx = Inr (st_final_answer final))"
proof -
  obtain r1 s1 where n: "run_node analysis_executor_node w st s = (r1, s1)"
    by (cases "run_node analysis_executor_node w st s") auto
  show "path \<in> {[Executor], [Executor, Responder], [Executor, Viz_node],
                  [Executor, Viz_node, Responder]}"
  proof (cases r1)
    case (Inl e1)
    with n run show ?thesis by (simp add: from_executor_def)
  next
    case (Inr state1)
    obtain r2 p2 s2 where f: "(if node_of_name (route_after_executor state1) = Viz_node
                 then from_viz_node w state1 s1 else from_responder w state1 s1) = (r2, p2, s2)"
      by (cases "if node_of_name (route_after_executor state1) = Viz_node
                 then from_viz_node w state1 s1 else from_responder w state1 s1") auto
    with n Inr run have p: "path = Executor # p2" by (simp add: from_executor_def)
    have "p2 = [Responder] \<or> p2 = [Viz_node] \<or> p2 = [Viz_node, Responder]"
    proof (cases "node_of_name (route_after_executor state1) = Viz_node")
      case True
      with f have "from_viz_node w state1 s1 = (r2, p2, s2)" by simp
      from from_viz_node_result(1)[OF this] show ?thesis by blast
    next
      case False
      with f have "from_responder w state1 s1 = (r2, p2, s2)" by simp
      from from_responder_result(1)[OF this] show ?thesis by blast
    qed
    with p show ?thesis by auto
  qed
  show "\<exists>st1 s1. fst (node_fun (last path) w st1 s1) = Inl e" if "r = Inl e" for e
  proof (cases r1)
    case (Inl e1)
    with n run that have "path = [Executor]" "e1 = e" by (simp_all add: from_executor_def)
    moreover from n Inl have "fst (analysis_executor_node w st s) = Inl e1"
      by (auto simp: run_node_def split: prod.splits sum.splits)
    ultimately show ?thesis by (auto simp: node_fun_def)
  next
    case (Inr state1)
    obtain r2 p2 s2 where f: "(if node_of_name (route_after_executor state1) = Viz_node
                 then from_viz_node w state1 s1 else from_responder w state1 s1) = (r2, p2, s2)"
      by (cases "if node_of_name (route_after_executor state1) = Viz_node
                 then from_viz_node w state1 s1 else from_responder w state1 s1") auto
    with n Inr run that have p: "path = Executor # p2" "r2 = Inl e" by (simp_all add: from_executor_def)
    show ?thesis
    proof (cases "node_of_name (route_after_executor state1) = Viz_node")
      case True
      with f have fv: "from_viz_node w state1 s1 = (r2, p2, s2)" by simp
      from from_viz_node_result(2)[OF fv p(2)]
      have "\<exists>st1 s1. fst (node_fun (last p2) w st1 s1) = Inl e"
        by (elim disjE conjE exE) (simp add: node_fun_def, blast)+
      moreover from from_viz_node_result(1)[OF fv] have "p2 \<noteq> []" by auto
      ultimately show ?thesis using p(1) by simp
    next
      case False
      with f have fr: "from_responder w state1 s1 = (r2, p2, s2)" by simp
      from from_responder_result(1,2)[OF fr] p show ?thesis by auto
    qed
  qed
  show "last path = Responder \<and>
          st_next_node final = JStr ''end'' \<and> st_messages final \<noteq> []
          \<and> last (st_messages final) = st_final_answer final
          \<and> (\<exists>llm n ctx. build_llm w False = Inr llm
                \<and> llm_invoke w n llm RESPONDER_PROMPT ctx = Inr (st_final_answer final))" if "r = Inr final" for final
  proof (cases r1)
    case (Inl e1)
    with n run that show ?thesis by (simp add: from_executor_def)
  next
    case (Inr state1)
    obtain r2 p2 s2 where f: "(if node_of_name (route_after_executor state1) = Viz_node
                 then from_viz_node w state1 s1 else from_responder w state1 s1) = (r2, p2, s2)"
      by (cases "if node_of_name (route_after_executor state1) = Viz_node
                 then from_viz_node w state1 s1 else from_responder w state1 s1") auto
    with n Inr run that have p: "path = Executor # p2" "r2 = Inr final" by (simp_all add: from_executor_def)
    show ?thesis
    proof (cases "node_of_name (route_after_executor state1) = Viz_node")
      case True
      with f have fv: "from_viz_node w state1 s1 = (r2, p2, s2)" by simp
      from from_viz_node_result(3)[OF fv p(2)] p(1) show ?thesis by simp
    next
      case False
      with f have fr: "from_responder w state1 s1 = (r2, p2, s2)" by simp
      from from_responder_result(1)[OF fr] from_responder_result(3)[OF fr p(2)] p(1)
      show ?thesis by simp
    qed
  qed
qed

lemma abi_graph_invoke_result:
  assumes run: "abi_graph_invoke w st s = (r, path, s')"
  shows "path \<in> {[Planner], [Planner, Responder],
                  [Planner, Executor], [Planner, Executor, Responder],
                  [Planner, Executor, Viz_node], [Planner, Executor, Viz_node, Responder],
                  [Planner, Sql_node], [Planner, Sql_node, Responder],
                  [Planner, Viz_node], [Planner, Viz_node, Responder]}"
    and "\<And>e. r = Inl e \<Longrightarrow>
          (\<exists>st1 s1. fst (node_fun (last path) w st1 s1) = Inl e)
          \<or> path = [Planner] \<and> (\<exists>st1. route_after_planner w st1 = Inl e)"
    and "\<And>final. r = Inr final \<Longrightarrow> last path = Responder \<and>
          st_next_node final = JStr ''end'' \<and> st_messages final \<noteq> []
          \<and> last (st_messages final) = st_final_answer final
          \<and> (\<exists>llm n ctx. build_llm w False = Inr llm
                \<and> llm_invoke w n llm RESPONDER_PROMPT ctx = Inr (st_final_answer final))"
proof -
  obtain r1 s1 where n: "run_node planner_node w st s = (r1, s1)"
    by (cases "run_node planner_node w st s") auto
  let ?next = "\<lambda>state1 name. (case node_of_name name of
                        Executor \<Rightarrow> from_executor w state1 s1
                      | Sql_node \<Rightarrow> from_sql_node w state1 s1
                      | Viz_node \<Rightarrow> from_viz_node w state1 s1
                      | _ \<Rightarrow> from_responder w state1 s1)"
  have next_path: "p2 \<in> {[Responder], [Executor], [Executor, Responder], [Executor, Viz_node],
                  [Executor, Viz_node, Responder], [Sql_node], [Sql_node, Responder],
                  [Viz_node], [Viz_node, Responder]}"
    and next_raise: "\<And>e. r2 = Inl e \<Longrightarrow> \<exists>st1 s1. fst (node_fun (last p2) w st1 s1) = Inl e"
    and next_ret: "\<And>final. r2 = Inr final \<Longrightarrow> last p2 = Responder \<and>
          st_next_node final = JStr ''end'' \<and> st_messages final \<noteq> []
          \<and> last (st_messages final) = st_final_answer final
          \<and> (\<exists>llm n ctx. build_llm w False = Inr llm
                \<and> llm_invoke w n llm RESPONDER_PROMPT ctx = Inr (st_final_answer final))"
    if f: "?next state1 name = (r2, p2, s2)" for state1 name r2 p2 s2
  proof -
    consider (E) "node_of_name name = Executor" "from_executor w state1 s1 = (r2, p2, s2)"
      | (S) "node_of_name name = Sql_node" "from_sql_node w state1 s1 = (r2, p2, s2)"
      | (V) "node_of_name name = Viz_node" "from_viz_node w state1 s1 = (r2, p2, s2)"
      | (R) "from_responder w state1 s1 = (r2, p2, s2)"
      using f by (cases "node_of_name name") simp_all
    note c = this
    show "p2 \<in> {[Responder], [Executor], [Executor, Responder], [Executor, Viz_node],
                  [Executor, Viz_node, Responder], [Sql_node], [Sql_node, Responder],
                  [Viz_node], [Viz_node, Responder]}"
    proof (cases rule: c)
      case E
      from from_executor_result(1)[OF E(2)] show ?thesis by auto
    next
      case S
      from from_sql_node_result(1)[OF S(2)] show ?thesis by auto
    next
      case V
      from from_viz_node_result(1)[OF V(2)] show ?thesis by auto
    next
      case R
      from from_responder_result(1)[OF R] show ?thesis by simp
    qed
    show "\<exists>st1 s1. fst (node_fun (last p2) w st1 s1) = Inl e" if e: "r2 = Inl e" for e
    proof (cases rule: c)
      case E
      from from_executor_result(2)[OF E(2) e] show ?thesis .
    next
      case S
      from from_sql_node_result(2)[OF S(2) e] show ?thesis
        by (elim disjE conjE exE) (simp add: node_fun_def, blast)+
    next
      case V
      from from_viz_node_result(2)[OF V(2) e] show ?thesis
        by (elim disjE conjE exE) (simp add: node_fun_def, blast)+
    next
      case R
      from from_responder_result(1)[OF R] from_responder_result(2)[OF R e] show ?thesis by auto
    qed
    show "last p2 = Responder \<and>
          st_next_node final = JStr ''end'' \<and> st_messages final \<noteq> []
          \<and> last (st_messages final) = st_final_answer final
          \<and> (\<exists>llm n ctx. build_llm w False = Inr llm
                \<and> llm_invoke w n llm RESPONDER_PROMPT ctx = Inr (st_final_answer final))" if e: "r2 = Inr final" for final
    proof (cases rule: c)
      case E
      from from_executor_result(3)[OF E(2) e] show ?thesis .
    next
      case S
      from from_sql_node_result(3)[OF S(2) e] show ?thesis by simp
    next
      case V
      from from_viz_node_result(3)[OF V(2) e] show ?thesis by simp
    next
      case R
      from from_responder_result(1)[OF R] from_responder_result(3)[OF R e] show ?thesis by simp
    qed
  qed
  consider (raise) e1 where "r1 = Inl e1" "r = Inl e1" "path = [Planner]"
    | (route) state1 e1 where "r1 = Inr state1" "route_after_planner w state1 = Inl e1"
        "r = Inl e1" "path = [Planner]"
    | (go) state1 name r2 p2 s2 where "r1 = Inr state1" "route_after_planner w state1 = Inr name"
        "?next state1 name = (r2, p2, s2)" "r = r2" "path = Planner # p2"
  proof (cases r1)
    case (Inl e1)
    with n run have "r = Inl e1" "path = [Planner]" by (auto simp: abi_graph_invoke_def)
    from raise[OF Inl this] show ?thesis .
  next
    case (Inr state1)
    show ?thesis
    proof (cases "route_after_planner w state1")
      case (Inl e1)
      with n Inr run have "r = Inl e1" "path = [Planner]" by (auto simp: abi_graph_invoke_def)
      from route[OF Inr Inl this] show ?thesis .
    next
      case rr: (Inr name)
      obtain r2 p2 s2 where f: "?next state1 name = (r2, p2, s2)"
        by (cases "?next state1 name") auto
      with n Inr rr run have "r = r2" "path = Planner # p2" by (auto simp: abi_graph_invoke_def)
      from go[OF Inr rr f this] show ?thesis .
    qed
  qed
  note c = this
  show "path \<in> {[Planner], [Planner, Responder],
                  [Planner, Executor], [Planner, Executor, Responder],
                  [Planner, Executor, Viz_node], [Planner, Executor, Viz_node, Responder],
                  [Planner, Sql_node], [Planner, Sql_node, Responder],
                  [Planner, Viz_node], [Planner, Viz_node, Responder]}"
  proof (cases rule: c)
    case (go state1 name r2 p2 s2)
    from next_path[OF go(3)] go(5) show ?thesis by auto
  qed simp_all
  show "(\<exists>st1 s1. fst (node_fun (last path) w st1 s1) = Inl e)
          \<or> path = [Planner] \<and> (\<exists>st1. route_after_planner w st1 = Inl e)" if e: "r = Inl e" for e
  proof (cases rule: c)
    case (raise e1)
    from n raise(1) have "fst (planner_node w st s) = Inl e1"
      by (auto simp: run_node_def split: prod.splits sum.splits)
    with raise e show ?thesis by (auto simp: node_fun_def)
  next
    case (route state1 e1)
    with e show ?thesis by auto
  next
    case (go state1 name r2 p2 s2)
    from go(4) e have "r2 = Inl e" by simp
    from next_raise[OF go(3) this] next_path[OF go(3)] go(5) show ?thesis by auto
  qed
  show "last path = Responder \<and>
          st_next_node final = JStr ''end'' \<and> st_messages final \<noteq> []
          \<and> last (st_messages final) = st_final_answer final
          \<and> (\<exists>llm n ctx. build_llm w False = Inr llm
                \<and> llm_invoke w n llm RESPONDER_PROMPT ctx = Inr (st_final_answer final))" if e: "r = Inr final" for final
  proof (cases rule: c)
    case (raise e1)
    with e show ?thesis by simp
  next
    case (route state1 e1)
    with e show ?thesis by simp
  next
    case (go state1 name r2 p2 s2)
    from go(4) e have "r2 = Inr final" by simp
    from next_ret[OF go(3) this] next_path[OF go(3)] go(5) show ?thesis by auto
  qed
qed

lemma merge_raw_dataframe: "st_raw_dataframe (merge st u) = st_raw_dataframe st"
  by (simp add: merge_def)

lemma from_responder_returns:
  assumes b: "build_llm w False = Inr llm"
    and rsp: "\<And>n ctx e. llm_invoke w n llm RESPONDER_PROMPT ctx \<noteq> Inl e"
  shows "\<exists>final s'. from_responder w st s = (Inr final, [Responder], s')"
proof -
  from responder_node_returns[OF b rsp, of s st] obtain u s1
    where "responder_node w st s = (Inr u, s1)" by blast
  then show ?thesis by (simp add: from_responder_def run_node_def)
qed

lemma viz_executor_node_no_data:
  assumes "st_analysis_result st = None" "st_raw_dataframe st = None"
  shows "viz_executor_node w st s =
           (Inr (no_update
              \<lparr>up_error := Some (Some ''No data available for visualization.''),
               up_next_node := Some (JStr ''responder'')\<rparr>), s)"
  using assms by (simp add: viz_executor_node_def Let_def)

lemma sql_executor_node_no_data:
  assumes "st_raw_dataframe st = None"
  shows "sql_executor_node w st s =
           (Inr (no_update
              \<lparr>up_error := Some (Some ''No dataset loaded.''),
               up_next_node := Some (JStr ''responder'')\<rparr>), s)"
  using assms by (simp add: sql_executor_node_def)

lemma from_viz_node_returns:
  assumes b: "build_llm w False = Inr llm" "build_llm w True = Inr llm'"
    and i: "\<And>n c sys u e. llm_invoke w n c sys u = Inl e \<Longrightarrow> is_Exception e"
    and x: "\<And>n code ns e. exec_code w n code ns = Inl e \<Longrightarrow> is_Exception e"
    and rsp: "\<And>n ctx e. llm_invoke w n llm RESPONDER_PROMPT ctx \<noteq> Inl e"
    and d: "\<And>lf. st_analysis_result st = None \<Longrightarrow> st_raw_dataframe st = Some lf \<Longrightarrow>
              \<exists>df. lf_collect lf = Inr df"
  shows "\<exists>final s'. from_viz_node w st s = (Inr final, [Viz_node, Responder], s')"
proof -
  have "\<exists>u s1. viz_executor_node w st s = (Inr u, s1)"
  proof (cases "st_analysis_result st")
    case (Some df)
    have "\<exists>res s1 u. viz_generate w VizGenerator (viz_question w st) df s = (Inr res, s1)
           \<and> viz_executor_node w st s = (Inr u, s1)
           \<and> up_next_node u = Some (JStr ''responder'')
           \<and> (\<not> chart_success res \<longrightarrow>
                u = no_update \<lparr>up_error := Some (chart_error res),
                               up_next_node := Some (JStr ''responder'')\<rparr>)
           \<and> (chart_success res \<longrightarrow> up_error u = Some None \<and> up_figure u = Some (figure res))"
      by (rule viz_executor_node_returns[OF b]) (erule i, erule x, simp add: Some)
    then show ?thesis by blast
  next
    case None
    show ?thesis
    proof (cases "st_raw_dataframe st")
      case n: None
      from viz_executor_node_no_data[OF None n] show ?thesis by blast
    next
      case (Some lf)
      from d[OF None Some] obtain df where df: "lf_collect lf = Inr df" by blast
      have "\<exists>res s1 u. viz_generate w VizGenerator (viz_question w st) df s = (Inr res, s1)
           \<and> viz_executor_node w st s = (Inr u, s1)
           \<and> up_next_node u = Some (JStr ''responder'')
           \<and> (\<not> chart_success res \<longrightarrow>
                u = no_update \<lparr>up_error := Some (chart_error res),
                               up_next_node := Some (JStr ''responder'')\<rparr>)
           \<and> (chart_success res \<longrightarrow> up_error u = Some None \<and> up_figure u = Some (figure res))"
        by (rule viz_executor_node_returns[OF b, where lf = lf])
           (erule i, erule x, simp add: None Some df)
      then show ?thesis by blast
    qed
  qed
  then obtain u s1 where u: "viz_executor_node w st s = (Inr u, s1)" by blast
  from from_responder_returns[OF b(1) rsp, of "merge st u" s1] obtain final s'
    where "from_responder w (merge st u) s1 = (Inr final, [Responder], s')" by blast
  with u show ?thesis by (simp add: from_viz_node_def run_node_def)
qed

lemma from_sql_node_returns:
  assumes b: "build_llm w False = Inr llm"
    and i: "\<And>n c sys u e. llm_invoke w n c sys u = Inl e \<Longrightarrow> is_Exception e"
    and dc: "\<And>n e. duckdb_connect w n = Some e \<Longrightarrow> is_Exception e"
    and de: "\<And>n df q e. duckdb_execute w n df q = Inl e \<Longrightarrow> is_Exception e"
    and rsp: "\<And>n ctx e. llm_invoke w n llm RESPONDER_PROMPT ctx \<noteq> Inl e"
    and d: "\<And>lf. st_raw_dataframe st = Some lf \<Longrightarrow>
              (\<exists>schema. lf_schema lf = Inr schema) \<and> (\<forall>e. lf_collect lf = Inl e \<longrightarrow> is_Exception e)"
  shows "\<exists>final s'. from_sql_node w st s = (Inr final, [Sql_node, Responder], s')"
proof -
  have "\<exists>u s1. sql_executor_node w st s = (Inr u, s1)"
  proof (cases "st_raw_dataframe st")
    case None
    from sql_executor_node_no_data[OF None] show ?thesis by blast
  next
    case (Some lf)
    from d[OF Some] obtain schema where sc: "lf_schema lf = Inr schema"
      and c: "\<And>e. lf_collect lf = Inl e \<Longrightarrow> is_Exception e" by blast
    have "\<exists>res s1 u. sql_generate w (st_user_question st) lf s = (Inr res, s1)
           \<and> sql_executor_node w st s = (Inr u, s1)
           \<and> up_next_node u = Some (JStr ''responder'')
           \<and> (\<not> sql_success res \<longrightarrow>
                u = no_update \<lparr>up_sql_query := Some (sql_query res),
                               up_error := Some (sql_error res),
                               up_next_node := Some (JStr ''responder'')\<rparr>)
           \<and> (sql_success res \<longrightarrow>
                up_error u = Some None \<and> up_sql_query u = Some (sql_query res)
                \<and> up_sql_result u = Some (sql_result_df res))"
      by (rule sql_executor_node_returns[OF b _ _ _ Some sc]) (erule i, erule dc, erule de, erule c)
    then show ?thesis by blast
  qed
  then obtain u s1 where u: "sql_executor_node w st s = (Inr u, s1)" by blast
  from from_responder_returns[OF b rsp, of "merge st u" s1] obtain final s'
    where "from_responder w (merge st u) s1 = (Inr final, [Responder], s')" by blast
  with u show ?thesis by (simp add: from_sql_node_def run_node_def)
qed

lemma from_executor_returns:
  assumes b: "build_llm w False = Inr llm" "build_llm w True = Inr llm'"
    and i: "\<And>n c sys u e. llm_invoke w n c sys u = Inl e \<Longrightarrow> is_Exception e"
    and x: "\<And>n code ns e. exec_code w n code ns = Inl e \<Longrightarrow> is_Exception e"
    and rsp: "\<And>n ctx e. llm_invoke w n llm RESPONDER_PROMPT ctx \<noteq> Inl e"
    and d: "\<And>lf. st_raw_dataframe st = Some lf \<Longrightarrow>
              (\<exists>schema. lf_schema lf = Inr schema) \<and> (\<exists>df. lf_collect lf = Inr df)"
  shows "\<exists>final path s'. from_executor w st s = (Inr final, path, s')"
proof -
  have "\<exists>u s1. analysis_executor_node w st s = (Inr u, s1)"
  proof (cases "st_raw_dataframe st")
    case None
    from analysis_executor_node_no_data[OF None] show ?thesis by blast
  next
    case (Some lf)
    from d[OF Some] obtain schema where sc: "lf_schema lf = Inr schema" by blast
    have "\<exists>res s1 u. analyze w PolarsAnalyst (st_user_question st) lf s = (Inr res, s1)
           \<and> analysis_executor_node w st s = (Inr u, s1)
           \<and> (\<not> success res \<longrightarrow>
                u = no_update \<lparr>up_error := Some (error res),
                               up_generated_code := Some (generated_code res),
                               up_next_node := Some (JStr ''responder'')\<rparr>)
           \<and> (success res \<longrightarrow>
                up_error u = Some None \<and> up_analysis_result u = Some (result_df res)
                \<and> up_next_node u =
                    Some (JStr (if truthy (dict_get (st_plan st) ''requires_viz'' JNull)
                                then ''viz_node'' else ''responder'')))"
      by (rule analysis_executor_node_returns[OF b _ _ Some sc]) (erule i, erule x)
    then show ?thesis by blast
  qed
  then obtain u s1 where u: "analysis_executor_node w st s = (Inr u, s1)" by blast
  have "\<exists>final path s'.
      (if node_of_name (route_after_executor (merge st u)) = Viz_node
       then from_viz_node w (merge st u) s1 else from_responder w (merge st u) s1)
      = (Inr final, path, s')"
  proof (cases "node_of_name (route_after_executor (merge st u)) = Viz_node")
    case True
    have "\<exists>final s'. from_viz_node w (merge st u) s1 = (Inr final, [Viz_node, Responder], s')"
    proof (rule from_viz_node_returns[OF b _ _ rsp])
      fix lf assume "st_raw_dataframe (merge st u) = Some lf"
      then have "st_raw_dataframe st = Some lf" by (simp add: merge_raw_dataframe)
      from d[OF this] show "\<exists>df. lf_collect lf = Inr df" by blast
    qed (erule i, erule x)
    with True show ?thesis by auto
  next
    case False
    from from_responder_returns[OF b(1) rsp, of "merge st u" s1] False show ?thesis by auto
  qed
  then obtain final path s' where
    "(if node_of_name (route_after_executor (merge st u)) = Viz_node
       then from_viz_node w (merge st u) s1 else from_responder w (merge st u) s1)
      = (Inr final, path, s')" by blast
  with u show ?thesis by (simp add: from_executor_def run_node_def)
qed

lemma abi_graph_invoke_returns:
  assumes b: "build_llm w False = Inr llm" "build_llm w True = Inr llm'"
    and i: "\<And>n c sys u e. llm_invoke w n c sys u = Inl e \<Longrightarrow> is_Exception e"
    and x: "\<And>n code ns e. exec_code w n code ns = Inl e \<Longrightarrow> is_Exception e"
    and dc: "\<And>n e. duckdb_connect w n = Some e \<Longrightarrow> is_Exception e"
    and de: "\<And>n df q e. duckdb_execute w n df q = Inl e \<Longrightarrow> is_Exception e"
    and rsp: "\<And>n ctx e. llm_invoke w n llm RESPONDER_PROMPT ctx \<noteq> Inl e"
    and d: "\<And>lf. st_raw_dataframe st = Some lf \<Longrightarrow>
              (\<exists>schema. lf_schema lf = Inr schema) \<and> (\<exists>df. lf_collect lf = Inr df)"
    and si: "planner_schema_info (st_raw_dataframe st) = Inr si"
    and p: "llm_invoke w (length (llm_calls s)) llm PLANNER_PROMPT
              (''User Question: '' @ st_user_question st @ si) = Inr response"
    and j: "planner_parse w (st_user_question st) (planner_raw_json response) = Inr (JDict plan)"
    and h: "\<And>xs. dict_get plan ''routing'' (JStr ''executor'') \<noteq> JList xs"
           "\<And>kvs. dict_get plan ''routing'' (JStr ''executor'') \<noteq> JDict kvs"
  shows "\<exists>final path s'. abi_graph_invoke w st s = (Inr final, path, s')"
proof -
  let ?routing = "dict_get plan ''routing'' (JStr ''executor'')"
  let ?u = "no_update
              \<lparr>up_plan := Some plan,
               up_next_node := Some (if ?routing = JStr ''multi'' then JStr ''executor'' else ?routing),
               up_messages := [''Plan created: '' @ json_dumps w (JDict plan)]\<rparr>"
  from planner_node_response[OF b(1) si p] j
  have "fst (planner_node w st s) = Inr ?u" by simp
  then obtain u s1 where n: "planner_node w st s = (Inr u, s1)" and u: "u = ?u"
    by (cases "planner_node w st s") simp
  have nn: "st_next_node (merge st u) = (if ?routing = JStr ''multi'' then JStr ''executor'' else ?routing)"
    by (simp add: u merge_def no_update_def)
  from h have "\<exists>name. route_after_planner w (merge st u) = Inr name"
    unfolding route_after_planner_def nn by (cases ?routing) auto
  then obtain name where r: "route_after_planner w (merge st u) = Inr name" by blast
  have d1: "\<And>lf. st_raw_dataframe (merge st u) = Some lf \<Longrightarrow>
              (\<exists>schema. lf_schema lf = Inr schema) \<and> (\<exists>df. lf_collect lf = Inr df)"
    using d by (simp add: merge_raw_dataframe)
  have "\<exists>final path s'.
      (case node_of_name name of
         Executor \<Rightarrow> from_executor w (merge st u) s1
       | Sql_node \<Rightarrow> from_sql_node w (merge st u) s1
       | Viz_node \<Rightarrow> from_viz_node w (merge st u) s1
       | _ \<Rightarrow> from_responder w (merge st u) s1) = (Inr final, path, s')"
  proof (cases "node_of_name name")
    case Executor
    have "\<exists>final path s'. from_executor w (merge st u) s1 = (Inr final, path, s')"
      by (rule from_executor_returns[OF b _ _ rsp]) (erule i, erule x, erule d1)
    with Executor show ?thesis by simp
  next
    case Sql_node
    have "\<exists>final s'. from_sql_node w (merge st u) s1 = (Inr final, [Sql_node, Responder], s')"
    proof (rule from_sql_node_returns[OF b(1) _ _ _ rsp])
      fix lf assume "st_raw_dataframe (merge st u) = Some lf"
      from d1[OF this]
      show "(\<exists>schema. lf_schema lf = Inr schema) \<and> (\<forall>e. lf_collect lf = Inl e \<longrightarrow> is_Exception e)"
        by auto
    qed (erule i, erule dc, erule de)
    with Sql_node show ?thesis by auto
  next
    case Viz_node
    have "\<exists>final s'. from_viz_node w (merge st u) s1 = (Inr final, [Viz_node, Responder], s')"
    proof (rule from_viz_node_returns[OF b _ _ rsp])
      fix lf assume "st_raw_dataframe (merge st u) = Some lf"
      from d1[OF this] show "\<exists>df. lf_collect lf = Inr df" by blast
    qed (erule i, erule x)
    with Viz_node show ?thesis by auto
  next
    case Responder
    from from_responder_returns[OF b(1) rsp, of "merge st u" s1] Responder show ?thesis by auto
  next
    case Planner
    from from_responder_returns[OF b(1) rsp, of "merge st u" s1] Planner show ?thesis by auto
  qed
  then obtain final path s' where
    "(case node_of_name name of
         Executor \<Rightarrow> from_executor w (merge st u) s1
       | Sql_node \<Rightarrow> from_sql_node w (merge st u) s1
       | Viz_node \<Rightarrow> from_viz_node w (merge st u) s1
       | _ \<Rightarrow> from_responder w (merge st u) s1) = (Inr final, path, s')" by blast
  with n r show ?thesis by (simp add: abi_graph_invoke_def run_node_def)
qed

lemma build_llm_pipeline_worlds:
  "build_llm (pipeline_world reply) b =
     Inr \<lparr>client_class = ChatGroq, client_model = (if b then ''llama-3.1-8b'' else ''llama-3.3-70b''),
          client_temperature = 0, client_max_tokens = 4096\<rparr>"
  "build_llm (failing_tools_world reply) b =
     Inr \<lparr>client_class = ChatGroq, client_model = (if b then ''llama-3.1-8b'' else ''llama-3.3-70b''),
          client_temperature = 0, client_max_tokens = 4096\<rparr>"
  by (simp_all add: build_llm_def failing_tools_world_def pipeline_world_def sample_world_def
      sample_settings_def)

lemma llm_invoke_pipeline_worlds:
  "llm_invoke (pipeline_world reply) n llm sys u =
     (if sys = PLANNER_PROMPT then Inr reply
      else if sys = RESPONDER_PROMPT then Inr ''Revenue is led by Acme.''
      else if n < 2 then Inl sample_error else Inr sample_reply)"
  "llm_invoke (failing_tools_world reply) n llm sys u =
     (if sys = PLANNER_PROMPT then Inr reply
      else if sys = RESPONDER_PROMPT then Inr ''The analysis could not be completed.''
      else Inl sample_error)"
  by (simp_all add: failing_tools_world_def pipeline_world_def)

lemma exec_code_pipeline_worlds:
  "exec_code (pipeline_world reply) n code ns =
     Inr ((''result'', DataFrame sample_df) # (''fig'', Object ''Figure'') # ns)"
  "exec_code (failing_tools_world reply) n code ns =
     Inr ((''result'', DataFrame sample_df) # (''fig'', Object ''Figure'') # ns)"
  by (simp_all add: failing_tools_world_def pipeline_world_def sample_world_def)

lemma duckdb_pipeline_worlds:
  "duckdb_connect (pipeline_world reply) n = None"
  "duckdb_execute (pipeline_world reply) n df query = Inr df"
  "duckdb_connect (failing_tools_world reply) n = None"
  "duckdb_execute (failing_tools_world reply) n df query = Inr df"
  by (simp_all add: failing_tools_world_def pipeline_world_def sample_world_def)

lemma json_pipeline_worlds:
  "json_loads (failing_tools_world reply) text = json_loads (pipeline_world reply) text"
  "json_dumps (pipeline_world reply) v = ''{}''"
  "json_dumps (failing_tools_world reply) v = ''{}''"
  "str_json (pipeline_world reply) v = ''None''"
  "str_json (failing_tools_world reply) v = ''None''"
  by (simp_all add: failing_tools_world_def pipeline_world_def sample_world_def)

lemma planner_raw_json_plan:
  \<open>planner_raw_json ''<plan>{"routing": "multi", "requires_viz": true}</plan>''
     = ''{"routing": "multi", "requires_viz": true}''\<close>
  by (simp add: planner_raw_json_def re_search_tag_def strip_def is_space_def)

lemmas graph_sample =
  abi_graph_invoke_def planner_node_def planner_parse_def planner_schema_info_def
  route_after_planner_def run_sample from_executor_def from_viz_node_def from_responder_def
  from_sql_node_def run_node_def analysis_executor_node_def viz_executor_node_def responder_node_def
  sql_executor_node_def analyze_def viz_generate_def merge_def no_update_def route_after_executor_def
  node_of_name_def initial_state_def dict_get_def build_llm_pipeline_worlds
  llm_invoke_pipeline_worlds exec_code_pipeline_worlds json_pipeline_worlds json_loads_pipeline
  planner_raw_json_plan

section \<open>The claims\<close>

text \<open>
  Claim C1, as stated, fails for a run in which an attempt fails without reaching the
  \<open>except Exception\<close> handler.  When the generated code is \<open>raise SystemExit\<close>, the first
  attempt of either loop fails with an exception that the handler does not catch: the run
  makes one attempt, not \<open>R + 1 = 4\<close>, and the exception leaves the loop.  When \<open>build_llm\<close>
  does not know the provider, it raises before the \<open>try\<close> statement of the first attempt,
  and again the run makes one attempt.
\<close>

theorem failing_attempt_ends_run:
  "pa_max_retries PolarsAnalyst + 1 = 4 \<and> vg_max_retries VizGenerator + 1 = 4
   \<and> fst (analyze_run exit_world PolarsAnalyst ''Top 5?'' sample_lf ext0) = Inl system_exit
   \<and> map it_attempt (fst (snd (analyze_run exit_world PolarsAnalyst ''Top 5?'' sample_lf ext0))) = [1]
   \<and> map it_outcome (fst (snd (analyze_run exit_world PolarsAnalyst ''Top 5?'' sample_lf ext0)))
       = [Uncaught system_exit]
   \<and> fst (viz_run exit_world VizGenerator ''Top 5?'' sample_df ext0) = Inl system_exit
   \<and> map it_attempt (fst (snd (viz_run exit_world VizGenerator ''Top 5?'' sample_df ext0))) = [1]
   \<and> map it_outcome (fst (snd (viz_run exit_world VizGenerator ''Top 5?'' sample_df ext0)))
       = [Uncaught system_exit]
   \<and> analyze_run unsupported_provider_world PolarsAnalyst ''Top 5?'' sample_lf ext0
       = (Inl (own_exception unsupported_provider_world ''ValueError''
                 (''Unsupported provider: '' @ [CHR 0x27] @ ''openai'' @ [CHR 0x27]
                  @ ''. Valid options: google | groq'')),
          [\<lparr>it_attempt = 1, it_use_fallback = False, it_history = [], it_call = None,
            it_outcome = No_client (own_exception unsupported_provider_world ''ValueError''
                 (''Unsupported provider: '' @ [CHR 0x27] @ ''openai'' @ [CHR 0x27]
                  @ ''. Valid options: google | groq''))\<rparr>],
          ext0)"
  by (simp add: exit_sample)

text \<open>
  Claim C1, amended.  A run of either retry loop makes at most \<open>R + 1\<close> attempts, numbered
  from 1, and one model call for each attempt whose \<open>build_llm\<close> call returned; attempt \<open>a\<close>
  asks \<open>build_llm\<close> for the fallback model exactly when \<open>a > R\<close>.  An attempt ends in one of
  four ways: \<open>build_llm\<close> raised (before the \<open>try\<close> statement, so without a model call);
  the \<open>try\<close> block raised an exception that is not an \<open>Exception\<close>; the \<open>try\<close> block raised
  an \<open>Exception\<close>, which the handler caught; or the \<open>try\<close> block returned.  In the first two
  cases the exception leaves the loop, and in every run all attempts but the last ended in
  the handler.  In a run in which every attempt fails in the \<open>try\<close> block with an
  \<open>Exception\<close>, so that the handler catches it, the attempts are exactly \<open>1, \<dots>, R + 1\<close> and
  there are exactly \<open>R + 1\<close> model calls: calls 1 to \<open>R\<close> go to the client
  \<open>build_llm(use_fallback=False)\<close> returns and call \<open>R + 1\<close> to the client
  \<open>build_llm(use_fallback=True)\<close> returns.  \<open>R\<close> is the retry count of the object, not
  negative; the constructors set it to 3.
\<close>

theorem retry_loop_attempts:
  "(0 \<le> pa_max_retries pa \<and> analyze_run w pa question lf s = (r, its, s') \<longrightarrow>
      int (length its) \<le> pa_max_retries pa + 1
      \<and> new_calls s s' = List.map_filter it_call its
      \<and> length (new_calls s s') \<le> length its
      \<and> map it_attempt its = [1 .. int (length its)]
      \<and> list_all (\<lambda>it. it_use_fallback it = (pa_max_retries pa < it_attempt it)) its
      \<and> list_all caught (butlast its)
      \<and> list_all (\<lambda>it. case it_outcome it of
            No_client e \<Rightarrow> build_llm w (it_use_fallback it) = Inl e \<and> it_call it = None \<and> r = Inl e
          | Uncaught e \<Rightarrow> \<not> is_Exception e \<and> r = Inl e
              \<and> (\<exists>c lc0 s0. it_call it = Some c
                    \<and> fst (analyze_try w lf (call_client c) (call_user c) lc0 s0) = Inl e)
          | Caught e \<Rightarrow> is_Exception e
              \<and> (\<exists>c lc0 s0. it_call it = Some c
                    \<and> fst (analyze_try w lf (call_client c) (call_user c) lc0 s0) = Inl e)
          | Succeeded \<Rightarrow>
              (\<exists>c lc0 s0 p. it_call it = Some c
                    \<and> fst (analyze_try w lf (call_client c) (call_user c) lc0 s0) = Inr p)) its
      \<and> (lf_schema lf = Inr schema \<and> list_all caught its \<longrightarrow>
            map it_attempt its = [1 .. pa_max_retries pa + 1]
            \<and> list_all2 (\<lambda>a c. built_with w (pa_max_retries pa < a) c)
                 [1 .. pa_max_retries pa + 1] (new_calls s s')))
   \<and> (0 \<le> vg_max_retries vg \<and> viz_run w vg chart_request df t = (r', its', t') \<longrightarrow>
      int (length its') \<le> vg_max_retries vg + 1
      \<and> new_calls t t' = List.map_filter it_call its'
      \<and> length (new_calls t t') \<le> length its'
      \<and> map it_attempt its' = [1 .. int (length its')]
      \<and> list_all (\<lambda>it. it_use_fallback it = (vg_max_retries vg < it_attempt it)) its'
      \<and> list_all caught (butlast its')
      \<and> list_all (\<lambda>it. case it_outcome it of
            No_client e \<Rightarrow> build_llm w (it_use_fallback it) = Inl e \<and> it_call it = None \<and> r' = Inl e
          | Uncaught e \<Rightarrow> \<not> is_Exception e \<and> r' = Inl e
              \<and> (\<exists>c lc0 s0. it_call it = Some c
                    \<and> fst (viz_try w df (call_client c) (call_user c) lc0 s0) = Inl e)
          | Caught e \<Rightarrow> is_Exception e
              \<and> (\<exists>c lc0 s0. it_call it = Some c
                    \<and> fst (viz_try w df (call_client c) (call_user c) lc0 s0) = Inl e)
          | Succeeded \<Rightarrow>
              (\<exists>c lc0 s0 p. it_call it = Some c
                    \<and> fst (viz_try w df (call_client c) (call_user c) lc0 s0) = Inr p)) its'
      \<and> (list_all caught its' \<longrightarrow>
            map it_attempt its' = [1 .. vg_max_retries vg + 1]
            \<and> list_all2 (\<lambda>a c. built_with w (vg_max_retries vg < a) c)
                 [1 .. vg_max_retries vg + 1] (new_calls t t')))"
proof (intro conjI impI; (elim conjE)?)
  assume R: "0 \<le> pa_max_retries pa" and run: "analyze_run w pa question lf s = (r, its, s')"
  note b = analyze_run_bound[OF R run]
  note c = analyze_run_rounds[OF run]
  show "int (length its) \<le> pa_max_retries pa + 1" by (rule b(1))
  show "new_calls s s' = List.map_filter it_call its" by (rule c(1))
  show "length (new_calls s s') \<le> length its" by (rule b(4))
  show "map it_attempt its = [1 .. int (length its)]" by (rule b(2))
  show "list_all (\<lambda>it. it_use_fallback it = (pa_max_retries pa < it_attempt it)) its" by (rule b(3))
  show "list_all caught (butlast its)" by (rule c(2))
  show "list_all (\<lambda>it. case it_outcome it of
            No_client e \<Rightarrow> build_llm w (it_use_fallback it) = Inl e \<and> it_call it = None \<and> r = Inl e
          | Uncaught e \<Rightarrow> \<not> is_Exception e \<and> r = Inl e
              \<and> (\<exists>c lc0 s0. it_call it = Some c
                    \<and> fst (analyze_try w lf (call_client c) (call_user c) lc0 s0) = Inl e)
          | Caught e \<Rightarrow> is_Exception e
              \<and> (\<exists>c lc0 s0. it_call it = Some c
                    \<and> fst (analyze_try w lf (call_client c) (call_user c) lc0 s0) = Inl e)
          | Succeeded \<Rightarrow>
              (\<exists>c lc0 s0 p. it_call it = Some c
                    \<and> fst (analyze_try w lf (call_client c) (call_user c) lc0 s0) = Inr p)) its" by (rule c(3))
  assume "lf_schema lf = Inr schema" "list_all caught its"
  note ac = analyze_run_all_caught[OF R run this]
  show "map it_attempt its = [1 .. pa_max_retries pa + 1]" using ac by simp
  show "list_all2 (\<lambda>a c. built_with w (pa_max_retries pa < a) c)
          [1 .. pa_max_retries pa + 1] (new_calls s s')" using ac by simp
next
  assume R: "0 \<le> vg_max_retries vg" and run: "viz_run w vg chart_request df t = (r', its', t')"
  note b = viz_run_bound[OF R run]
  note c = viz_run_rounds[OF run]
  show "int (length its') \<le> vg_max_retries vg + 1" by (rule b(1))
  show "new_calls t t' = List.map_filter it_call its'" by (rule c(1))
  show "length (new_calls t t') \<le> length its'" by (rule b(4))
  show "map it_attempt its' = [1 .. int (length its')]" by (rule b(2))
  show "list_all (\<lambda>it. it_use_fallback it = (vg_max_retries vg < it_attempt it)) its'" by (rule b(3))
  show "list_all caught (butlast its')" by (rule c(2))
  show "list_all (\<lambda>it. case it_outcome it of
            No_client e \<Rightarrow> build_llm w (it_use_fallback it) = Inl e \<and> it_call it = None \<and> r' = Inl e
          | Uncaught e \<Rightarrow> \<not> is_Exception e \<and> r' = Inl e
              \<and> (\<exists>c lc0 s0. it_call it = Some c
                    \<and> fst (viz_try w df (call_client c) (call_user c) lc0 s0) = Inl e)
          | Caught e \<Rightarrow> is_Exception e
              \<and> (\<exists>c lc0 s0. it_call it = Some c
                    \<and> fst (viz_try w df (call_client c) (call_user c) lc0 s0) = Inl e)
          | Succeeded \<Rightarrow>
              (\<exists>c lc0 s0 p. it_call it = Some c
                    \<and> fst (viz_try w df (call_client c) (call_user c) lc0 s0) = Inr p)) its'" by (rule c(3))
  assume "list_all caught its'"
  note ac = viz_run_all_caught[OF R run this]
  show "map it_attempt its' = [1 .. vg_max_retries vg + 1]" using ac by simp
  show "list_all2 (\<lambda>a c. built_with w (vg_max_retries vg < a) c)
          [1 .. vg_max_retries vg + 1] (new_calls t t')" using ac by simp
qed

text \<open>
  Instances at the two objects as their constructors build them: a model whose first four
  calls raise an \<open>Exception\<close>, and a model whose code raises \<open>SystemExit\<close>.
\<close>

theorem retry_loop_attempts_witness:
  "0 \<le> pa_max_retries PolarsAnalyst \<and> 0 \<le> vg_max_retries VizGenerator
   \<and> lf_schema sample_lf = Inr [(''supplier_name'', ''String''), (''total_revenue'', ''Float64'')]
   \<and> list_all caught (fst (snd (analyze_run (sample_world 4) PolarsAnalyst ''Top 5?'' sample_lf ext0)))
   \<and> list_all caught (fst (snd (viz_run (sample_world 4) VizGenerator ''Top 5?'' sample_df ext0)))
   \<and> map it_attempt (fst (snd (analyze_run (sample_world 4) PolarsAnalyst ''Top 5?'' sample_lf ext0)))
       = [1, 2, 3, 4]
   \<and> map it_attempt (fst (snd (viz_run (sample_world 4) VizGenerator ''Top 5?'' sample_df ext0)))
       = [1, 2, 3, 4]
   \<and> list_all2 (\<lambda>a c. built_with (sample_world 4) ((3::int) < a) c) [1, 2, 3, 4]
        (new_calls ext0 (snd (snd (analyze_run (sample_world 4) PolarsAnalyst ''Top 5?'' sample_lf ext0))))
   \<and> list_all2 (\<lambda>a c. built_with (sample_world 4) ((3::int) < a) c) [1, 2, 3, 4]
        (new_calls ext0 (snd (snd (viz_run (sample_world 4) VizGenerator ''Top 5?'' sample_df ext0))))
   \<and> map it_outcome (fst (snd (analyze_run exit_world PolarsAnalyst ''Top 5?'' sample_lf ext0)))
       = [Uncaught system_exit]
   \<and> fst (analyze_run exit_world PolarsAnalyst ''Top 5?'' sample_lf ext0) = Inl system_exit
   \<and> \<not> is_Exception system_exit
   \<and> map it_outcome (fst (snd (viz_run exit_world VizGenerator ''Top 5?'' sample_df ext0)))
       = [Uncaught system_exit]
   \<and> fst (viz_run exit_world VizGenerator ''Top 5?'' sample_df ext0) = Inl system_exit"
proof -
  let ?A = "analyze_run (sample_world 4) PolarsAnalyst ''Top 5?'' sample_lf ext0"
  let ?V = "viz_run (sample_world 4) VizGenerator ''Top 5?'' sample_df ext0"
  let ?E = "analyze_run exit_world PolarsAnalyst ''Top 5?'' sample_lf ext0"
  let ?F = "viz_run exit_world VizGenerator ''Top 5?'' sample_df ext0"
  have R: "0 \<le> pa_max_retries PolarsAnalyst" "0 \<le> vg_max_retries VizGenerator"
    "pa_max_retries PolarsAnalyst = 3" "vg_max_retries VizGenerator = 3"
    by (simp_all add: PolarsAnalyst_def VizGenerator_def)
  have schema: "lf_schema sample_lf = Inr [(''supplier_name'', ''String''), (''total_revenue'', ''Float64'')]"
    by (simp add: sample_lf_def)
  have a: "list_all caught (fst (snd ?A))" by (simp add: run_sample)
  have v: "list_all caught (fst (snd ?V))" by (simp add: run_sample)
  have four: "[1 .. (3::int) + 1] = [1, 2, 3, 4]" by (simp add: upto_rec1)
  have runs: "?A = (fst ?A, fst (snd ?A), snd (snd ?A))" "?V = (fst ?V, fst (snd ?V), snd (snd ?V))"
    "?E = (fst ?E, fst (snd ?E), snd (snd ?E))" "?F = (fst ?F, fst (snd ?F), snd (snd ?F))"
    by simp_all
  note t1 = retry_loop_attempts[where pa = PolarsAnalyst and w = "sample_world 4"
      and question = "''Top 5?''" and lf = sample_lf and s = ext0
      and r = "fst ?A" and its = "fst (snd ?A)" and s' = "snd (snd ?A)"
      and schema = "[(''supplier_name'', ''String''), (''total_revenue'', ''Float64'')]"
      and vg = VizGenerator and chart_request = "''Top 5?''" and df = sample_df and t = ext0
      and r' = "fst ?V" and its' = "fst (snd ?V)" and t' = "snd (snd ?V)"]
  from t1[THEN conjunct1] R(1) runs(1) schema a
  have "map it_attempt (fst (snd ?A)) = [1 .. pa_max_retries PolarsAnalyst + 1]
      \<and> list_all2 (\<lambda>a c. built_with (sample_world 4) (pa_max_retries PolarsAnalyst < a) c)
            [1 .. pa_max_retries PolarsAnalyst + 1] (new_calls ext0 (snd (snd ?A)))"
    by blast
  then have ra: "map it_attempt (fst (snd ?A)) = [1, 2, 3, 4]
      \<and> list_all2 (\<lambda>a c. built_with (sample_world 4) ((3::int) < a) c) [1, 2, 3, 4] (new_calls ext0 (snd (snd ?A)))"
    unfolding R(3,4) four .
  from t1[THEN conjunct2] R(2) runs(2) v
  have "map it_attempt (fst (snd ?V)) = [1 .. vg_max_retries VizGenerator + 1]
      \<and> list_all2 (\<lambda>a c. built_with (sample_world 4) (vg_max_retries VizGenerator < a) c)
            [1 .. vg_max_retries VizGenerator + 1] (new_calls ext0 (snd (snd ?V)))"
    by blast
  then have rv: "map it_attempt (fst (snd ?V)) = [1, 2, 3, 4]
      \<and> list_all2 (\<lambda>a c. built_with (sample_world 4) ((3::int) < a) c) [1, 2, 3, 4] (new_calls ext0 (snd (snd ?V)))"
    unfolding R(3,4) four .
  have oe: "map it_outcome (fst (snd ?E)) = [Uncaught system_exit]" by (simp add: exit_sample)
  have ov: "map it_outcome (fst (snd ?F)) = [Uncaught system_exit]" by (simp add: exit_sample)
  note t2 = retry_loop_attempts[where pa = PolarsAnalyst and w = exit_world
      and question = "''Top 5?''" and lf = sample_lf and s = ext0
      and r = "fst ?E" and its = "fst (snd ?E)" and s' = "snd (snd ?E)"
      and vg = VizGenerator and chart_request = "''Top 5?''" and df = sample_df and t = ext0
      and r' = "fst ?F" and its' = "fst (snd ?F)" and t' = "snd (snd ?F)"]
  from oe obtain it where it: "fst (snd ?E) = [it]" "it_outcome it = Uncaught system_exit"
    by (auto simp: map_eq_Cons_conv)
  from t2[THEN conjunct1] R(1) runs(3)
  have "list_all (\<lambda>it. case it_outcome it of
            No_client e \<Rightarrow> build_llm exit_world (it_use_fallback it) = Inl e \<and> it_call it = None
              \<and> fst ?E = Inl e
          | Uncaught e \<Rightarrow> \<not> is_Exception e \<and> fst ?E = Inl e
              \<and> (\<exists>c lc0 s0. it_call it = Some c
                    \<and> fst (analyze_try exit_world sample_lf (call_client c) (call_user c) lc0 s0) = Inl e)
          | Caught e \<Rightarrow> is_Exception e
              \<and> (\<exists>c lc0 s0. it_call it = Some c
                    \<and> fst (analyze_try exit_world sample_lf (call_client c) (call_user c) lc0 s0) = Inl e)
          | Succeeded \<Rightarrow>
              (\<exists>c lc0 s0 p. it_call it = Some c
                    \<and> fst (analyze_try exit_world sample_lf (call_client c) (call_user c) lc0 s0) = Inr p))
          (fst (snd ?E))"
    by blast
  with it have re: "\<not> is_Exception system_exit \<and> fst ?E = Inl system_exit" by simp
  from ov obtain it' where it': "fst (snd ?F) = [it']" "it_outcome it' = Uncaught system_exit"
    by (auto simp: map_eq_Cons_conv)
  from t2[THEN conjunct2] R(2) runs(4)
  have "list_all (\<lambda>it. case it_outcome it of
            No_client e \<Rightarrow> build_llm exit_world (it_use_fallback it) = Inl e \<and> it_call it = None
              \<and> fst ?F = Inl e
          | Uncaught e \<Rightarrow> \<not> is_Exception e \<and> fst ?F = Inl e
              \<and> (\<exists>c lc0 s0. it_call it = Some c
                    \<and> fst (viz_try exit_world sample_df (call_client c) (call_user c) lc0 s0) = Inl e)
          | Caught e \<Rightarrow> is_Exception e
              \<and> (\<exists>c lc0 s0. it_call it = Some c
                    \<and> fst (viz_try exit_world sample_df (call_client c) (call_user c) lc0 s0) = Inl e)
          | Succeeded \<Rightarrow>
              (\<exists>c lc0 s0 p. it_call it = Some c
                    \<and> fst (viz_try exit_world sample_df (call_client c) (call_user c) lc0 s0) = Inr p))
          (fst (snd ?F))"
    by blast
  with it' have rf: "fst ?F = Inl system_exit" by simp
  from R(1,2) schema a v ra rv oe re ov rf show ?thesis by blast
qed



text \<open>
  Claim C4, as stated, fails for the chart loop: \<open>VizGenerator.generate\<close> only asks whether
  \<open>fig\<close> is \<open>None\<close>.  Generated code \<open>fig = df\<close> runs without raising and binds \<open>fig\<close> to the
  table; the first round succeeds and the table is returned as the figure.
\<close>

theorem chart_of_wrong_type_accepted:
  "exec_code wrong_type_world 1 ''fig = df'' (viz_namespace sample_df)
     = Inr ((''fig'', DataFrame sample_df) # viz_namespace sample_df)
   \<and> fst (viz_run wrong_type_world VizGenerator ''Top 5?'' sample_df ext0)
     = Inr (In_loop, \<lparr>chart_success = True, figure = DataFrame sample_df, chart_code = ''fig = df'',
                       chart_error = None, chart_attempts = 1\<rparr>)"
  by (simp add: viz_run_def VizGenerator_def build_llm_wrong_type viz_try_def invoke_def exec_def
      llm_invoke_wrong_type exec_code_wrong_type extract_code_wrong_type ext0_def namespace_get_def
      viz_namespace_def Let_def upto_rec1)

text \<open>
  Claim C4, amended.  In the analysis loop, when the model answered with a code block and
  the code ran without raising but left \<open>result\<close> bound to something that is not a
  \<open>polars.DataFrame\<close>, the \<open>try\<close> block raises a \<open>ValueError\<close> of the repository's own, which
  \<open>except Exception\<close> catches: its message names the type of the value, or says that \<open>result\<close>
  was not defined when the value is \<open>None\<close> (also when the name is unbound).  In the chart loop
  only \<open>None\<close> is rejected, with a \<open>ValueError\<close>; any other value of \<open>fig\<close>, of whatever type, is
  returned with the code.
\<close>

theorem wrong_type_validation:
  "(llm_invoke w (length (llm_calls s)) llm POLARS_SYSTEM_PROMPT u = Inr response
      \<and> extract_tag response ''code'' \<noteq> []
      \<and> exec_code w (Suc (length (llm_calls s))) (extract_tag response ''code'') (analysis_namespace lf) = Inr ns
      \<and> \<not> is_DataFrame (namespace_get ns ''result'') \<longrightarrow>
      fst (analyze_try w lf llm u lc s) =
        Inl (own_exception w ''ValueError''
               (if namespace_get ns ''result'' = PyNone
                then ''Code did not define a `result` variable. Make sure your code ends with: result = lf.[...].collect()''
                else ''`result` must be a polars.DataFrame, got '' @ py_type_name (namespace_get ns ''result'')
                     @ ''. Did you forget .collect() at the end?''))
      \<and> is_Exception (own_exception w ''ValueError'' any))
   \<and> (llm_invoke w (length (llm_calls t)) llm' VIZ_SYSTEM_PROMPT u' = Inr response'
      \<and> extract_tag response' ''code'' \<noteq> []
      \<and> exec_code w (Suc (length (llm_calls t))) (extract_tag response' ''code'') (viz_namespace df) = Inr ns' \<longrightarrow>
      fst (viz_try w df llm' u' lc' t) =
        (if namespace_get ns' ''fig'' = PyNone
         then Inl (own_exception w ''ValueError'' ''Code did not define a `fig` variable.'')
         else Inr (namespace_get ns' ''fig'', extract_tag response' ''code'')))"
proof (rule conjI; rule impI; elim conjE)
  assume a: "llm_invoke w (length (llm_calls s)) llm POLARS_SYSTEM_PROMPT u = Inr response"
    "extract_tag response ''code'' \<noteq> []"
    "exec_code w (Suc (length (llm_calls s))) (extract_tag response ''code'') (analysis_namespace lf) = Inr ns"
    "\<not> is_DataFrame (namespace_get ns ''result'')"
  show "fst (analyze_try w lf llm u lc s) =
        Inl (own_exception w ''ValueError''
               (if namespace_get ns ''result'' = PyNone
                then ''Code did not define a `result` variable. Make sure your code ends with: result = lf.[...].collect()''
                else ''`result` must be a polars.DataFrame, got '' @ py_type_name (namespace_get ns ''result'')
                     @ ''. Did you forget .collect() at the end?''))
      \<and> is_Exception (own_exception w ''ValueError'' any)"
  proof (cases "namespace_get ns ''result'' = PyNone")
    case True
    from analyze_try_no_result[OF a(1,2,3) True] True show ?thesis
      by (simp add: is_Exception_own)
  next
    case False
    from analyze_try_wrong_type[OF a(1,2,3) False a(4)] False show ?thesis
      by (simp add: is_Exception_own)
  qed
next
  assume "llm_invoke w (length (llm_calls t)) llm' VIZ_SYSTEM_PROMPT u' = Inr response'"
    "extract_tag response' ''code'' \<noteq> []"
    "exec_code w (Suc (length (llm_calls t))) (extract_tag response' ''code'') (viz_namespace df) = Inr ns'"
  then show "fst (viz_try w df llm' u' lc' t) =
        (if namespace_get ns' ''fig'' = PyNone
         then Inl (own_exception w ''ValueError'' ''Code did not define a `fig` variable.'')
         else Inr (namespace_get ns' ''fig'', extract_tag response' ''code''))"
    by (rule viz_try_any_fig)
qed

theorem wrong_type_validation_witness:
  "llm_invoke wrong_type_world (length (llm_calls ext0)) sample_client POLARS_SYSTEM_PROMPT ''Top 5?'' = Inr ''<code>result = lf</code>''
   \<and> extract_tag ''<code>result = lf</code>'' ''code'' \<noteq> []
   \<and> exec_code wrong_type_world (Suc (length (llm_calls ext0))) (extract_tag ''<code>result = lf</code>'' ''code'')
        (analysis_namespace sample_lf) = Inr ((''result'', LazyFrame sample_lf) # analysis_namespace sample_lf)
   \<and> \<not> is_DataFrame (namespace_get ((''result'', LazyFrame sample_lf) # analysis_namespace sample_lf) ''result'')
   \<and> fst (analyze_try wrong_type_world sample_lf sample_client ''Top 5?'' [] ext0) =
        Inl (own_exception wrong_type_world ''ValueError''
               ''`result` must be a polars.DataFrame, got LazyFrame. Did you forget .collect() at the end?'')
   \<and> llm_invoke wrong_type_world (length (llm_calls ext0)) sample_client VIZ_SYSTEM_PROMPT ''Top 5?'' = Inr ''<code>fig = df</code>''
   \<and> exec_code wrong_type_world (Suc (length (llm_calls ext0))) (extract_tag ''<code>fig = df</code>'' ''code'')
        (viz_namespace sample_df) = Inr ((''fig'', DataFrame sample_df) # viz_namespace sample_df)
   \<and> fst (viz_try wrong_type_world sample_df sample_client ''Top 5?'' [] ext0) = Inr (DataFrame sample_df, ''fig = df'')"
proof -
  let ?ns = "(''result'', LazyFrame sample_lf) # analysis_namespace sample_lf"
  let ?ns' = "(''fig'', DataFrame sample_df) # viz_namespace sample_df"
  have h1: "llm_invoke wrong_type_world (length (llm_calls ext0)) sample_client POLARS_SYSTEM_PROMPT ''Top 5?''
      = Inr ''<code>result = lf</code>''"
    by (simp add: llm_invoke_wrong_type)
  have h2: "extract_tag ''<code>result = lf</code>'' ''code'' \<noteq> []"
    by (simp add: extract_code_wrong_type)
  have h3: "exec_code wrong_type_world (Suc (length (llm_calls ext0))) (extract_tag ''<code>result = lf</code>'' ''code'')
        (analysis_namespace sample_lf) = Inr ?ns"
    by (simp add: exec_code_wrong_type extract_code_wrong_type analysis_namespace_def namespace_get_def)
  have h4: "\<not> is_DataFrame (namespace_get ?ns ''result'')"
    by (simp add: namespace_get_def)
  have g1: "llm_invoke wrong_type_world (length (llm_calls ext0)) sample_client VIZ_SYSTEM_PROMPT ''Top 5?''
      = Inr ''<code>fig = df</code>''"
    by (simp add: llm_invoke_wrong_type)
  have g2: "extract_tag ''<code>fig = df</code>'' ''code'' \<noteq> []"
    by (simp add: extract_code_wrong_type)
  have g3: "exec_code wrong_type_world (Suc (length (llm_calls ext0))) (extract_tag ''<code>fig = df</code>'' ''code'')
        (viz_namespace sample_df) = Inr ?ns'"
    by (simp add: exec_code_wrong_type extract_code_wrong_type viz_namespace_def namespace_get_def)
  from wrong_type_validation[of wrong_type_world ext0 sample_client "''Top 5?''" "''<code>result = lf</code>''"
      sample_lf ?ns "[]" "[]" ext0 sample_client "''Top 5?''" "''<code>fig = df</code>''" sample_df ?ns' "[]"]
    h1 h2 h3 h4 g1 g2 g3
  have "fst (analyze_try wrong_type_world sample_lf sample_client ''Top 5?'' [] ext0) =
        Inl (own_exception wrong_type_world ''ValueError''
               (if namespace_get ?ns ''result'' = PyNone
                then ''Code did not define a `result` variable. Make sure your code ends with: result = lf.[...].collect()''
                else ''`result` must be a polars.DataFrame, got '' @ py_type_name (namespace_get ?ns ''result'')
                     @ ''. Did you forget .collect() at the end?''))"
    and "fst (viz_try wrong_type_world sample_df sample_client ''Top 5?'' [] ext0) =
        (if namespace_get ?ns' ''fig'' = PyNone
         then Inl (own_exception wrong_type_world ''ValueError'' ''Code did not define a `fig` variable.'')
         else Inr (namespace_get ?ns' ''fig'', extract_tag ''<code>fig = df</code>'' ''code''))"
    by blast+
  then have "fst (analyze_try wrong_type_world sample_lf sample_client ''Top 5?'' [] ext0) =
        Inl (own_exception wrong_type_world ''ValueError''
               ''`result` must be a polars.DataFrame, got LazyFrame. Did you forget .collect() at the end?'')"
    and "fst (viz_try wrong_type_world sample_df sample_client ''Top 5?'' [] ext0) = Inr (DataFrame sample_df, ''fig = df'')"
    by (simp_all add: namespace_get_def extract_code_wrong_type)
  with h1 h2 h3 h4 g1 g3 show ?thesis by blast
qed

text \<open>
  Claim C5, as stated, fails when the planner's own work fails: \<open>planner_node\<close> calls the
  model outside any \<open>try\<close> statement.  When that call raises, the node raises, no update is
  returned, the responder never runs and \<open>abi_graph.invoke\<close> raises the exception (which
  \<open>app.py\<close> catches and shows).
\<close>

theorem planner_failure_leaves_the_graph:
  "llm_invoke (sample_world 1) (length (llm_calls ext0)) sample_client PLANNER_PROMPT
       ''User Question: Top 5?\<newline>Dataset columns:\<newline>  - supplier_name: String\<newline>  - total_revenue: Float64''
     = Inl sample_error
   \<and> is_Exception sample_error
   \<and> fst (planner_node (sample_world 1) (initial_state ''Top 5?'' (Some sample_lf)) ext0)
       = Inl sample_error
   \<and> fst (abi_graph_invoke (sample_world 1) (initial_state ''Top 5?'' (Some sample_lf)) ext0)
       = Inl sample_error
   \<and> fst (snd (abi_graph_invoke (sample_world 1) (initial_state ''Top 5?'' (Some sample_lf)) ext0))
       = [Planner]"
  by (simp add: abi_graph_invoke_def run_node_def planner_node_def build_llm_sample
      planner_schema_info_def initial_state_def sample_lf_def invoke_def llm_invoke_sample ext0_def
      is_Exception_sample)

text \<open>
  Claim C5, amended.
  \<^item> Whenever the pipeline returns, the planner ran first and the responder last, at most
    four nodes ran and none twice, and the final answer is what the model answered to the
    responder's call.
  \<^item> Whenever the pipeline raises, the exception was raised by the last node that ran (or
    by the router after the planner, on a routing value that cannot be hashed), and it
    leaves the graph; in particular every exception of \<open>planner_node\<close> does.
  \<^item> Without a dataset, the three executor nodes return an update with an error text and
    \<open>next_node = "responder"\<close>.
  \<^item> When \<open>build_llm\<close> returns for both models and whatever the model, the generated code and
    the SQL engine raise is an \<open>Exception\<close>, the executor nodes return a well-formed update
    also when their tool fails: the analysis node once the schema of the dataset can be read,
    the SQL node if moreover materialising the dataset raises nothing but an \<open>Exception\<close>,
    the chart node once it has a table.  The update of a failed tool carries the tool's
    error text and \<open>next_node = "responder"\<close>.
  \<^item> If moreover the schema can be read and the dataset materialised, the planner's model
    call returns, its plan content is a JSON object or is rejected by \<open>json.loads\<close> with a
    \<open>JSONDecodeError\<close>, the routing value of the plan is neither a list nor an object, and
    the responder's model call does not raise, then the pipeline returns.
\<close>

theorem pipeline_failure_handling:
  "(abi_graph_invoke w st s = (Inr final, path, s') \<longrightarrow>
      hd path = Planner \<and> last path = Responder \<and> length path \<le> 4 \<and> distinct path
      \<and> st_next_node final = JStr ''end'' \<and> st_messages final \<noteq> []
          \<and> last (st_messages final) = st_final_answer final
          \<and> (\<exists>llm n ctx. build_llm w False = Inr llm
                \<and> llm_invoke w n llm RESPONDER_PROMPT ctx = Inr (st_final_answer final)))
   \<and> (abi_graph_invoke w st s = (Inl e, path, s') \<longrightarrow>
      hd path = Planner \<and> length path \<le> 4 \<and> distinct path
      \<and> ((\<exists>st1 s1. fst (node_fun (last path) w st1 s1) = Inl e)
           \<or> path = [Planner] \<and> (\<exists>st1. route_after_planner w st1 = Inl e)))
   \<and> (fst (planner_node w st s) = Inl e \<longrightarrow> fst (abi_graph_invoke w st s) = Inl e)
   \<and> (st_raw_dataframe st0 = None \<longrightarrow>
      analysis_executor_node w st0 s0 =
        (Inr (no_update
           \<lparr>up_error := Some (Some ''No dataset loaded. Please upload a CSV file first.''),
            up_next_node := Some (JStr ''responder'')\<rparr>), s0)
      \<and> sql_executor_node w st0 s0 =
        (Inr (no_update
           \<lparr>up_error := Some (Some ''No dataset loaded.''),
            up_next_node := Some (JStr ''responder'')\<rparr>), s0)
      \<and> (st_analysis_result st0 = None \<longrightarrow>
           viz_executor_node w st0 s0 =
             (Inr (no_update
                \<lparr>up_error := Some (Some ''No data available for visualization.''),
                 up_next_node := Some (JStr ''responder'')\<rparr>), s0)))
   \<and> (build_llm w False = Inr llm \<and> build_llm w True = Inr llm'
      \<and> (\<forall>n c sys u e. llm_invoke w n c sys u = Inl e \<longrightarrow> is_Exception e)
      \<and> (\<forall>n code ns e. exec_code w n code ns = Inl e \<longrightarrow> is_Exception e)
      \<and> (\<forall>n e. duckdb_connect w n = Some e \<longrightarrow> is_Exception e)
      \<and> (\<forall>n df q e. duckdb_execute w n df q = Inl e \<longrightarrow> is_Exception e) \<longrightarrow>
        (st_raw_dataframe st0 = Some lf \<and> lf_schema lf = Inr schema \<longrightarrow>
           (\<exists>res s1 u. analyze w PolarsAnalyst (st_user_question st0) lf s0 = (Inr res, s1)
              \<and> analysis_executor_node w st0 s0 = (Inr u, s1)
              \<and> (\<not> success res \<longrightarrow>
                   u = no_update \<lparr>up_error := Some (error res),
                                  up_generated_code := Some (generated_code res),
                                  up_next_node := Some (JStr ''responder'')\<rparr>)
              \<and> (success res \<longrightarrow>
                   up_error u = Some None \<and> up_analysis_result u = Some (result_df res)
                   \<and> up_next_node u =
                       Some (JStr (if truthy (dict_get (st_plan st0) ''requires_viz'' JNull)
                                   then ''viz_node'' else ''responder''))))
           \<and> ((\<forall>e. lf_collect lf = Inl e \<longrightarrow> is_Exception e) \<longrightarrow>
              (\<exists>res s1 u. sql_generate w (st_user_question st0) lf s0 = (Inr res, s1)
                 \<and> sql_executor_node w st0 s0 = (Inr u, s1)
                 \<and> up_next_node u = Some (JStr ''responder'')
                 \<and> (\<not> sql_success res \<longrightarrow>
                      u = no_update \<lparr>up_sql_query := Some (sql_query res),
                                     up_error := Some (sql_error res),
                                     up_next_node := Some (JStr ''responder'')\<rparr>)
                 \<and> (sql_success res \<longrightarrow>
                      up_error u = Some None \<and> up_sql_query u = Some (sql_query res)
                      \<and> up_sql_result u = Some (sql_result_df res)))))
        \<and> (st_analysis_result st0 = Some df
            \<or> st_analysis_result st0 = None \<and> st_raw_dataframe st0 = Some lf
              \<and> lf_collect lf = Inr df \<longrightarrow>
           (\<exists>res s1 u. viz_generate w VizGenerator (viz_question w st0) df s0 = (Inr res, s1)
              \<and> viz_executor_node w st0 s0 = (Inr u, s1)
              \<and> up_next_node u = Some (JStr ''responder'')
              \<and> (\<not> chart_success res \<longrightarrow>
                   u = no_update \<lparr>up_error := Some (chart_error res),
                                  up_next_node := Some (JStr ''responder'')\<rparr>)
              \<and> (chart_success res \<longrightarrow>
                   up_error u = Some None \<and> up_figure u = Some (figure res))))
        \<and> ((\<forall>n ctx e. llm_invoke w n llm RESPONDER_PROMPT ctx \<noteq> Inl e)
            \<and> (\<forall>lf. st_raw_dataframe st = Some lf \<longrightarrow>
                   (\<exists>schema. lf_schema lf = Inr schema) \<and> (\<exists>df. lf_collect lf = Inr df))
            \<and> planner_schema_info (st_raw_dataframe st) = Inr si
            \<and> llm_invoke w (length (llm_calls s)) llm PLANNER_PROMPT
                  (''User Question: '' @ st_user_question st @ si) = Inr response
            \<and> planner_parse w (st_user_question st) (planner_raw_json response) = Inr (JDict plan)
            \<and> (\<forall>xs. dict_get plan ''routing'' (JStr ''executor'') \<noteq> JList xs)
            \<and> (\<forall>kvs. dict_get plan ''routing'' (JStr ''executor'') \<noteq> JDict kvs) \<longrightarrow>
           (\<exists>final path s'. abi_graph_invoke w st s = (Inr final, path, s'))))"
proof (intro conjI)
  show "abi_graph_invoke w st s = (Inr final, path, s') \<longrightarrow>
      hd path = Planner \<and> last path = Responder \<and> length path \<le> 4 \<and> distinct path
      \<and> st_next_node final = JStr ''end'' \<and> st_messages final \<noteq> []
          \<and> last (st_messages final) = st_final_answer final
          \<and> (\<exists>llm n ctx. build_llm w False = Inr llm
                \<and> llm_invoke w n llm RESPONDER_PROMPT ctx = Inr (st_final_answer final))"
  proof (intro impI)
    assume run: "abi_graph_invoke w st s = (Inr final, path, s')"
    from abi_graph_invoke_result(1)[OF run]
    have "hd path = Planner \<and> length path \<le> 4 \<and> distinct path" by auto
    with abi_graph_invoke_result(3)[OF run refl]
    show "hd path = Planner \<and> last path = Responder \<and> length path \<le> 4 \<and> distinct path
      \<and> st_next_node final = JStr ''end'' \<and> st_messages final \<noteq> []
          \<and> last (st_messages final) = st_final_answer final
          \<and> (\<exists>llm n ctx. build_llm w False = Inr llm
                \<and> llm_invoke w n llm RESPONDER_PROMPT ctx = Inr (st_final_answer final))"
      by blast
  qed
  show "abi_graph_invoke w st s = (Inl e, path, s') \<longrightarrow>
      hd path = Planner \<and> length path \<le> 4 \<and> distinct path
      \<and> ((\<exists>st1 s1. fst (node_fun (last path) w st1 s1) = Inl e)
           \<or> path = [Planner] \<and> (\<exists>st1. route_after_planner w st1 = Inl e))"
  proof (intro impI)
    assume run: "abi_graph_invoke w st s = (Inl e, path, s')"
    from abi_graph_invoke_result(1)[OF run]
    have "hd path = Planner \<and> length path \<le> 4 \<and> distinct path" by auto
    with abi_graph_invoke_result(2)[OF run refl]
    show "hd path = Planner \<and> length path \<le> 4 \<and> distinct path
      \<and> ((\<exists>st1 s1. fst (node_fun (last path) w st1 s1) = Inl e)
           \<or> path = [Planner] \<and> (\<exists>st1. route_after_planner w st1 = Inl e))"
      by blast
  qed
  show "fst (planner_node w st s) = Inl e \<longrightarrow> fst (abi_graph_invoke w st s) = Inl e"
    by (cases "planner_node w st s") (simp add: abi_graph_invoke_def run_node_def)
  show "st_raw_dataframe st0 = None \<longrightarrow>
      analysis_executor_node w st0 s0 =
        (Inr (no_update
           \<lparr>up_error := Some (Some ''No dataset loaded. Please upload a CSV file first.''),
            up_next_node := Some (JStr ''responder'')\<rparr>), s0)
      \<and> sql_executor_node w st0 s0 =
        (Inr (no_update
           \<lparr>up_error := Some (Some ''No dataset loaded.''),
            up_next_node := Some (JStr ''responder'')\<rparr>), s0)
      \<and> (st_analysis_result st0 = None \<longrightarrow>
           viz_executor_node w st0 s0 =
             (Inr (no_update
                \<lparr>up_error := Some (Some ''No data available for visualization.''),
                 up_next_node := Some (JStr ''responder'')\<rparr>), s0))"
    by (simp add: analysis_executor_node_no_data sql_executor_node_no_data viz_executor_node_no_data)
  show "build_llm w False = Inr llm \<and> build_llm w True = Inr llm'
      \<and> (\<forall>n c sys u e. llm_invoke w n c sys u = Inl e \<longrightarrow> is_Exception e)
      \<and> (\<forall>n code ns e. exec_code w n code ns = Inl e \<longrightarrow> is_Exception e)
      \<and> (\<forall>n e. duckdb_connect w n = Some e \<longrightarrow> is_Exception e)
      \<and> (\<forall>n df q e. duckdb_execute w n df q = Inl e \<longrightarrow> is_Exception e) \<longrightarrow>
        (st_raw_dataframe st0 = Some lf \<and> lf_schema lf = Inr schema \<longrightarrow>
           (\<exists>res s1 u. analyze w PolarsAnalyst (st_user_question st0) lf s0 = (Inr res, s1)
              \<and> analysis_executor_node w st0 s0 = (Inr u, s1)
              \<and> (\<not> success res \<longrightarrow>
                   u = no_update \<lparr>up_error := Some (error res),
                                  up_generated_code := Some (generated_code res),
                                  up_next_node := Some (JStr ''responder'')\<rparr>)
              \<and> (success res \<longrightarrow>
                   up_error u = Some None \<and> up_analysis_result u = Some (result_df res)
                   \<and> up_next_node u =
                       Some (JStr (if truthy (dict_get (st_plan st0) ''requires_viz'' JNull)
                                   then ''viz_node'' else ''responder''))))
           \<and> ((\<forall>e. lf_collect lf = Inl e \<longrightarrow> is_Exception e) \<longrightarrow>
              (\<exists>res s1 u. sql_generate w (st_user_question st0) lf s0 = (Inr res, s1)
                 \<and> sql_executor_node w st0 s0 = (Inr u, s1)
                 \<and> up_next_node u = Some (JStr ''responder'')
                 \<and> (\<not> sql_success res \<longrightarrow>
                      u = no_update \<lparr>up_sql_query := Some (sql_query res),
                                     up_error := Some (sql_error res),
                                     up_next_node := Some (JStr ''responder'')\<rparr>)
                 \<and> (sql_success res \<longrightarrow>
                      up_error u = Some None \<and> up_sql_query u = Some (sql_query res)
                      \<and> up_sql_result u = Some (sql_result_df res)))))
        \<and> (st_analysis_result st0 = Some df
            \<or> st_analysis_result st0 = None \<and> st_raw_dataframe st0 = Some lf
              \<and> lf_collect lf = Inr df \<longrightarrow>
           (\<exists>res s1 u. viz_generate w VizGenerator (viz_question w st0) df s0 = (Inr res, s1)
              \<and> viz_executor_node w st0 s0 = (Inr u, s1)
              \<and> up_next_node u = Some (JStr ''responder'')
              \<and> (\<not> chart_success res \<longrightarrow>
                   u = no_update \<lparr>up_error := Some (chart_error res),
                                  up_next_node := Some (JStr ''responder'')\<rparr>)
              \<and> (chart_success res \<longrightarrow>
                   up_error u = Some None \<and> up_figure u = Some (figure res))))
        \<and> ((\<forall>n ctx e. llm_invoke w n llm RESPONDER_PROMPT ctx \<noteq> Inl e)
            \<and> (\<forall>lf. st_raw_dataframe st = Some lf \<longrightarrow>
                   (\<exists>schema. lf_schema lf = Inr schema) \<and> (\<exists>df. lf_collect lf = Inr df))
            \<and> planner_schema_info (st_raw_dataframe st) = Inr si
            \<and> llm_invoke w (length (llm_calls s)) llm PLANNER_PROMPT
                  (''User Question: '' @ st_user_question st @ si) = Inr response
            \<and> planner_parse w (st_user_question st) (planner_raw_json response) = Inr (JDict plan)
            \<and> (\<forall>xs. dict_get plan ''routing'' (JStr ''executor'') \<noteq> JList xs)
            \<and> (\<forall>kvs. dict_get plan ''routing'' (JStr ''executor'') \<noteq> JDict kvs) \<longrightarrow>
           (\<exists>final path s'. abi_graph_invoke w st s = (Inr final, path, s')))"
  proof (intro impI; elim conjE)
    assume b: "build_llm w False = Inr llm" "build_llm w True = Inr llm'"
      and i0: "\<forall>n c sys u e. llm_invoke w n c sys u = Inl e \<longrightarrow> is_Exception e"
      and x0: "\<forall>n code ns e. exec_code w n code ns = Inl e \<longrightarrow> is_Exception e"
      and dc0: "\<forall>n e. duckdb_connect w n = Some e \<longrightarrow> is_Exception e"
      and de0: "\<forall>n df q e. duckdb_execute w n df q = Inl e \<longrightarrow> is_Exception e"
    from i0 have i: "\<And>n c sys u e. llm_invoke w n c sys u = Inl e \<Longrightarrow> is_Exception e" by blast
    from x0 have x: "\<And>n code ns e. exec_code w n code ns = Inl e \<Longrightarrow> is_Exception e" by blast
    from dc0 have dc: "\<And>n e. duckdb_connect w n = Some e \<Longrightarrow> is_Exception e" by blast
    from de0 have de: "\<And>n df q e. duckdb_execute w n df q = Inl e \<Longrightarrow> is_Exception e" by blast
    have na: "(st_raw_dataframe st0 = Some lf \<and> lf_schema lf = Inr schema \<longrightarrow>
           (\<exists>res s1 u. analyze w PolarsAnalyst (st_user_question st0) lf s0 = (Inr res, s1)
              \<and> analysis_executor_node w st0 s0 = (Inr u, s1)
              \<and> (\<not> success res \<longrightarrow>
                   u = no_update \<lparr>up_error := Some (error res),
                                  up_generated_code := Some (generated_code res),
                                  up_next_node := Some (JStr ''responder'')\<rparr>)
              \<and> (success res \<longrightarrow>
                   up_error u = Some None \<and> up_analysis_result u = Some (result_df res)
                   \<and> up_next_node u =
                       Some (JStr (if truthy (dict_get (st_plan st0) ''requires_viz'' JNull)
                                   then ''viz_node'' else ''responder''))))
           \<and> ((\<forall>e. lf_collect lf = Inl e \<longrightarrow> is_Exception e) \<longrightarrow>
              (\<exists>res s1 u. sql_generate w (st_user_question st0) lf s0 = (Inr res, s1)
                 \<and> sql_executor_node w st0 s0 = (Inr u, s1)
                 \<and> up_next_node u = Some (JStr ''responder'')
                 \<and> (\<not> sql_success res \<longrightarrow>
                      u = no_update \<lparr>up_sql_query := Some (sql_query res),
                                     up_error := Some (sql_error res),
                                     up_next_node := Some (JStr ''responder'')\<rparr>)
                 \<and> (sql_success res \<longrightarrow>
                      up_error u = Some None \<and> up_sql_query u = Some (sql_query res)
                      \<and> up_sql_result u = Some (sql_result_df res)))))"
    proof (intro impI conjI; (elim conjE)?)
      assume lf: "st_raw_dataframe st0 = Some lf" and sc: "lf_schema lf = Inr schema"
      show "\<exists>res s1 u. analyze w PolarsAnalyst (st_user_question st0) lf s0 = (Inr res, s1)
              \<and> analysis_executor_node w st0 s0 = (Inr u, s1)
              \<and> (\<not> success res \<longrightarrow>
                   u = no_update \<lparr>up_error := Some (error res),
                                  up_generated_code := Some (generated_code res),
                                  up_next_node := Some (JStr ''responder'')\<rparr>)
              \<and> (success res \<longrightarrow>
                   up_error u = Some None \<and> up_analysis_result u = Some (result_df res)
                   \<and> up_next_node u =
                       Some (JStr (if truthy (dict_get (st_plan st0) ''requires_viz'' JNull)
                                   then ''viz_node'' else ''responder'')))"
        by (rule analysis_executor_node_returns[OF b _ _ lf sc]) (erule i, erule x)
      assume c: "\<forall>e. lf_collect lf = Inl e \<longrightarrow> is_Exception e"
      show "\<exists>res s1 u. sql_generate w (st_user_question st0) lf s0 = (Inr res, s1)
                 \<and> sql_executor_node w st0 s0 = (Inr u, s1)
                 \<and> up_next_node u = Some (JStr ''responder'')
                 \<and> (\<not> sql_success res \<longrightarrow>
                      u = no_update \<lparr>up_sql_query := Some (sql_query res),
                                     up_error := Some (sql_error res),
                                     up_next_node := Some (JStr ''responder'')\<rparr>)
                 \<and> (sql_success res \<longrightarrow>
                      up_error u = Some None \<and> up_sql_query u = Some (sql_query res)
                      \<and> up_sql_result u = Some (sql_result_df res))"
        by (rule sql_executor_node_returns[OF b(1) _ _ _ lf sc])
           (erule i, erule dc, erule de, erule c[rule_format])
    qed
    have nv: "(st_analysis_result st0 = Some df
            \<or> st_analysis_result st0 = None \<and> st_raw_dataframe st0 = Some lf
              \<and> lf_collect lf = Inr df \<longrightarrow>
           (\<exists>res s1 u. viz_generate w VizGenerator (viz_question w st0) df s0 = (Inr res, s1)
              \<and> viz_executor_node w st0 s0 = (Inr u, s1)
              \<and> up_next_node u = Some (JStr ''responder'')
              \<and> (\<not> chart_success res \<longrightarrow>
                   u = no_update \<lparr>up_error := Some (chart_error res),
                                  up_next_node := Some (JStr ''responder'')\<rparr>)
              \<and> (chart_success res \<longrightarrow>
                   up_error u = Some None \<and> up_figure u = Some (figure res))))"
    proof (intro impI)
      assume df: "st_analysis_result st0 = Some df
            \<or> st_analysis_result st0 = None \<and> st_raw_dataframe st0 = Some lf
              \<and> lf_collect lf = Inr df"
      show "\<exists>res s1 u. viz_generate w VizGenerator (viz_question w st0) df s0 = (Inr res, s1)
              \<and> viz_executor_node w st0 s0 = (Inr u, s1)
              \<and> up_next_node u = Some (JStr ''responder'')
              \<and> (\<not> chart_success res \<longrightarrow>
                   u = no_update \<lparr>up_error := Some (chart_error res),
                                  up_next_node := Some (JStr ''responder'')\<rparr>)
              \<and> (chart_success res \<longrightarrow>
                   up_error u = Some None \<and> up_figure u = Some (figure res))"
        by (rule viz_executor_node_returns[OF b _ _ df]) (erule i, erule x)
    qed
    have t: "((\<forall>n ctx e. llm_invoke w n llm RESPONDER_PROMPT ctx \<noteq> Inl e)
            \<and> (\<forall>lf. st_raw_dataframe st = Some lf \<longrightarrow>
                   (\<exists>schema. lf_schema lf = Inr schema) \<and> (\<exists>df. lf_collect lf = Inr df))
            \<and> planner_schema_info (st_raw_dataframe st) = Inr si
            \<and> llm_invoke w (length (llm_calls s)) llm PLANNER_PROMPT
                  (''User Question: '' @ st_user_question st @ si) = Inr response
            \<and> planner_parse w (st_user_question st) (planner_raw_json response) = Inr (JDict plan)
            \<and> (\<forall>xs. dict_get plan ''routing'' (JStr ''executor'') \<noteq> JList xs)
            \<and> (\<forall>kvs. dict_get plan ''routing'' (JStr ''executor'') \<noteq> JDict kvs) \<longrightarrow>
           (\<exists>final path s'. abi_graph_invoke w st s = (Inr final, path, s')))"
    proof (intro impI; elim conjE)
      assume rsp: "\<forall>n ctx e. llm_invoke w n llm RESPONDER_PROMPT ctx \<noteq> Inl e"
        and d: "\<forall>lf. st_raw_dataframe st = Some lf \<longrightarrow>
                   (\<exists>schema. lf_schema lf = Inr schema) \<and> (\<exists>df. lf_collect lf = Inr df)"
        and si: "planner_schema_info (st_raw_dataframe st) = Inr si"
        and p: "llm_invoke w (length (llm_calls s)) llm PLANNER_PROMPT
                  (''User Question: '' @ st_user_question st @ si) = Inr response"
        and j: "planner_parse w (st_user_question st) (planner_raw_json response) = Inr (JDict plan)"
        and h: "\<forall>xs. dict_get plan ''routing'' (JStr ''executor'') \<noteq> JList xs"
               "\<forall>kvs. dict_get plan ''routing'' (JStr ''executor'') \<noteq> JDict kvs"
      show "\<exists>final path s'. abi_graph_invoke w st s = (Inr final, path, s')"
        by (rule abi_graph_invoke_returns[OF b _ _ _ _ _ _ si p j])
           (erule i, erule x, erule dc, erule de, rule rsp[rule_format], erule d[rule_format],
            rule h(1)[rule_format], rule h(2)[rule_format])
    qed
    from na nv t show "(st_raw_dataframe st0 = Some lf \<and> lf_schema lf = Inr schema \<longrightarrow>
           (\<exists>res s1 u. analyze w PolarsAnalyst (st_user_question st0) lf s0 = (Inr res, s1)
              \<and> analysis_executor_node w st0 s0 = (Inr u, s1)
              \<and> (\<not> success res \<longrightarrow>
                   u = no_update \<lparr>up_error := Some (error res),
                                  up_generated_code := Some (generated_code res),
                                  up_next_node := Some (JStr ''responder'')\<rparr>)
              \<and> (success res \<longrightarrow>
                   up_error u = Some None \<and> up_analysis_result u = Some (result_df res)
                   \<and> up_next_node u =
                       Some (JStr (if truthy (dict_get (st_plan st0) ''requires_viz'' JNull)
                                   then ''viz_node'' else ''responder''))))
           \<and> ((\<forall>e. lf_collect lf = Inl e \<longrightarrow> is_Exception e) \<longrightarrow>
              (\<exists>res s1 u. sql_generate w (st_user_question st0) lf s0 = (Inr res, s1)
                 \<and> sql_executor_node w st0 s0 = (Inr u, s1)
                 \<and> up_next_node u = Some (JStr ''responder'')
                 \<and> (\<not> sql_success res \<longrightarrow>
                      u = no_update \<lparr>up_sql_query := Some (sql_query res),
                                     up_error := Some (sql_error res),
                                     up_next_node := Some (JStr ''responder'')\<rparr>)
                 \<and> (sql_success res \<longrightarrow>
                      up_error u = Some None \<and> up_sql_query u = Some (sql_query res)
                      \<and> up_sql_result u = Some (sql_result_df res)))))
        \<and> (st_analysis_result st0 = Some df
            \<or> st_analysis_result st0 = None \<and> st_raw_dataframe st0 = Some lf
              \<and> lf_collect lf = Inr df \<longrightarrow>
           (\<exists>res s1 u. viz_generate w VizGenerator (viz_question w st0) df s0 = (Inr res, s1)
              \<and> viz_executor_node w st0 s0 = (Inr u, s1)
              \<and> up_next_node u = Some (JStr ''responder'')
              \<and> (\<not> chart_success res \<longrightarrow>
                   u = no_update \<lparr>up_error := Some (chart_error res),
                                  up_next_node := Some (JStr ''responder'')\<rparr>)
              \<and> (chart_success res \<longrightarrow>
                   up_error u = Some None \<and> up_figure u = Some (figure res))))
        \<and> ((\<forall>n ctx e. llm_invoke w n llm RESPONDER_PROMPT ctx \<noteq> Inl e)
            \<and> (\<forall>lf. st_raw_dataframe st = Some lf \<longrightarrow>
                   (\<exists>schema. lf_schema lf = Inr schema) \<and> (\<exists>df. lf_collect lf = Inr df))
            \<and> planner_schema_info (st_raw_dataframe st) = Inr si
            \<and> llm_invoke w (length (llm_calls s)) llm PLANNER_PROMPT
                  (''User Question: '' @ st_user_question st @ si) = Inr response
            \<and> planner_parse w (st_user_question st) (planner_raw_json response) = Inr (JDict plan)
            \<and> (\<forall>xs. dict_get plan ''routing'' (JStr ''executor'') \<noteq> JList xs)
            \<and> (\<forall>kvs. dict_get plan ''routing'' (JStr ''executor'') \<noteq> JDict kvs) \<longrightarrow>
           (\<exists>final path s'. abi_graph_invoke w st s = (Inr final, path, s')))"
      by (intro conjI)
  qed
qed

text \<open>
  Claim C6 at a failing input.  \<open>planner_node\<close> substitutes the default plan in the handler
  of \<open>json.JSONDecodeError\<close>, and \<open>json.loads\<close> rejects some texts with another exception: on
  995 opening brackets it runs out of stack and raises \<open>RecursionError\<close>.  When the model
  answers with that text, there are no \<open>plan\<close> tags, the structured-plan content is the whole
  response, it cannot be parsed, and \<open>planner_node\<close> raises the \<open>RecursionError\<close> where the
  claim has it return the default plan; the exception leaves the graph.
\<close>

theorem deep_plan_content_raises:
  "llm_invoke deep_world 0 sample_client PLANNER_PROMPT
       (''User Question: Top 5?\<newline>Dataset columns:\<newline>  - supplier_name: String\<newline>  - total_revenue: Float64'')
     = Inr deep_reply
   \<and> re_search_tag ''plan'' deep_reply = None
   \<and> planner_raw_json deep_reply = deep_reply
   \<and> json_loads deep_world deep_reply = Inl recursion_error
   \<and> exc_class recursion_error \<noteq> JSONDecodeError
   \<and> is_Exception recursion_error
   \<and> fst (planner_node deep_world (initial_state ''Top 5?'' (Some sample_lf)) ext0) = Inl recursion_error
   \<and> fst (abi_graph_invoke deep_world (initial_state ''Top 5?'' (Some sample_lf)) ext0) = Inl recursion_error"
proof -
  let ?st = "initial_state ''Top 5?'' (Some sample_lf)"
  have t: "re_search_tag ''plan'' deep_reply = None"
    by (simp add: re_search_tag_def deep_reply_def split_first_replicate)
  have j: "json_loads deep_world deep_reply = Inl recursion_error" by (simp add: json_loads_deep)
  have c: "exc_class recursion_error \<noteq> JSONDecodeError" "is_Exception recursion_error"
    by (simp_all add: recursion_error_def is_Exception_def)
  from planner_node_response[where w = deep_world and state = ?st and s = ext0
      and response = deep_reply, OF build_llm_deep planner_schema_info_sample llm_invoke_deep_planner]
  have n: "fst (planner_node deep_world ?st ext0) = Inl recursion_error"
    by (simp add: planner_raw_json_deep planner_parse_def j c)
  then have g: "fst (abi_graph_invoke deep_world ?st ext0) = Inl recursion_error"
    by (cases "planner_node deep_world ?st ext0") (simp add: abi_graph_invoke_def run_node_def)
  from llm_invoke_deep_planner t planner_raw_json_deep j c n g show ?thesis by blast
qed

text \<open>
  Claim C7, as stated, fails for an invocation whose set-up raises: \<open>build_llm()\<close> and
  \<open>_get_schema_info(lf)\<close> are called before the \<open>try\<close> statement.  With a provider that
  \<open>build_llm\<close> does not know, \<open>SQLGenerator.generate\<close> raises the \<open>ValueError\<close> of \<open>build_llm\<close>;
  no model call is made and no record is returned.
\<close>

theorem sql_generate_raises_before_model_call:
  "sql_generate unsupported_provider_world ''SQL for all delayed orders'' sample_lf ext0
     = (Inl (own_exception unsupported_provider_world ''ValueError''
               (''Unsupported provider: '' @ [CHR 0x27] @ ''openai'' @ [CHR 0x27]
                @ ''. Valid options: google | groq'')),
        ext0)
   \<and> new_calls ext0 ext0 = []"
  by (simp add: sql_generate_def build_llm_def unsupported_provider_world_def sample_world_def
      sample_settings_def new_calls_def)

text \<open>
  Claim C7, amended.  An invocation of \<open>SQLGenerator.generate\<close> whose set-up raises
  (\<open>build_llm()\<close> or \<open>_get_schema_info(lf)\<close>, both before the \<open>try\<close> statement) raises that
  exception and calls nothing.  Every invocation makes at most one model call and at most
  one query execution.  Once the client is built and the schema read, it makes exactly one
  model call and runs no generated code, and its outcome is decided by the first step of
  the \<open>try\<close> block that raises:
  \<^item> the model call raises: no query is executed and \<open>sql_query\<close> is empty;
  \<^item> the response has no \<open>sql\<close> block: no query is executed, \<open>sql_query\<close> is empty and the
    error text says that the block is missing;
  \<^item> \<open>lf.collect()\<close> or \<open>duckdb.connect()\<close> raises: no query is executed and \<open>sql_query\<close> is
    the text of the block;
  \<^item> the query execution raises: one query was executed and \<open>sql_query\<close> is the text of the
    block;
  \<^item> nothing raises: the record has \<open>success = True\<close>, the query and the table.

  In each failing case an exception that \<open>except Exception\<close> catches yields the record with
  \<open>success = False\<close>, \<open>result_df = None\<close> and the text of the exception as \<open>error\<close>; an
  exception that it does not catch leaves \<open>generate\<close>.
\<close>

theorem sql_generate_single_attempt:
  "(build_llm w False = Inl e0 \<longrightarrow> sql_generate w q lf s = (Inl e0, s))
   \<and> (build_llm w False = Inr llm \<and> get_schema_info lf = Inl e0 \<longrightarrow> sql_generate w q lf s = (Inl e0, s))
   \<and> (sql_generate w q lf s = (r, s') \<longrightarrow>
        length (new_calls s s') \<le> 1 \<and> length (sql_runs s') \<le> Suc (length (sql_runs s)))
   \<and> (build_llm w False = Inr llm \<and> get_schema_info lf = Inr si \<and> sql_generate w q lf s = (r, s') \<longrightarrow>
        new_calls s s' = [\<lparr>call_client = llm, call_system = SQL_SYSTEM_PROMPT,
                            call_user = sql_user_message si q\<rparr>]
        \<and> code_runs s' = code_runs s
        \<and> (case llm_invoke w (length (llm_calls s)) llm SQL_SYSTEM_PROMPT (sql_user_message si q) of
              Inl e \<Rightarrow>
                sql_runs s' = sql_runs s
                \<and> r = (if is_Exception e
                       then Inr \<lparr>sql_success = False, sql_query = [], sql_result_df = None,
                                 sql_error = Some (message e)\<rparr>
                       else Inl e)
            | Inr response \<Rightarrow>
                if extract_tag response ''sql'' = [] then
                  sql_runs s' = sql_runs s
                  \<and> r = Inr \<lparr>sql_success = False, sql_query = [], sql_result_df = None,
                              sql_error = Some ''LLM did not return a <sql> block.''\<rparr>
                else
                  (case lf_collect lf of
                     Inl e \<Rightarrow>
                       sql_runs s' = sql_runs s
                       \<and> r = (if is_Exception e
                              then Inr \<lparr>sql_success = False, sql_query = extract_tag response ''sql'',
                                        sql_result_df = None, sql_error = Some (message e)\<rparr>
                              else Inl e)
                   | Inr sc_data \<Rightarrow>
                       (case duckdb_connect w (Suc (length (llm_calls s))) of
                          Some e \<Rightarrow>
                            sql_runs s' = sql_runs s
                            \<and> r = (if is_Exception e
                                   then Inr \<lparr>sql_success = False, sql_query = extract_tag response ''sql'',
                                             sql_result_df = None, sql_error = Some (message e)\<rparr>
                                   else Inl e)
                        | None \<Rightarrow>
                            sql_runs s' = sql_runs s @ [extract_tag response ''sql'']
                            \<and> r = (case duckdb_execute w (Suc (length (llm_calls s))) sc_data
                                            (extract_tag response ''sql'') of
                                     Inl e \<Rightarrow>
                                       if is_Exception e
                                       then Inr \<lparr>sql_success = False,
                                                 sql_query = extract_tag response ''sql'',
                                                 sql_result_df = None, sql_error = Some (message e)\<rparr>
                                       else Inl e
                                   | Inr df \<Rightarrow>
                                       Inr \<lparr>sql_success = True, sql_query = extract_tag response ''sql'',
                                            sql_result_df = Some df, sql_error = None\<rparr>)))))"
proof (intro conjI impI; (elim conjE)?)
  assume "build_llm w False = Inl e0"
  then show "sql_generate w q lf s = (Inl e0, s)" by (simp add: sql_generate_def)
next
  assume "build_llm w False = Inr llm" "get_schema_info lf = Inl e0"
  then show "sql_generate w q lf s = (Inl e0, s)" by (simp add: sql_generate_def)
next
  assume "sql_generate w q lf s = (r, s')"
  from sql_generate_effects[OF this]
  show "length (new_calls s s') \<le> 1" "length (sql_runs s') \<le> Suc (length (sql_runs s))"
    by simp_all
next
  assume a: "build_llm w False = Inr llm" "get_schema_info lf = Inr si" "sql_generate w q lf s = (r, s')"
  show "new_calls s s' = [\<lparr>call_client = llm, call_system = SQL_SYSTEM_PROMPT,
                          call_user = sql_user_message si q\<rparr>]"
    by (rule sql_generate_calls[OF a])
  show "code_runs s' = code_runs s"
    using a by (auto simp: sql_generate_def sql_try_def invoke_def execute_sql_def Let_def
        split: sum.splits if_splits option.splits prod.splits)
  show "case llm_invoke w (length (llm_calls s)) llm SQL_SYSTEM_PROMPT (sql_user_message si q) of
              Inl e \<Rightarrow>
                sql_runs s' = sql_runs s
                \<and> r = (if is_Exception e
                       then Inr \<lparr>sql_success = False, sql_query = [], sql_result_df = None,
                                 sql_error = Some (message e)\<rparr>
                       else Inl e)
            | Inr response \<Rightarrow>
                if extract_tag response ''sql'' = [] then
                  sql_runs s' = sql_runs s
                  \<and> r = Inr \<lparr>sql_success = False, sql_query = [], sql_result_df = None,
                              sql_error = Some ''LLM did not return a <sql> block.''\<rparr>
                else
                  (case lf_collect lf of
                     Inl e \<Rightarrow>
                       sql_runs s' = sql_runs s
                       \<and> r = (if is_Exception e
                              then Inr \<lparr>sql_success = False, sql_query = extract_tag response ''sql'',
                                        sql_result_df = None, sql_error = Some (message e)\<rparr>
                              else Inl e)
                   | Inr sc_data \<Rightarrow>
                       (case duckdb_connect w (Suc (length (llm_calls s))) of
                          Some e \<Rightarrow>
                            sql_runs s' = sql_runs s
                            \<and> r = (if is_Exception e
                                   then Inr \<lparr>sql_success = False, sql_query = extract_tag response ''sql'',
                                             sql_result_df = None, sql_error = Some (message e)\<rparr>
                                   else Inl e)
                        | None \<Rightarrow>
                            sql_runs s' = sql_runs s @ [extract_tag response ''sql'']
                            \<and> r = (case duckdb_execute w (Suc (length (llm_calls s))) sc_data
                                            (extract_tag response ''sql'') of
                                     Inl e \<Rightarrow>
                                       if is_Exception e
                                       then Inr \<lparr>sql_success = False,
                                                 sql_query = extract_tag response ''sql'',
                                                 sql_result_df = None, sql_error = Some (message e)\<rparr>
                                       else Inl e
                                   | Inr df \<Rightarrow>
                                       Inr \<lparr>sql_success = True, sql_query = extract_tag response ''sql'',
                                            sql_result_df = Some df, sql_error = None\<rparr>)))"
    using a by (auto simp: sql_generate_def sql_try_def invoke_def execute_sql_def Let_def is_Exception_own
        message_own split: sum.splits if_splits option.splits prod.splits)
qed

text \<open>
  Instances: a provider that \<open>build_llm\<close> does not know; a model call that raises an
  \<open>Exception\<close> and one that is interrupted; a response without a block; a dataset that cannot
  be materialised; an engine that cannot be opened; a query that the engine rejects; and a
  query that runs.
\<close>

theorem sql_generate_single_attempt_witness:
  "sql_generate unsupported_provider_world ''SQL for all delayed orders'' sample_lf ext0
     = (Inl (own_exception unsupported_provider_world ''ValueError''
               (''Unsupported provider: '' @ [CHR 0x27] @ ''openai'' @ [CHR 0x27]
                @ ''. Valid options: google | groq'')), ext0)
   \<and> sql_generate (sample_world 1) ''SQL for all delayed orders'' sample_lf ext0
        = (Inr \<lparr>sql_success = False, sql_query = [], sql_result_df = None, sql_error = Some ''revenue''\<rparr>,
           ext0\<lparr>llm_calls := [\<lparr>call_client = sample_client, call_system = SQL_SYSTEM_PROMPT,
               call_user = sql_user_message
                 ''Dataset columns:\<newline>  - supplier_name: String\<newline>  - total_revenue: Float64''
                 ''SQL for all delayed orders''\<rparr>]\<rparr>)
   \<and> \<not> is_Exception keyboard_interrupt
   \<and> fst (sql_generate interrupted_world ''SQL for all delayed orders'' sample_lf ext0)
        = Inl keyboard_interrupt
   \<and> fst (sql_generate (sql_reply_world ''SELECT 1'') ''SQL for all delayed orders'' sample_lf ext0)
        = Inr \<lparr>sql_success = False, sql_query = [], sql_result_df = None,
               sql_error = Some ''LLM did not return a <sql> block.''\<rparr>
   \<and> sql_runs (snd (sql_generate (sql_reply_world ''SELECT 1'') ''SQL for all delayed orders''
             sample_lf ext0)) = []
   \<and> lf_collect unreadable_lf = Inl sample_error
   \<and> fst (sql_generate (sql_reply_world ''<sql> SELECT * FROM sc_data </sql>'')
             ''SQL for all delayed orders'' unreadable_lf ext0)
        = Inr \<lparr>sql_success = False, sql_query = ''SELECT * FROM sc_data'', sql_result_df = None,
               sql_error = Some ''revenue''\<rparr>
   \<and> sql_runs (snd (sql_generate (sql_reply_world ''<sql> SELECT * FROM sc_data </sql>'')
             ''SQL for all delayed orders'' unreadable_lf ext0)) = []
   \<and> fst (sql_generate
             ((sql_reply_world ''<sql> SELECT * FROM sc_data </sql>'')
                \<lparr>duckdb_connect := (\<lambda>n. Some sample_error)\<rparr>)
             ''SQL for all delayed orders'' sample_lf ext0)
        = Inr \<lparr>sql_success = False, sql_query = ''SELECT * FROM sc_data'', sql_result_df = None,
               sql_error = Some ''revenue''\<rparr>
   \<and> fst (sql_generate (sql_reply_world ''<sql> SELECT * FROM sc_data </sql>'')
             ''SQL for all delayed orders'' sample_lf ext0)
        = Inr \<lparr>sql_success = False, sql_query = ''SELECT * FROM sc_data'', sql_result_df = None,
               sql_error = Some ''revenue''\<rparr>
   \<and> sql_runs (snd (sql_generate (sql_reply_world ''<sql> SELECT * FROM sc_data </sql>'')
             ''SQL for all delayed orders'' sample_lf ext0))
        = [''SELECT * FROM sc_data'']
   \<and> fst (sql_generate
             ((sql_reply_world ''<sql> SELECT * FROM sc_data </sql>'')
                \<lparr>duckdb_execute := (\<lambda>n df query. Inr df)\<rparr>)
             ''SQL for all delayed orders'' sample_lf ext0)
        = Inr \<lparr>sql_success = True, sql_query = ''SELECT * FROM sc_data'',
               sql_result_df = Some sample_df, sql_error = None\<rparr>"
proof -
  let ?q = "''SQL for all delayed orders''"
  let ?si = "''Dataset columns:\<newline>  - supplier_name: String\<newline>  - total_revenue: Float64''"
  let ?r = "''<sql> SELECT * FROM sc_data </sql>''"
  let ?w2 = "sql_reply_world ''SELECT 1''"
  let ?w3 = "sql_reply_world ?r"
  let ?w4 = "?w3 \<lparr>duckdb_connect := (\<lambda>n. Some sample_error)\<rparr>"
  let ?w5 = "?w3 \<lparr>duckdb_execute := (\<lambda>n df query. Inr df)\<rparr>"
  have b: "build_llm (sample_world 1) False = Inr sample_client"
    "build_llm interrupted_world False = Inr sample_client"
    "build_llm ?w2 False = Inr sample_client" "build_llm ?w3 False = Inr sample_client"
    "build_llm ?w4 False = Inr sample_client" "build_llm ?w5 False = Inr sample_client"
    by (simp_all add: build_llm_def sql_reply_world_def interrupted_world_def sample_world_def
        sample_settings_def sample_client_def)
  have b0: "build_llm unsupported_provider_world False =
      Inl (own_exception unsupported_provider_world ''ValueError''
             (''Unsupported provider: '' @ [CHR 0x27] @ ''openai'' @ [CHR 0x27]
              @ ''. Valid options: google | groq''))"
    by (simp add: build_llm_def unsupported_provider_world_def sample_world_def sample_settings_def)
  have si: "get_schema_info sample_lf = Inr ?si" "get_schema_info unreadable_lf = Inr ?si"
    by (simp_all add: get_schema_info_def sample_lf_def unreadable_lf_def)
  have e: "is_Exception sample_error" "\<not> is_Exception keyboard_interrupt"
    by (simp_all add: is_Exception_def sample_error_def keyboard_interrupt_def)
  have m: "message sample_error = ''revenue''" by (simp add: sample_error_def)
  have x: "extract_tag ''SELECT 1'' ''sql'' = []"
    "extract_tag ?r ''sql'' = ''SELECT * FROM sc_data''"
    by (simp_all add: extract_tag_def re_search_tag_def strip_def is_space_def)
  have i: "llm_invoke interrupted_world n llm sys u = Inl keyboard_interrupt"
    "llm_invoke (sql_reply_world reply) n llm sys u = Inr reply"
    "llm_invoke ((sql_reply_world reply) \<lparr>duckdb_connect := dc\<rparr>) n llm sys u = Inr reply"
    "llm_invoke ((sql_reply_world reply) \<lparr>duckdb_execute := de\<rparr>) n llm sys u = Inr reply"
    for n llm sys u reply dc de
    by (simp_all add: interrupted_world_def sql_reply_world_def)
  have c: "lf_collect sample_lf = Inr sample_df" "lf_collect unreadable_lf = Inl sample_error"
    by (simp_all add: sample_lf_def unreadable_lf_def)
  have d: "duckdb_connect ?w3 n = None"
    "duckdb_execute ?w3 n df query = Inl sample_error"
    "duckdb_connect ?w4 n = Some sample_error"
    "duckdb_connect ?w5 n = None"
    "duckdb_execute ?w5 n df query = Inr df" for n df query
    by (simp_all add: sql_reply_world_def sample_world_def)
  have pair: "sql_generate w ?q lf ext0 = (fst (sql_generate w ?q lf ext0), snd (sql_generate w ?q lf ext0))"
    for w lf by simp
  note t = sql_generate_single_attempt[where q = ?q and s = ext0 and llm = sample_client and si = ?si]
  from t[where w = unsupported_provider_world and lf = sample_lf] b0
  have r0: "sql_generate unsupported_provider_world ?q sample_lf ext0 =
      (Inl (own_exception unsupported_provider_world ''ValueError''
             (''Unsupported provider: '' @ [CHR 0x27] @ ''openai'' @ [CHR 0x27]
              @ ''. Valid options: google | groq'')), ext0)"
    by blast
  let ?G1 = "sql_generate (sample_world 1) ?q sample_lf ext0"
  from t[where w = "sample_world 1" and lf = sample_lf and r = "fst ?G1" and s' = "snd ?G1"]
    b(1) si(1) pair
  have "new_calls ext0 (snd ?G1) = [\<lparr>call_client = sample_client, call_system = SQL_SYSTEM_PROMPT,
                            call_user = sql_user_message ?si ?q\<rparr>]
        \<and> code_runs (snd ?G1) = code_runs ext0
        \<and> sql_runs (snd ?G1) = sql_runs ext0
        \<and> fst ?G1 = Inr \<lparr>sql_success = False, sql_query = [], sql_result_df = None,
                                 sql_error = Some (message sample_error)\<rparr>"
    by (simp add: llm_invoke_sample ext0_def e)
  then have r1: "?G1 = (Inr \<lparr>sql_success = False, sql_query = [], sql_result_df = None,
                            sql_error = Some ''revenue''\<rparr>,
           ext0\<lparr>llm_calls := [\<lparr>call_client = sample_client, call_system = SQL_SYSTEM_PROMPT,
               call_user = sql_user_message ?si ?q\<rparr>]\<rparr>)"
    by (cases ?G1) (simp add: new_calls_def ext0_def m)
  let ?G2 = "sql_generate interrupted_world ?q sample_lf ext0"
  from t[where w = interrupted_world and lf = sample_lf and r = "fst ?G2" and s' = "snd ?G2"]
    b(2) si(1) pair
  have r2: "fst ?G2 = Inl keyboard_interrupt" by (simp add: i e)
  let ?G3 = "sql_generate ?w2 ?q sample_lf ext0"
  from t[where w = ?w2 and lf = sample_lf and r = "fst ?G3" and s' = "snd ?G3"] b(3) si(1) pair
  have r3: "fst ?G3 = Inr \<lparr>sql_success = False, sql_query = [], sql_result_df = None,
               sql_error = Some ''LLM did not return a <sql> block.''\<rparr>"
    "sql_runs (snd ?G3) = []"
    by (simp_all add: i x ext0_def)
  let ?G4 = "sql_generate ?w3 ?q unreadable_lf ext0"
  from t[where w = ?w3 and lf = unreadable_lf and r = "fst ?G4" and s' = "snd ?G4"] b(4) si(2) pair
  have r4: "fst ?G4 = Inr \<lparr>sql_success = False, sql_query = ''SELECT * FROM sc_data'',
               sql_result_df = None, sql_error = Some ''revenue''\<rparr>"
    "sql_runs (snd ?G4) = []"
    by (simp_all add: i x c e m ext0_def)
  let ?G5 = "sql_generate ?w4 ?q sample_lf ext0"
  from t[where w = ?w4 and lf = sample_lf and r = "fst ?G5" and s' = "snd ?G5"] b(5) si(1) pair
  have r5: "fst ?G5 = Inr \<lparr>sql_success = False, sql_query = ''SELECT * FROM sc_data'',
               sql_result_df = None, sql_error = Some ''revenue''\<rparr>"
    by (simp add: i x c d e m)
  let ?G6 = "sql_generate ?w3 ?q sample_lf ext0"
  from t[where w = ?w3 and lf = sample_lf and r = "fst ?G6" and s' = "snd ?G6"] b(4) si(1) pair
  have r6: "fst ?G6 = Inr \<lparr>sql_success = False, sql_query = ''SELECT * FROM sc_data'',
               sql_result_df = None, sql_error = Some ''revenue''\<rparr>"
    "sql_runs (snd ?G6) = [''SELECT * FROM sc_data'']"
    by (simp_all add: i x c d e m ext0_def)
  let ?G7 = "sql_generate ?w5 ?q sample_lf ext0"
  from t[where w = ?w5 and lf = sample_lf and r = "fst ?G7" and s' = "snd ?G7"] b(6) si(1) pair
  have r7: "fst ?G7 = Inr \<lparr>sql_success = True, sql_query = ''SELECT * FROM sc_data'',
               sql_result_df = Some sample_df, sql_error = None\<rparr>"
    by (simp add: i x c d)
  from r0 r1 e(2) r2 r3 c(2) r4 r5 r6 r7 show ?thesis by blast
qed

text \<open>
  Claim C8, as stated, fails when the analysis does not succeed: the executor node then
  writes \<open>next_node = "responder"\<close> whatever the plan says.  Here the plan has
  \<open>requires_viz = true\<close>, all four attempts of the analysis fail, and the node after the
  executor is the responder.
\<close>

theorem failed_analysis_skips_chart:
  "dict_get (st_plan chart_plan_state) ''requires_viz'' JNull = JBool True
   \<and> fst (snd (from_executor (sample_world 4) chart_plan_state ext0)) = [Executor, Responder]"
  by (simp add: pipeline_sample chart_plan_state_def)

text \<open>
  Claim C8, amended.  After the executor node the graph runs \<open>viz_node\<close> when the analysis
  succeeded and the plan's \<open>requires_viz\<close> is truthy, and \<open>responder\<close> otherwise: when there is no
  dataset, when the analysis returned a failure, and when \<open>requires_viz\<close> is missing or falsy.
\<close>

theorem executor_next_node:
  "(st_raw_dataframe state = None \<longrightarrow>
      take 2 (fst (snd (from_executor w state s))) = [Executor, Responder])
   \<and> (st_raw_dataframe state = Some lf
      \<and> analyze w PolarsAnalyst (st_user_question state) lf s = (Inr res, s1) \<longrightarrow>
      take 2 (fst (snd (from_executor w state s))) =
        [Executor,
         if success res \<and> truthy (dict_get (st_plan state) ''requires_viz'' JNull)
         then Viz_node else Responder])"
proof (intro conjI impI; (elim conjE)?)
  assume "st_raw_dataframe state = None"
  from from_executor_path[OF analysis_executor_node_no_data[OF this]]
  show "take 2 (fst (snd (from_executor w state s))) = [Executor, Responder]"
    by (simp add: route_after_executor_merge no_update_def node_of_name_def)
next
  assume "st_raw_dataframe state = Some lf"
    "analyze w PolarsAnalyst (st_user_question state) lf s = (Inr res, s1)"
  from analysis_executor_node_route[OF this] obtain u where
    u: "analysis_executor_node w state s = (Inr u, s1)"
       "route_after_executor (merge state u) =
         (if success res \<and> truthy (dict_get (st_plan state) ''requires_viz'' JNull)
          then ''viz_node'' else ''responder'')"
    by blast
  from from_executor_path[OF u(1)] u(2)
  show "take 2 (fst (snd (from_executor w state s))) =
        [Executor,
         if success res \<and> truthy (dict_get (st_plan state) ''requires_viz'' JNull)
         then Viz_node else Responder]"
    by (simp add: node_of_name_def)
qed

theorem executor_next_node_witness:
  "st_raw_dataframe chart_plan_state = Some sample_lf
   \<and> fst (analyze (sample_world 2) PolarsAnalyst (st_user_question chart_plan_state) sample_lf ext0)
       = Inr \<lparr>success = True, result_df = Some sample_df, generated_code = ''result = lf.collect()'',
              error = None, attempts = 3\<rparr>
   \<and> truthy (dict_get (st_plan chart_plan_state) ''requires_viz'' JNull)
   \<and> take 2 (fst (snd (from_executor (sample_world 2) chart_plan_state ext0))) = [Executor, Viz_node]
   \<and> st_raw_dataframe (initial_state ''Top 5?'' None) = None
   \<and> take 2 (fst (snd (from_executor (sample_world 2) (initial_state ''Top 5?'' None) ext0)))
       = [Executor, Responder]"
proof -
  let ?A = "analyze (sample_world 2) PolarsAnalyst (st_user_question chart_plan_state) sample_lf ext0"
  have d: "st_raw_dataframe chart_plan_state = Some sample_lf"
    "st_raw_dataframe (initial_state ''Top 5?'' None) = None"
    by (simp_all add: chart_plan_state_def initial_state_def)
  have a: "fst ?A = Inr \<lparr>success = True, result_df = Some sample_df,
      generated_code = ''result = lf.collect()'', error = None, attempts = 3\<rparr>"
    by (simp add: analyze_def run_sample split: prod.splits)
  then have a': "?A = (Inr \<lparr>success = True, result_df = Some sample_df,
      generated_code = ''result = lf.collect()'', error = None, attempts = 3\<rparr>, snd ?A)"
    by (metis prod.collapse)
  have t: "truthy (dict_get (st_plan chart_plan_state) ''requires_viz'' JNull)"
    by (simp add: chart_plan_state_def dict_get_def)
  from executor_next_node[of chart_plan_state "sample_world 2" ext0 sample_lf _ "snd ?A"] d(1) a' t
  have 1: "take 2 (fst (snd (from_executor (sample_world 2) chart_plan_state ext0))) = [Executor, Viz_node]"
    by simp
  from executor_next_node[of "initial_state ''Top 5?'' None" "sample_world 2" ext0] d(2)
  have 2: "take 2 (fst (snd (from_executor (sample_world 2) (initial_state ''Top 5?'' None) ext0)))
       = [Executor, Responder]"
    by simp
  from d a t 1 2 show ?thesis by simp
qed

text \<open>
  Claim C9.  The return statement after the \<open>for\<close> statement of either retry loop (the
  generic "unexpected exit" failure) is never the one that produces the result: with a
  retry count that is not negative, whatever the model and the generated code do, a run
  of \<open>PolarsAnalyst.analyze\<close> or of \<open>VizGenerator.generate\<close> either raises or returns from
  inside the loop body.
\<close>

theorem post_loop_return_unreachable:
  "(0 \<le> pa_max_retries pa \<longrightarrow> fst (analyze_run w pa question lf s) \<noteq> Inr (After_loop, res))
   \<and> (0 \<le> vg_max_retries vg \<longrightarrow> fst (viz_run w vg question df s) \<noteq> Inr (After_loop, res'))"
proof (intro conjI impI)
  assume R: "0 \<le> pa_max_retries pa"
  obtain r its s' where run: "analyze_run w pa question lf s = (r, its, s')"
    by (cases "analyze_run w pa question lf s") auto
  from analyze_run_bound(5)[OF R run] run
  show "fst (analyze_run w pa question lf s) \<noteq> Inr (After_loop, res)" by simp
next
  assume R: "0 \<le> vg_max_retries vg"
  obtain r its s' where run: "viz_run w vg question df s = (r, its, s')"
    by (cases "viz_run w vg question df s") auto
  from viz_run_bound(5)[OF R run] run
  show "fst (viz_run w vg question df s) \<noteq> Inr (After_loop, res')" by simp
qed

text \<open>
  The instance at the two objects as their constructors build them (three retries), for
  every outside world, question, dataset and starting state.
\<close>

theorem post_loop_return_unreachable_witness:
  "0 \<le> pa_max_retries PolarsAnalyst \<and> 0 \<le> vg_max_retries VizGenerator
   \<and> (\<forall>w question lf s res. fst (analyze_run w PolarsAnalyst question lf s) \<noteq> Inr (After_loop, res))
   \<and> (\<forall>w question df s res. fst (viz_run w VizGenerator question df s) \<noteq> Inr (After_loop, res))"
  using post_loop_return_unreachable [of PolarsAnalyst _ _ _ _ _ VizGenerator]
  by (simp add: PolarsAnalyst_def VizGenerator_def)

text \<open>
  Claim C10 at a failing input.  The response \<open>" 42"\<close> has no \<open>plan\<close> tags; the whole
  stripped text is valid JSON and parses to the number 42.  The number is not adopted as
  the plan: \<open>plan.get\<close> raises an \<open>AttributeError\<close>, which nothing in \<open>planner_node\<close> catches.
\<close>

theorem json_number_is_not_a_plan:
  "re_search_tag ''plan'' '' 42'' = None
   \<and> json_loads (pipeline_world '' 42'') (strip '' 42'') = Inr (JInt 42)
   \<and> fst (planner_node (pipeline_world '' 42'') (initial_state ''Top 5?'' (Some sample_lf)) ext0)
       = Inl (own_exception (pipeline_world '' 42'') ''AttributeError''
                ([CHR 0x27] @ ''int'' @ [CHR 0x27] @ '' object has no attribute ''
                 @ [CHR 0x27] @ ''get'' @ [CHR 0x27]))"
proof -
  let ?w = "pipeline_world '' 42''"
  have tag: "re_search_tag ''plan'' '' 42'' = None" by (simp add: re_search_tag_def)
  have st: "strip '' 42'' = ''42''" by (simp add: strip_def is_space_def)
  have j: "json_loads ?w (strip '' 42'') = Inr (JInt 42)" by (simp add: st json_loads_pipeline)
  have raw: "planner_raw_json '' 42'' = ''42''" by (simp add: planner_raw_json_def tag st)
  have b: "build_llm ?w False = Inr sample_client"
    by (simp add: build_llm_pipeline sample_client_built)
  from planner_node_response[where w = "?w" and state = "initial_state ''Top 5?'' (Some sample_lf)"
      and s = ext0 and response = "'' 42''",
      OF b planner_schema_info_sample llm_invoke_pipeline_planner]
  have "fst (planner_node ?w (initial_state ''Top 5?'' (Some sample_lf)) ext0)
       = Inl (own_exception ?w ''AttributeError''
                ([CHR 0x27] @ ''int'' @ [CHR 0x27] @ '' object has no attribute ''
                 @ [CHR 0x27] @ ''get'' @ [CHR 0x27]))"
    by (simp add: raw planner_parse_def json_loads_pipeline)
  with tag j show ?thesis by blast
qed


end
